theory Spec2Isabelle
  imports Main "HOL-Library.Sublist"
begin

section \<open>The world setup.py runs in\<close>

text \<open>
  setup.py is a linear script over the filesystem and child processes. The model threads
  an explicit world through every function: the filesystem as a map from path strings to
  nodes, and the log of everything the program did, in order. A path is the string the
  program passes to the operating system; the program names each file by one string only.
  A Python exception is a value of \<open>exn\<close>; every function returns \<open>exn + result\<close>
  together with the new world.

  A file holds either a JSON document, kept as the value that \<open>json.load\<close> returns for
  it, or raw text that is no JSON document (the empty requirements file, the default main
  script). A JSON object is the dictionary Python makes of it, as an association list in
  the order of the dictionary; a number is kept as the text Python prints for it.
\<close>

datatype json =
    JNull
  | JBool bool
  | JNumber string
  | JString string
  | JArray "json list"
  | JObject "(string \<times> json) list"

datatype content = Json json | Raw string

datatype node = Dir | File content

type_synonym fsys = "string \<rightharpoonup> node"

datatype func =
    Load_config
  | Find_python_executable
  | Create_virtualenv
  | Install_requirements
  | Run_main_script
  | Cleanup_temp_files

datatype event =
    Called func
  | Printed string
  | Spawned "string list"
  | Wrote string content
  | RmTree string
  | Removed string
  | Chdir string

record world =
  fs :: fsys
  events :: "event list"

datatype exn =
    SystemExit int
  | IndexError
  | CalledProcessError int
  | OSError string
  | JSONDecodeError
  | UnicodeDecodeError
  | TypeError
  | AttributeError
  | KeyError

text \<open>
  What a child process did: it could not be started, or it exited with a return code and
  its captured output (\<open>None\<close> for bytes that do not decode).
\<close>

datatype proc_result = Spawn_failed | Exited int "string option"

text \<open>
  Everything the script reads from its surroundings and does not define itself:
  \<open>sys.argv[1:]\<close>, the directory of the script, \<open>sys.executable\<close>,
  \<open>sys.version.split()[0]\<close>, \<open>os.name\<close>, the platform's \<open>os.path\<close> functions, the text
  of the \<open>OSError\<close> raised for a path, and the behaviour of child processes: given the
  command and the world it is started in, a process result and the filesystem it leaves.

  The filesystem map holds no permissions and no parent directories. Whether the
  operating system refuses to open a path for writing or for reading, for a reason the map
  does not show (a missing parent directory, a directory or file without the permission, a
  read-only device), is read from the surroundings too: \<open>unwritable\<close> and \<open>unreadable\<close>.
\<close>

record env =
  argv :: "string list"
  script_dir :: string
  executable :: string
  sys_version :: string
  os_name :: string
  path_join :: "string \<Rightarrow> string \<Rightarrow> string"
  path_basename :: "string \<Rightarrow> string"
  path_inside :: "string \<Rightarrow> string \<Rightarrow> bool"
  strerror :: "string \<Rightarrow> string"
  unwritable :: "string \<Rightarrow> world \<Rightarrow> bool"
  unreadable :: "string \<Rightarrow> world \<Rightarrow> bool"
  proc :: "string list \<Rightarrow> world \<Rightarrow> proc_result \<times> fsys"

type_synonym 'a prog = "world \<Rightarrow> (exn + 'a) \<times> world"

definition ret :: "'a \<Rightarrow> 'a prog" where
  "ret x = (\<lambda>w. (Inr x, w))"

definition throw :: "exn \<Rightarrow> 'a prog" where
  "throw x = (\<lambda>w. (Inl x, w))"

definition bnd :: "'a prog \<Rightarrow> ('a \<Rightarrow> 'b prog) \<Rightarrow> 'b prog" where
  "bnd m f = (\<lambda>w. case m w of (Inl x, w') \<Rightarrow> (Inl x, w') | (Inr a, w') \<Rightarrow> f a w')"

definition thn :: "'a prog \<Rightarrow> 'b prog \<Rightarrow> 'b prog" where
  "thn m n = bnd m (\<lambda>_. n)"

definition log :: "event \<Rightarrow> unit prog" where
  "log ev = (\<lambda>w. (Inr (), w\<lparr>events := events w @ [ev]\<rparr>))"

definition print :: "string \<Rightarrow> unit prog" where
  "print s = log (Printed s)"

subsection \<open>Library calls\<close>

text \<open>
  \<open>os.remove\<close> deletes a regular file, \<open>shutil.rmtree\<close> deletes a directory with
  everything inside it; they fail on a node of the other kind. \<open>open(p, "w")\<close> creates or
  replaces a regular file; it raises \<open>OSError\<close> on a directory and wherever the operating
  system refuses the path, and then nothing is written. \<open>open(p, "r")\<close> raises \<open>OSError\<close>
  unless the path is a regular file that may be read; \<open>json.load\<close> returns the value
  of the document and raises on text that is no JSON document.
\<close>

definition os_path_exists :: "string \<Rightarrow> world \<Rightarrow> bool" where
  "os_path_exists p w = (fs w p \<noteq> None)"

text \<open>The statement \<open>if not os.path.exists(p): body\<close>.\<close>

definition unless_exists :: "string \<Rightarrow> unit prog \<Rightarrow> unit prog" where
  "unless_exists p body = (\<lambda>w. if \<not> os_path_exists p w then body w else (Inr (), w))"

definition write_file :: "env \<Rightarrow> string \<Rightarrow> content \<Rightarrow> unit prog" where
  "write_file e p c = (\<lambda>w.
     if fs w p = Some Dir \<or> unwritable e p w then (Inl (OSError (strerror e p)), w)
     else (Inr (), w\<lparr>fs := (fs w)(p \<mapsto> File c), events := events w @ [Wrote p c]\<rparr>))"

definition json_load_file :: "env \<Rightarrow> string \<Rightarrow> json prog" where
  "json_load_file e p = (\<lambda>w.
     case fs w p of
       Some (File c) \<Rightarrow>
         if unreadable e p w then (Inl (OSError (strerror e p)), w)
         else (case c of Json v \<Rightarrow> (Inr v, w) | Raw _ \<Rightarrow> (Inl JSONDecodeError, w))
     | _ \<Rightarrow> (Inl (OSError (strerror e p)), w))"

definition shutil_rmtree :: "env \<Rightarrow> string \<Rightarrow> unit prog" where
  "shutil_rmtree e p = (\<lambda>w.
     case fs w p of
       Some Dir \<Rightarrow>
         (Inr (), w\<lparr>fs := (\<lambda>q. if q = p \<or> path_inside e p q then None else fs w q),
                     events := events w @ [RmTree p]\<rparr>)
     | _ \<Rightarrow> (Inl (OSError (strerror e p)), w))"

definition os_remove :: "env \<Rightarrow> string \<Rightarrow> unit prog" where
  "os_remove e p = (\<lambda>w.
     case fs w p of
       Some (File _) \<Rightarrow> (Inr (), w\<lparr>fs := (fs w)(p := None), events := events w @ [Removed p]\<rparr>)
     | _ \<Rightarrow> (Inl (OSError (strerror e p)), w))"

text \<open>
  Starting a child process: the command is logged, then the child runs to its end and
  leaves its filesystem; a child that could not be started changes nothing.
  \<open>subprocess.run(cmd, check=True)\<close> raises \<open>CalledProcessError\<close> on a return code other
  than 0.
\<close>

definition spawn :: "env \<Rightarrow> string list \<Rightarrow> world \<Rightarrow> proc_result \<times> world" where
  "spawn e cmd w =
     (let w1 = w\<lparr>events := events w @ [Spawned cmd]\<rparr> in
      case proc e cmd w1 of
        (Spawn_failed, _) \<Rightarrow> (Spawn_failed, w1)
      | (Exited rc out, fs') \<Rightarrow> (Exited rc out, w1\<lparr>fs := fs'\<rparr>))"

definition subprocess_run :: "env \<Rightarrow> string list \<Rightarrow> unit prog" where
  "subprocess_run e cmd = (\<lambda>w.
     case spawn e cmd w of
       (Spawn_failed, w') \<Rightarrow> (Inl (OSError (strerror e (hd cmd))), w')
     | (Exited rc _, w') \<Rightarrow>
         if rc = 0 then (Inr (), w') else (Inl (CalledProcessError rc), w'))"

text \<open>
  \<open>subprocess.check_output(cmd, stderr=subprocess.STDOUT).decode()\<close>: as above, and the
  captured output is decoded, which raises on bytes that do not decode.
\<close>

definition check_output_decode :: "env \<Rightarrow> string list \<Rightarrow> string prog" where
  "check_output_decode e cmd = (\<lambda>w.
     case spawn e cmd w of
       (Spawn_failed, w') \<Rightarrow> (Inl (OSError (strerror e (hd cmd))), w')
     | (Exited rc out, w') \<Rightarrow>
         if rc \<noteq> 0 then (Inl (CalledProcessError rc), w')
         else (case out of
                 None \<Rightarrow> (Inl UnicodeDecodeError, w')
               | Some s \<Rightarrow> (Inr s, w')))"

text \<open>
  \<open>str.strip()\<close> removes leading and trailing whitespace: the characters for which
  \<open>str.isspace\<close> holds, here those with a code below 256.
\<close>

definition isspace :: "char \<Rightarrow> bool" where
  "isspace c = (of_char c \<in> set [9, 10, 11, 12, 13, 28, 29, 30, 31, 32, 133, 160 :: nat])"

definition strip :: "string \<Rightarrow> string" where
  "strip s = rev (dropWhile isspace (rev (dropWhile isspace s)))"

definition endswith :: "string \<Rightarrow> string \<Rightarrow> bool" where
  "endswith s t = suffix t s"

text \<open>
  \<open>repr\<close> of a string: in single quotes, or in double quotes when the string holds a
  single quote and no double quote; the quote and the backslash are escaped with a
  backslash, tab, newline and return are written as a backslash and \<open>t\<close>, \<open>n\<close>, \<open>r\<close>,
  every other character that is not printable as a backslash, \<open>x\<close> and two hexadecimal
  digits. \<open>repr\<close> of a list and of a dictionary is made of the \<open>repr\<close> of their members.
\<close>

definition hex_digit :: "nat \<Rightarrow> char" where
  "hex_digit n = ''0123456789abcdef'' ! (n mod 16)"

definition py_repr_char :: "char \<Rightarrow> char \<Rightarrow> string" where
  "py_repr_char quote c =
     (let n = (of_char c :: nat) in
      if c = quote \<or> c = CHR 0x5C then [CHR 0x5C, c]
      else if c = CHR 0x09 then [CHR 0x5C, CHR ''t'']
      else if c = CHR 0x0A then [CHR 0x5C, CHR ''n'']
      else if c = CHR 0x0D then [CHR 0x5C, CHR ''r'']
      else if n < 32 \<or> n = 127 \<or> (128 \<le> n \<and> n \<le> 160) \<or> n = 173
        then [CHR 0x5C, CHR ''x'', hex_digit (n div 16), hex_digit n]
      else [c])"

definition py_repr_str :: "string \<Rightarrow> string" where
  "py_repr_str s =
     (let quote = (if CHR 0x27 \<in> set s \<and> CHR 0x22 \<notin> set s then CHR 0x22 else CHR 0x27)
      in quote # concat (map (py_repr_char quote) s) @ [quote])"

fun join_comma :: "string list \<Rightarrow> string" where
  "join_comma [] = []"
| "join_comma [x] = x"
| "join_comma (x # y # ys) = x @ '', '' @ join_comma (y # ys)"

primrec py_repr :: "json \<Rightarrow> string" where
  "py_repr JNull = ''None''"
| "py_repr (JBool b) = (if b then ''True'' else ''False'')"
| "py_repr (JNumber n) = n"
| "py_repr (JString s) = py_repr_str s"
| "py_repr (JArray xs) = ''['' @ join_comma (map py_repr xs) @ '']''"
| "py_repr (JObject kvs) =
     ''{'' @ join_comma (map (\<lambda>(k, r). py_repr_str k @ '': '' @ r) (map (map_prod id py_repr) kvs))
       @ ''}''"

text \<open>
  \<open>config.get(key, default)\<close> on the loaded value: only a dictionary has the method
  \<open>get\<close>. \<open>os.path.join(a, b)\<close> raises \<open>TypeError\<close> on a component that is no string. In
  an f-string a string stands for itself and any other value for its \<open>str\<close>, which for a
  JSON value that is no string is its \<open>repr\<close>.
\<close>

definition config_get :: "json \<Rightarrow> string \<Rightarrow> string \<Rightarrow> json prog" where
  "config_get c k d =
     (case c of
        JObject kvs \<Rightarrow> ret (case map_of kvs k of None \<Rightarrow> JString d | Some v \<Rightarrow> v)
      | _ \<Rightarrow> throw AttributeError)"

definition os_path_join :: "env \<Rightarrow> string \<Rightarrow> json \<Rightarrow> string prog" where
  "os_path_join e a b = (case b of JString s \<Rightarrow> ret (path_join e a s) | _ \<Rightarrow> throw TypeError)"

definition format :: "json \<Rightarrow> string" where
  "format v = (case v of JString s \<Rightarrow> s | _ \<Rightarrow> py_repr v)"

section \<open>The functions of setup.py\<close>

definition default_config :: json where
  "default_config =
     JObject
       [(''project_name'', JString ''UnnamedProject''),
        (''main_file'', JString ''main.py''),
        (''requirements_file'', JString ''requirements.txt''),
        (''venv_dir'', JString ''venv''),
        (''python_version'', JString ''3.12'')]"

definition config_file :: "env \<Rightarrow> string" where
  "config_file e = path_join e (script_dir e) ''setup-config.json''"

definition load_config :: "env \<Rightarrow> (json \<times> string) prog" where
  "load_config e =
     thn (log (Called Load_config))
     (thn (unless_exists (config_file e)
            (thn (print ''Missing setup-config.json file. Creating default one...'')
            (thn (write_file e (config_file e) (Json default_config))
                 (print ''Created default setup-config.json.''))))
     (bnd (json_load_file e (config_file e)) (\<lambda>config. ret (config, script_dir e))))"

text \<open>
  The locator on a string, the type its docstring gives the argument. The candidate list
  is built first; \<open>version[0]\<close> raises \<open>IndexError\<close> on the empty string. The loop then
  probes each candidate; \<open>except Exception\<close> catches every exception of the probe but
  \<open>SystemExit\<close>, which is no \<open>Exception\<close>.
\<close>

definition candidates :: "string \<Rightarrow> exn + string list" where
  "candidates version =
     (case version of
        [] \<Rightarrow> Inl IndexError
      | c # _ \<Rightarrow> Inr [''python'' @ version, ''python'' @ [c], ''python''])"

fun probe_loop :: "env \<Rightarrow> string \<Rightarrow> string list \<Rightarrow> string option prog" where
  "probe_loop e version [] = ret None"
| "probe_loop e version (cmd # cmds) = (\<lambda>w.
     case check_output_decode e [cmd, ''--version''] w of
       (Inr output, w') \<Rightarrow>
         if endswith (strip output) version then (Inr (Some cmd), w')
         else probe_loop e version cmds w'
     | (Inl (SystemExit n), w') \<Rightarrow> (Inl (SystemExit n), w')
     | (Inl _, w') \<Rightarrow> probe_loop e version cmds w')"

definition find_python_executable :: "env \<Rightarrow> string \<Rightarrow> string option prog" where
  "find_python_executable e version =
     thn (log (Called Find_python_executable))
     (case candidates version of
        Inl x \<Rightarrow> throw x
      | Inr cs \<Rightarrow> probe_loop e version cs)"

text \<open>
  \<open>main\<close> passes the locator whatever the configuration holds under \<open>python_version\<close>;
  this is the locator on any JSON value. On a string it is the function above. On a value
  that is no string, \<open>version[0]\<close> raises \<open>TypeError\<close> on \<open>null\<close>, a boolean or a number,
  \<open>KeyError\<close> on a dictionary (its keys are strings) and \<open>IndexError\<close> on the empty
  list; on a non-empty list the candidates are probed and none is accepted, since
  \<open>endswith\<close> raises \<open>TypeError\<close> on a list, inside the \<open>try\<close>.
\<close>

definition candidates_any :: "json \<Rightarrow> exn + string list" where
  "candidates_any version =
     (case version of
        JString s \<Rightarrow> candidates s
      | JArray [] \<Rightarrow> Inl IndexError
      | JArray (x # _) \<Rightarrow> Inr [''python'' @ format version, ''python'' @ format x, ''python'']
      | JObject _ \<Rightarrow> Inl KeyError
      | _ \<Rightarrow> Inl TypeError)"

fun probe_loop_any :: "env \<Rightarrow> json \<Rightarrow> string list \<Rightarrow> string option prog" where
  "probe_loop_any e version [] = ret None"
| "probe_loop_any e version (cmd # cmds) = (\<lambda>w.
     case check_output_decode e [cmd, ''--version''] w of
       (Inr output, w') \<Rightarrow>
         (case version of
            JString s \<Rightarrow>
              if endswith (strip output) s then (Inr (Some cmd), w')
              else probe_loop_any e version cmds w'
          | _ \<Rightarrow> probe_loop_any e version cmds w')
     | (Inl (SystemExit n), w') \<Rightarrow> (Inl (SystemExit n), w')
     | (Inl _, w') \<Rightarrow> probe_loop_any e version cmds w')"

definition find_python_executable_any :: "env \<Rightarrow> json \<Rightarrow> string option prog" where
  "find_python_executable_any e version =
     thn (log (Called Find_python_executable))
     (case candidates_any version of
        Inl x \<Rightarrow> throw x
      | Inr cs \<Rightarrow> probe_loop_any e version cs)"

definition get_tool_path :: "env \<Rightarrow> string \<Rightarrow> string \<Rightarrow> string" where
  "get_tool_path e venv_dir tool =
     path_join e (path_join e venv_dir (if os_name e = ''nt'' then ''Scripts'' else ''bin'')) tool"

definition create_virtualenv :: "env \<Rightarrow> string \<Rightarrow> string \<Rightarrow> unit prog" where
  "create_virtualenv e python_exe venv_dir =
     thn (log (Called Create_virtualenv))
     (thn (print ''Creating virtual environment...'')
     (thn (subprocess_run e [python_exe, ''-m'', ''venv'', venv_dir])
     (thn (print ''Upgrading pip...'')
          (subprocess_run e
             [get_tool_path e venv_dir ''python'', ''-m'', ''pip'', ''install'', ''--upgrade'', ''pip'']))))"

definition install_requirements :: "env \<Rightarrow> string \<Rightarrow> string \<Rightarrow> unit prog" where
  "install_requirements e venv_dir requirements_file =
     thn (log (Called Install_requirements))
     (thn (unless_exists requirements_file
            (thn (print ''requirements.txt not found. Creating an empty one...'')
                 (write_file e requirements_file (Raw []))))
     (thn (print ''Installing requirements...'')
          (subprocess_run e [get_tool_path e venv_dir ''pip'', ''install'', ''-r'', requirements_file])))"

definition mode_tokens :: "string list" where
  "mode_tokens = [''install-only'', ''run-only'', ''full'']"

definition forwarded_args :: "string list \<Rightarrow> string list" where
  "forwarded_args args = filter (\<lambda>arg. arg \<notin> set (mode_tokens @ [''--clean''])) args"

definition default_main_text :: "env \<Rightarrow> string \<Rightarrow> string" where
  "default_main_text e main_file =
     ''print('' @ [CHR 0x22] @ ''Default '' @ path_basename e main_file @ '' is running!''
       @ [CHR 0x22] @ '')'' @ [CHR 0x0A]"

definition run_main_script :: "env \<Rightarrow> string \<Rightarrow> string \<Rightarrow> unit prog" where
  "run_main_script e venv_dir main_file =
     thn (log (Called Run_main_script))
     (thn (unless_exists main_file
            (thn (print ''Main script not found. Creating a default one...'')
                 (write_file e main_file (Raw (default_main_text e main_file)))))
     (thn (print (''Running '' @ main_file @ ''...''))
          (subprocess_run e ([get_tool_path e venv_dir ''python'', main_file] @ forwarded_args (argv e)))))"

text \<open>
  The removal is inside \<open>try\<close>: \<open>except Exception as e\<close> prints the exception and goes
  on. The messages printed on either side of the call cannot raise.
\<close>

definition temp_file :: "env \<Rightarrow> string \<Rightarrow> string" where
  "temp_file e dir = path_join e dir ''tempCodeRunnerFile.py''"

definition exn_text :: "exn \<Rightarrow> string" where
  "exn_text x = (case x of OSError s \<Rightarrow> s | _ \<Rightarrow> [])"

definition cleanup_temp_files :: "env \<Rightarrow> string \<Rightarrow> unit prog" where
  "cleanup_temp_files e dir =
     thn (log (Called Cleanup_temp_files))
     (\<lambda>w. if os_path_exists (temp_file e dir) w
          then (case os_remove e (temp_file e dir) w of
                  (Inr _, w') \<Rightarrow> print ''Removed tempCodeRunnerFile.py.'' w'
                | (Inl (SystemExit n), w') \<Rightarrow> (Inl (SystemExit n), w')
                | (Inl x, w') \<Rightarrow> print (''Failed to remove tempCodeRunnerFile.py: '' @ exn_text x) w')
          else ret () w)"

subsection \<open>main\<close>

text \<open>
  The argument loop of \<open>main\<close> (lines 146 to 156): the mode is the last mode token seen,
  \<open>clean_requested\<close> is set by any \<open>--clean\<close>; \<open>mode or "full"\<close> replaces \<open>None\<close> (and
  the empty string, which no token is) by \<open>full\<close>.
\<close>

fun arg_loop :: "string list \<Rightarrow> string option \<Rightarrow> bool \<Rightarrow> string option \<times> bool" where
  "arg_loop [] mode clean_requested = (mode, clean_requested)"
| "arg_loop (arg # args) mode clean_requested =
     (if arg \<in> set mode_tokens then arg_loop args (Some arg) clean_requested
      else if arg = ''--clean'' then arg_loop args mode True
      else arg_loop args mode clean_requested)"

definition or_full :: "string option \<Rightarrow> string" where
  "or_full mode = (case mode of None \<Rightarrow> ''full'' | Some m \<Rightarrow> if m = [] then ''full'' else m)"

definition selected_mode :: "string list \<Rightarrow> string" where
  "selected_mode args = or_full (fst (arg_loop args None False))"

definition clean_requested :: "string list \<Rightarrow> bool" where
  "clean_requested args = snd (arg_loop args None False)"

text \<open>
  Lines 139 to 144: the locator's answer, or \<open>sys.executable\<close> with a warning when the
  answer is falsy; first for a version that is a string, then for any JSON value.
\<close>

definition select_python :: "env \<Rightarrow> string \<Rightarrow> string prog" where
  "select_python e python_version =
     bnd (find_python_executable e python_version) (\<lambda>selected_python.
       case selected_python of
         Some s \<Rightarrow>
           if s \<noteq> [] then thn (print (''Found Python '' @ python_version @ '': '' @ s)) (ret s)
           else thn (print (''Warning: Could not find python'' @ python_version
                            @ ''. Using current Python: '' @ sys_version e)) (ret (executable e))
       | None \<Rightarrow>
           thn (print (''Warning: Could not find python'' @ python_version
                       @ ''. Using current Python: '' @ sys_version e)) (ret (executable e)))"

definition select_python_any :: "env \<Rightarrow> json \<Rightarrow> string prog" where
  "select_python_any e python_version =
     bnd (find_python_executable_any e python_version) (\<lambda>selected_python.
       case selected_python of
         Some s \<Rightarrow>
           if s \<noteq> [] then thn (print (''Found Python '' @ format python_version @ '': '' @ s)) (ret s)
           else thn (print (''Warning: Could not find python'' @ format python_version
                            @ ''. Using current Python: '' @ sys_version e)) (ret (executable e))
       | None \<Rightarrow>
           thn (print (''Warning: Could not find python'' @ format python_version
                       @ ''. Using current Python: '' @ sys_version e)) (ret (executable e)))"

text \<open>Lines 158 to 160: the removal that \<open>--clean\<close> asks for.\<close>

definition clean_step :: "env \<Rightarrow> bool \<Rightarrow> string \<Rightarrow> unit prog" where
  "clean_step e clean venv_dir = (\<lambda>w.
     if clean \<and> os_path_exists venv_dir w
     then thn (print ''Removing existing virtual environment...'') (shutil_rmtree e venv_dir) w
     else ret () w)"

text \<open>Lines 162 to 179: the dispatch on the mode.\<close>

definition ensure_venv :: "env \<Rightarrow> string \<Rightarrow> string \<Rightarrow> unit prog" where
  "ensure_venv e selected_python venv_dir =
     unless_exists venv_dir (create_virtualenv e selected_python venv_dir)"

definition dispatch :: "env \<Rightarrow> string \<Rightarrow> string \<Rightarrow> string \<Rightarrow> string \<Rightarrow> string \<Rightarrow> unit prog" where
  "dispatch e mode selected_python venv_dir requirements_file main_file =
     (if mode = ''install-only'' then
        thn (ensure_venv e selected_python venv_dir)
            (install_requirements e venv_dir requirements_file)
      else if mode = ''run-only'' then
        thn (unless_exists venv_dir
               (thn (print ''Virtual environment not found. Run with: python setup.py install-only or full'')
                    (throw (SystemExit 1))))
            (run_main_script e venv_dir main_file)
      else if mode = ''full'' then
        thn (ensure_venv e selected_python venv_dir)
            (thn (install_requirements e venv_dir requirements_file)
                 (run_main_script e venv_dir main_file))
      else
        thn (print (''Unknown mode: '' @ mode))
            (thn (print ''Usage: python setup.py [install-only|run-only|full] [--clean]'')
                 (throw (SystemExit 1))))"

text \<open>Lines 146 to 181, from the argument loop to the cleanup.\<close>

definition run_mode :: "env \<Rightarrow> string \<Rightarrow> string \<Rightarrow> string \<Rightarrow> string \<Rightarrow> string \<Rightarrow> unit prog" where
  "run_mode e dir selected_python venv_dir requirements_file main_file =
     thn (clean_step e (clean_requested (argv e)) venv_dir)
     (thn (dispatch e (selected_mode (argv e)) selected_python venv_dir requirements_file main_file)
          (cleanup_temp_files e dir))"

definition main :: "env \<Rightarrow> unit prog" where
  "main e =
     bnd (load_config e) (\<lambda>(config, dir).
     thn (log (Chdir dir))
     (bnd (bnd (config_get config ''main_file'' ''main.py'') (os_path_join e dir)) (\<lambda>main_file.
      bnd (bnd (config_get config ''requirements_file'' ''requirements.txt'') (os_path_join e dir))
        (\<lambda>requirements_file.
      bnd (bnd (config_get config ''venv_dir'' ''venv'') (os_path_join e dir)) (\<lambda>venv_dir.
      bnd (config_get config ''python_version'' ''3.12'') (\<lambda>python_version.
      bnd (select_python_any e python_version) (\<lambda>selected_python.
        run_mode e dir selected_python venv_dir requirements_file main_file)))))))"

text \<open>
  Lines 130 to 144 on their own: what \<open>main\<close> has done and computed when it reaches the
  argument loop.
\<close>

definition prologue :: "env \<Rightarrow> (string \<times> string \<times> string \<times> string \<times> string) prog" where
  "prologue e =
     bnd (load_config e) (\<lambda>(config, dir).
     thn (log (Chdir dir))
     (bnd (bnd (config_get config ''main_file'' ''main.py'') (os_path_join e dir)) (\<lambda>main_file.
      bnd (bnd (config_get config ''requirements_file'' ''requirements.txt'') (os_path_join e dir))
        (\<lambda>requirements_file.
      bnd (bnd (config_get config ''venv_dir'' ''venv'') (os_path_join e dir)) (\<lambda>venv_dir.
      bnd (config_get config ''python_version'' ''3.12'') (\<lambda>python_version.
      bnd (select_python_any e python_version) (\<lambda>selected_python.
        ret (dir, selected_python, venv_dir, requirements_file, main_file))))))))"

text \<open>The \<open>__main__\<close> block, and the exit status of the interpreter for an outcome.\<close>

definition script :: "env \<Rightarrow> unit prog" where
  "script e =
     bnd (load_config e) (\<lambda>(config, _).
     bnd (config_get config ''project_name'' ''Unnamed'') (\<lambda>project_name.
     thn (print (''Starting setup for project: '' @ format project_name))
         (main e)))"

definition exit_status :: "exn + unit \<Rightarrow> int" where
  "exit_status r = (case r of Inr _ \<Rightarrow> 0 | Inl (SystemExit n) \<Rightarrow> n | Inl _ \<Rightarrow> 1)"

section \<open>A concrete platform\<close>

text \<open>
  The POSIX versions of the \<open>os.path\<close> functions, and a machine on which \<open>python3\<close> is
  Python 3.12, no other interpreter name is on the search path, the \<open>venv\<close> module creates
  the directory it is given, and every other command succeeds without touching the
  filesystem. The script's directory \<open>/p\<close> can be written to; a file anywhere else can be
  created only in a directory that the filesystem map holds. Every file can be read.
\<close>

definition posix_join :: "string \<Rightarrow> string \<Rightarrow> string" where
  "posix_join a b =
     (if b \<noteq> [] \<and> hd b = CHR ''/'' then b
      else if a = [] \<or> last a = CHR ''/'' then a @ b
      else a @ ''/'' @ b)"

definition posix_basename :: "string \<Rightarrow> string" where
  "posix_basename p = rev (takeWhile (\<lambda>c. c \<noteq> CHR ''/'') (rev p))"

definition posix_dirname :: "string \<Rightarrow> string" where
  "posix_dirname p =
     (let head = rev (dropWhile (\<lambda>c. c \<noteq> CHR ''/'') (rev p))
      in if list_all (\<lambda>c. c = CHR ''/'') head then head
         else rev (dropWhile (\<lambda>c. c = CHR ''/'') (rev head)))"

definition posix_inside :: "string \<Rightarrow> string \<Rightarrow> bool" where
  "posix_inside p q = prefix (if p \<noteq> [] \<and> last p = CHR ''/'' then p else p @ ''/'') q"

definition demo_unwritable :: "string \<Rightarrow> world \<Rightarrow> bool" where
  "demo_unwritable p w = (posix_dirname p \<noteq> ''/p'' \<and> fs w (posix_dirname p) \<noteq> Some Dir)"

definition demo_proc :: "string list \<Rightarrow> world \<Rightarrow> proc_result \<times> fsys" where
  "demo_proc cmd w =
     (if length cmd = 2 \<and> cmd ! 1 = ''--version'' then
        (if cmd ! 0 = ''python3'' then (Exited 0 (Some (''Python 3.12'' @ [CHR 0x0A])), fs w)
         else (Spawn_failed, fs w))
      else if length cmd = 4 \<and> cmd ! 1 = ''-m'' \<and> cmd ! 2 = ''venv'' then
        (Exited 0 (Some []), (fs w)(cmd ! 3 \<mapsto> Dir))
      else (Exited 0 (Some []), fs w))"

definition demo_env :: "string list \<Rightarrow> env" where
  "demo_env args =
     \<lparr>argv = args, script_dir = ''/p'', executable = ''/usr/bin/python3'',
      sys_version = ''3.12.4'', os_name = ''posix'', path_join = posix_join,
      path_basename = posix_basename, path_inside = posix_inside,
      strerror = (\<lambda>p. ''[Errno] '' @ p),
      unwritable = demo_unwritable, unreadable = (\<lambda>p w. False), proc = demo_proc\<rparr>"

definition empty_world :: world where
  "empty_world = \<lparr>fs = Map.empty, events = []\<rparr>"

text \<open>
  The world in which \<open>main\<close>, started in the empty world on this platform, reaches its
  argument loop: the default configuration is written, and \<open>python3\<close> is found after
  \<open>python3.12\<close> could not be started.
\<close>

definition demo_start :: world where
  "demo_start =
     \<lparr>fs = [''/p/setup-config.json'' \<mapsto> File (Json default_config)],
      events =
        [Called Load_config,
         Printed ''Missing setup-config.json file. Creating default one...'',
         Wrote ''/p/setup-config.json'' (Json default_config),
         Printed ''Created default setup-config.json.'',
         Chdir ''/p'',
         Called Find_python_executable,
         Spawned [''python3.12'', ''--version''],
         Spawned [''python3'', ''--version''],
         Printed ''Found Python 3.12: python3'']\<rparr>"

text \<open>
  The world after \<open>main\<close> has run in \<open>full\<close> mode from the empty world on this platform:
  the environment, the empty requirements file and the default main script exist.
\<close>

definition demo_done :: world where
  "demo_done =
     \<lparr>fs = [''/p/setup-config.json'' \<mapsto> File (Json default_config),
            ''/p/venv'' \<mapsto> Dir,
            ''/p/requirements.txt'' \<mapsto> File (Raw []),
            ''/p/main.py'' \<mapsto> File (Raw (default_main_text (demo_env [''full'']) ''/p/main.py''))],
      events = events demo_start @
        [Called Create_virtualenv, Printed ''Creating virtual environment...'',
         Spawned [''python3'', ''-m'', ''venv'', ''/p/venv''], Printed ''Upgrading pip...'',
         Spawned [''/p/venv/bin/python'', ''-m'', ''pip'', ''install'', ''--upgrade'', ''pip''],
         Called Install_requirements,
         Printed ''requirements.txt not found. Creating an empty one...'',
         Wrote ''/p/requirements.txt'' (Raw []),
         Printed ''Installing requirements...'',
         Spawned [''/p/venv/bin/pip'', ''install'', ''-r'', ''/p/requirements.txt''],
         Called Run_main_script,
         Printed ''Main script not found. Creating a default one...'',
         Wrote ''/p/main.py'' (Raw (default_main_text (demo_env [''full'']) ''/p/main.py'')),
         Printed ''Running /p/main.py...'',
         Spawned [''/p/venv/bin/python'', ''/p/main.py''],
         Called Cleanup_temp_files]\<rparr>"

text \<open>What a second run in \<open>full\<close> mode appends to the log.\<close>

definition demo_second_run :: "event list" where
  "demo_second_run =
     [Called Load_config, Chdir ''/p'',
      Called Find_python_executable,
      Spawned [''python3.12'', ''--version''], Spawned [''python3'', ''--version''],
      Printed ''Found Python 3.12: python3'',
      Called Install_requirements, Printed ''Installing requirements...'',
      Spawned [''/p/venv/bin/pip'', ''install'', ''-r'', ''/p/requirements.txt''],
      Called Run_main_script, Printed ''Running /p/main.py...'',
      Spawned [''/p/venv/bin/python'', ''/p/main.py''],
      Called Cleanup_temp_files]"

section \<open>The specification's words\<close>

text \<open>
  Acceptance of a probe, as the specification words it: the candidate's \<open>--version\<close> output,
  stripped, ends with the desired version string. A probe that raised has no output.
\<close>

definition accepted :: "string \<Rightarrow> exn + string \<Rightarrow> bool" where
  "accepted version r = (case r of Inl _ \<Rightarrow> False | Inr output \<Rightarrow> suffix version (strip output))"

text \<open>
  The four side effects the specification names, read off the log: the removal of the
  environment is the \<open>rmtree\<close> call (the program has no other), the other three are the
  calls of the functions that perform them.
\<close>

datatype effect = Remove_env | Create_env | Install_deps | Run_script

fun effect_of :: "event \<Rightarrow> effect list" where
  "effect_of (RmTree _) = [Remove_env]"
| "effect_of (Called Create_virtualenv) = [Create_env]"
| "effect_of (Called Install_requirements) = [Install_deps]"
| "effect_of (Called Run_main_script) = [Run_script]"
| "effect_of _ = []"

definition effects :: "event list \<Rightarrow> effect list" where
  "effects evs = concat (map effect_of evs)"

text \<open>
  The effects the specification documents for a mode, the \<open>--clean\<close> flag and whether the
  environment directory exists when the argument loop is done: \<open>--clean\<close> removes an
  existing environment first; \<open>install-only\<close> ensures the environment exists and installs;
  \<open>run-only\<close> runs the script if the environment exists and does nothing otherwise;
  \<open>full\<close> ensures, installs and runs.
\<close>

definition documented_effects :: "string \<Rightarrow> bool \<Rightarrow> bool \<Rightarrow> effect list" where
  "documented_effects mode clean env_exists =
     (if clean \<and> env_exists then [Remove_env] else []) @
     (if mode = ''install-only'' then
        (if env_exists \<and> \<not> clean then [] else [Create_env]) @ [Install_deps]
      else if mode = ''run-only'' then
        (if env_exists \<and> \<not> clean then [Run_script] else [])
      else
        (if env_exists \<and> \<not> clean then [] else [Create_env]) @ [Install_deps, Run_script])"

text \<open>
  The step of the program that performs each effect: the removal that \<open>--clean\<close> asks
  for, and the three functions.
\<close>

fun perform :: "env \<Rightarrow> string \<Rightarrow> string \<Rightarrow> string \<Rightarrow> string \<Rightarrow> effect \<Rightarrow> unit prog" where
  "perform e selected_python venv_dir requirements_file main_file Remove_env =
     thn (print ''Removing existing virtual environment...'') (shutil_rmtree e venv_dir)"
| "perform e selected_python venv_dir requirements_file main_file Create_env =
     create_virtualenv e selected_python venv_dir"
| "perform e selected_python venv_dir requirements_file main_file Install_deps =
     install_requirements e venv_dir requirements_file"
| "perform e selected_python venv_dir requirements_file main_file Run_script =
     run_main_script e venv_dir main_file"

text \<open>Events that are none of the four effects and no call of a function.\<close>

fun plain :: "event \<Rightarrow> bool" where
  "plain (Printed _) = True"
| "plain (Spawned _) = True"
| "plain (Wrote _ _) = True"
| "plain (Removed _) = True"
| "plain _ = False"

section \<open>Vocabulary of the proofs\<close>

text \<open>
  A step is quiet when all it does to the log is append plain events. A program performs a
  list of effects from a world when the effects it logs are a prefix of the list, and the
  whole list when it returns.
\<close>

definition quiet :: "'a prog \<Rightarrow> bool" where
  "quiet m = (\<forall>w. \<exists>r fs' evs. m w = (r, w\<lparr>fs := fs', events := events w @ evs\<rparr>)
                 \<and> list_all plain evs)"

definition performs :: "'a prog \<Rightarrow> world \<Rightarrow> effect list \<Rightarrow> bool" where
  "performs m w D =
     (\<exists>evs. events (snd (m w)) = events w @ evs \<and> prefix (effects evs) D
        \<and> (\<not> isl (fst (m w)) \<longrightarrow> effects evs = D))"

text \<open>
  A list of effects performed one after the other, and how \<open>main\<close> ends once the effects of
  the mode are performed: with the exit of \<open>run-only\<close> when the environment is not there,
  with the cleanup otherwise.
\<close>

fun perform_all :: "env \<Rightarrow> string \<Rightarrow> string \<Rightarrow> string \<Rightarrow> string \<Rightarrow> effect list \<Rightarrow> unit prog" where
  "perform_all e sel venv req mf [] = ret ()"
| "perform_all e sel venv req mf (x # xs) =
     thn (perform e sel venv req mf x) (perform_all e sel venv req mf xs)"

definition finish :: "env \<Rightarrow> string \<Rightarrow> string \<Rightarrow> bool \<Rightarrow> unit prog" where
  "finish e dir mode present =
     (if mode = ''run-only'' \<and> \<not> present
      then thn (print ''Virtual environment not found. Run with: python setup.py install-only or full'')
               (throw (SystemExit 1))
      else cleanup_temp_files e dir)"

text \<open>A program does not exit from a world when its outcome there is no \<open>SystemExit\<close>.\<close>

definition no_exit :: "'a prog \<Rightarrow> world \<Rightarrow> bool" where
  "no_exit m w = (\<forall>n. fst (m w) \<noteq> Inl (SystemExit n))"

text \<open>
  Two properties a machine may have, of a path \<open>v\<close>: no child process removes what is at
  \<open>v\<close>; and a \<open>venv\<close> command that exits with status 0 leaves something at the path it was
  given. A program keeps \<open>v\<close> when \<open>v\<close> exists after it whenever it existed before.
\<close>

definition kept :: "string \<Rightarrow> 'a prog \<Rightarrow> bool" where
  "kept v m = (\<forall>w. fs w v \<noteq> None \<longrightarrow> fs (snd (m w)) v \<noteq> None)"

definition children_keep :: "env \<Rightarrow> string \<Rightarrow> bool" where
  "children_keep e v = (\<forall>cmd w. fs w v \<noteq> None \<longrightarrow> snd (proc e cmd w) v \<noteq> None)"

definition venv_makes :: "env \<Rightarrow> string \<Rightarrow> string \<Rightarrow> bool" where
  "venv_makes e py v =
     (\<forall>w out f. proc e [py, ''-m'', ''venv'', v] w = (Exited 0 out, f) \<longrightarrow> f v \<noteq> None)"

text \<open>
  What \<open>main\<close> may log before it reaches the argument loop: its calls of the loader and the
  locator, messages, the change of directory, \<open>--version\<close> probes, and the writing of the
  default configuration.
\<close>

fun startup_event :: "env \<Rightarrow> event \<Rightarrow> bool" where
  "startup_event e (Called f) = (f = Load_config \<or> f = Find_python_executable)"
| "startup_event e (Printed s) = True"
| "startup_event e (Chdir d) = True"
| "startup_event e (Spawned cmd) = (length cmd = 2 \<and> cmd ! 1 = ''--version'')"
| "startup_event e (Wrote p c) = (p = config_file e \<and> c = Json default_config)"
| "startup_event e (RmTree p) = False"
| "startup_event e (Removed p) = False"

section \<open>Basic facts about the combinators\<close>

lemma ret_apply [simp]: "ret x w = (Inr x, w)"
  by (simp add: ret_def)

lemma throw_apply [simp]: "throw x w = (Inl x, w)"
  by (simp add: throw_def)

lemma log_apply [simp]: "log ev w = (Inr (), w\<lparr>events := events w @ [ev]\<rparr>)"
  by (simp add: log_def)

lemma print_apply [simp]: "print s w = (Inr (), w\<lparr>events := events w @ [Printed s]\<rparr>)"
  by (simp add: print_def)

lemma thn_log [simp]: "thn (log ev) n w = n (w\<lparr>events := events w @ [ev]\<rparr>)"
  by (simp add: thn_def bnd_def)

lemma thn_print [simp]: "thn (print s) n w = n (w\<lparr>events := events w @ [Printed s]\<rparr>)"
  by (simp add: thn_def bnd_def)

lemma thn_apply:
  "thn m n w = (case m w of (Inl x, w') \<Rightarrow> (Inl x, w') | (Inr a, w') \<Rightarrow> n w')"
  by (simp add: thn_def bnd_def)

lemma bnd_ret [simp]: "bnd (ret x) f = f x"
  by (rule ext) (simp add: bnd_def)

lemma bnd_throw [simp]: "bnd (throw x) f = throw x"
  by (rule ext) (simp add: bnd_def)

lemma bnd_Pair [simp]:
  "bnd (Pair (Inr x)) f = f x"
  "bnd (Pair (Inl y)) f = Pair (Inl y)"
  by (rule ext, simp add: bnd_def)+

lemma bnd_assoc: "bnd (bnd m f) g = bnd m (\<lambda>x. bnd (f x) g)"
  by (rule ext) (simp add: bnd_def split: prod.splits sum.splits)

lemma thn_assoc: "thn (thn m n) k = thn m (thn n k)"
  by (simp add: thn_def bnd_assoc)

section \<open>The argument loop\<close>

lemma arg_loop_fst:
  "fst (arg_loop args mode c) =
     (if filter (\<lambda>a. a \<in> set mode_tokens) args = [] then mode
      else Some (last (filter (\<lambda>a. a \<in> set mode_tokens) args)))"
  by (induction args arbitrary: mode c) auto

lemma arg_loop_snd: "snd (arg_loop args mode c) = (c \<or> ''--clean'' \<in> set args)"
  by (induction args arbitrary: mode c) (auto simp: mode_tokens_def)

lemma clean_requested_iff: "clean_requested args = (''--clean'' \<in> set args)"
  by (simp add: clean_requested_def arg_loop_snd)

lemma selected_mode_eq:
  "selected_mode args =
     (if filter (\<lambda>a. a \<in> set mode_tokens) args = [] then ''full''
      else last (filter (\<lambda>a. a \<in> set mode_tokens) args))"
proof (cases "filter (\<lambda>a. a \<in> set mode_tokens) args = []")
  case True
  then show ?thesis by (simp add: selected_mode_def arg_loop_fst or_full_def)
next
  case False
  then have "last (filter (\<lambda>a. a \<in> set mode_tokens) args) \<in> set (filter (\<lambda>a. a \<in> set mode_tokens) args)"
    by (rule last_in_set)
  then have "last (filter (\<lambda>a. a \<in> set mode_tokens) args) \<in> set mode_tokens" by simp
  then have "last (filter (\<lambda>a. a \<in> set mode_tokens) args) \<noteq> []" by (auto simp: mode_tokens_def)
  with False show ?thesis by (simp add: selected_mode_def arg_loop_fst or_full_def)
qed

lemma selected_mode_token: "selected_mode args \<in> set mode_tokens"
proof (cases "filter (\<lambda>a. a \<in> set mode_tokens) args = []")
  case True
  then show ?thesis by (simp add: selected_mode_eq mode_tokens_def)
next
  case False
  then have "last (filter (\<lambda>a. a \<in> set mode_tokens) args) \<in> set (filter (\<lambda>a. a \<in> set mode_tokens) args)"
    by (rule last_in_set)
  with False show ?thesis by (simp add: selected_mode_eq)
qed

text \<open>
  C6. For every argument list the selected mode is the last mode token that occurs in it,
  and \<open>full\<close> when none occurs; it is always one of the three tokens.
\<close>

theorem selected_mode_last_wins:
  "selected_mode args =
     (if filter (\<lambda>a. a \<in> {''install-only'', ''run-only'', ''full''}) args = [] then ''full''
      else last (filter (\<lambda>a. a \<in> {''install-only'', ''run-only'', ''full''}) args))
   \<and> selected_mode args \<in> {''install-only'', ''run-only'', ''full''}"
proof -
  have set_eq: "set mode_tokens = {''install-only'', ''run-only'', ''full''}"
    by (simp add: mode_tokens_def)
  from selected_mode_eq [of args] selected_mode_token [of args] show ?thesis
    unfolding set_eq by simp
qed

section \<open>What each call leaves behind\<close>

lemma spawn_shape:
  "\<exists>res fs'. spawn e cmd w = (res, w\<lparr>fs := fs', events := events w @ [Spawned cmd]\<rparr>)"
proof (cases "proc e cmd (w\<lparr>events := events w @ [Spawned cmd]\<rparr>)")
  case (Pair res fs')
  show ?thesis
  proof (cases res)
    case Spawn_failed
    with Pair have "spawn e cmd w = (Spawn_failed, w\<lparr>fs := fs w, events := events w @ [Spawned cmd]\<rparr>)"
      by (simp add: spawn_def)
    then show ?thesis by blast
  next
    case (Exited rc out)
    with Pair have "spawn e cmd w = (Exited rc out, w\<lparr>fs := fs', events := events w @ [Spawned cmd]\<rparr>)"
      by (simp add: spawn_def)
    then show ?thesis by blast
  qed
qed

lemma subprocess_run_shape:
  "\<exists>r fs'. subprocess_run e cmd w = (r, w\<lparr>fs := fs', events := events w @ [Spawned cmd]\<rparr>)"
proof -
  from spawn_shape [of e cmd w] obtain res fs' where
    "spawn e cmd w = (res, w\<lparr>fs := fs', events := events w @ [Spawned cmd]\<rparr>)" by blast
  then show ?thesis
    by (cases res) (auto simp: subprocess_run_def)
qed

lemma check_output_decode_shape:
  "\<exists>r fs'. check_output_decode e cmd w = (r, w\<lparr>fs := fs', events := events w @ [Spawned cmd]\<rparr>)
     \<and> (\<forall>n. r \<noteq> Inl (SystemExit n))"
proof -
  from spawn_shape [of e cmd w] obtain res fs' where
    "spawn e cmd w = (res, w\<lparr>fs := fs', events := events w @ [Spawned cmd]\<rparr>)" by blast
  then show ?thesis
    by (cases res) (auto simp: check_output_decode_def split: option.splits)
qed

lemma unless_exists_write:
  "unless_exists p (thn (print s) (write_file e p c)) w =
     (if fs w p = None
      then (if unwritable e p (w\<lparr>events := events w @ [Printed s]\<rparr>)
            then (Inl (OSError (strerror e p)), w\<lparr>events := events w @ [Printed s]\<rparr>)
            else (Inr (), w\<lparr>fs := (fs w)(p \<mapsto> File c), events := events w @ [Printed s, Wrote p c]\<rparr>))
      else (Inr (), w))"
  by (simp add: unless_exists_def os_path_exists_def write_file_def)

lemma load_config_absent_eq:
  assumes "fs w (config_file e) = None"
  shows "load_config e w =
     (let w1 = w\<lparr>events := events w @
                  [Called Load_config,
                   Printed ''Missing setup-config.json file. Creating default one...'']\<rparr>;
          w2 = w\<lparr>fs := (fs w)(config_file e \<mapsto> File (Json default_config)),
                 events := events w @
                   [Called Load_config,
                    Printed ''Missing setup-config.json file. Creating default one...'',
                    Wrote (config_file e) (Json default_config),
                    Printed ''Created default setup-config.json.'']\<rparr>
      in if unwritable e (config_file e) w1 then (Inl (OSError (strerror e (config_file e))), w1)
         else if unreadable e (config_file e) w2 then (Inl (OSError (strerror e (config_file e))), w2)
         else (Inr (default_config, script_dir e), w2))"
  using assms
  by (simp add: load_config_def unless_exists_def os_path_exists_def write_file_def
      json_load_file_def thn_apply bnd_def Let_def)

lemma load_config_present:
  "fs w (config_file e) = Some (File (Json c)) \<Longrightarrow>
   \<not> unreadable e (config_file e) (w\<lparr>events := events w @ [Called Load_config]\<rparr>) \<Longrightarrow>
   load_config e w = (Inr (c, script_dir e), w\<lparr>events := events w @ [Called Load_config]\<rparr>)"
  by (simp add: load_config_def unless_exists_def os_path_exists_def
      json_load_file_def thn_apply bnd_def)

lemma probe_loop_total:
  "\<exists>r w'. probe_loop e v cs w = (Inr r, w') \<and> (r = None \<or> r \<in> Some ` set cs)"
proof (induction cs arbitrary: w)
  case Nil
  show ?case by simp
next
  case (Cons cmd cmds)
  from check_output_decode_shape [of e "[cmd, ''--version'']" w] obtain r0 w0 where
    p: "check_output_decode e [cmd, ''--version''] w = (r0, w0)" and
    ns: "\<forall>n. r0 \<noteq> Inl (SystemExit n)" by blast
  from Cons.IH [of w0] obtain r w' where
    rest: "probe_loop e v cmds w0 = (Inr r, w')" "r = None \<or> r \<in> Some ` set cmds" by blast
  show ?case
  proof (cases r0)
    case (Inl x)
    with ns have "\<forall>n. x \<noteq> SystemExit n" by simp
    with Inl p rest show ?thesis by (cases x) auto
  next
    case (Inr out)
    with p rest show ?thesis by auto
  qed
qed

section \<open>The configuration loader\<close>

text \<open>
  C4. When setup-config.json is absent, the loader writes the default record with exactly
  the five documented values, and what it then reads back and returns is that record. It
  does so unless the operating system refuses to open the file: when the write is refused
  the loader raises the I/O error and has written nothing; when the file has been written
  and the read is refused, it raises with the default record persisted.
\<close>

theorem load_config_writes_defaults:
  assumes "\<not> os_path_exists (config_file e) w"
  shows "load_config e w =
      (let w1 = w\<lparr>events := events w @
                   [Called Load_config,
                    Printed ''Missing setup-config.json file. Creating default one...'']\<rparr>;
           w2 = w\<lparr>fs := (fs w)(config_file e \<mapsto> File (Json default_config)),
                  events := events w @
                    [Called Load_config,
                     Printed ''Missing setup-config.json file. Creating default one...'',
                     Wrote (config_file e) (Json default_config),
                     Printed ''Created default setup-config.json.'']\<rparr>
       in if unwritable e (config_file e) w1 then (Inl (OSError (strerror e (config_file e))), w1)
          else if unreadable e (config_file e) w2 then (Inl (OSError (strerror e (config_file e))), w2)
          else (Inr (default_config, script_dir e), w2))
    \<and> default_config =
        JObject
          [(''project_name'', JString ''UnnamedProject''), (''main_file'', JString ''main.py''),
           (''requirements_file'', JString ''requirements.txt''), (''venv_dir'', JString ''venv''),
           (''python_version'', JString ''3.12'')]
    \<and> (\<forall>dir. fst (load_config e w) = Inr (default_config, dir) \<longrightarrow>
          json_load_file e (config_file e) (snd (load_config e w))
            = (Inr default_config, snd (load_config e w)))"
proof -
  from assms have absent: "fs w (config_file e) = None"
    by (simp add: os_path_exists_def)
  note run = load_config_absent_eq [OF absent]
  have reread: "json_load_file e (config_file e) (snd (load_config e w))
        = (Inr default_config, snd (load_config e w))"
    if "fst (load_config e w) = Inr (default_config, dir)" for dir
    using that unfolding run by (simp add: Let_def json_load_file_def split: if_splits)
  from run reread show ?thesis by (simp add: default_config_def)
qed

lemma demo_config_file: "config_file (demo_env args) = ''/p/setup-config.json''"
  by (simp add: config_file_def demo_env_def posix_join_def)

lemma demo_dirname:
  "posix_dirname ''/p/setup-config.json'' = ''/p''"
  "posix_dirname ''/p/requirements.txt'' = ''/p''"
  "posix_dirname ''/p/main.py'' = ''/p''"
  "posix_dirname ''/q/setup-config.json'' = ''/q''"
  by (simp_all add: posix_dirname_def)

lemma demo_writable [simp]:
  "unwritable (demo_env args) p w = (posix_dirname p \<noteq> ''/p'' \<and> fs w (posix_dirname p) \<noteq> Some Dir)"
  "unreadable (demo_env args) p w = False"
  by (simp_all add: demo_env_def demo_unwritable_def)

theorem load_config_writes_defaults_witness:
  "load_config (demo_env []) empty_world =
      (Inr (default_config, ''/p''),
       \<lparr>fs = [''/p/setup-config.json'' \<mapsto> File (Json default_config)],
        events =
           [Called Load_config,
            Printed ''Missing setup-config.json file. Creating default one...'',
            Wrote ''/p/setup-config.json'' (Json default_config),
            Printed ''Created default setup-config.json.'']\<rparr>)
   \<and> load_config ((demo_env [])\<lparr>script_dir := ''/q''\<rparr>) empty_world =
      (Inl (OSError ''[Errno] /q/setup-config.json''),
       \<lparr>fs = Map.empty,
        events =
           [Called Load_config,
            Printed ''Missing setup-config.json file. Creating default one...'']\<rparr>)"
proof -
  let ?q = "(demo_env [])\<lparr>script_dir := ''/q''\<rparr>"
  have absent: "\<not> os_path_exists (config_file (demo_env [])) empty_world"
    by (simp add: os_path_exists_def empty_world_def)
  have cq: "config_file ?q = ''/q/setup-config.json''"
    by (simp add: config_file_def demo_env_def posix_join_def)
  have absentq: "\<not> os_path_exists (config_file ?q) empty_world"
    by (simp add: os_path_exists_def empty_world_def)
  have uq: "unwritable ?q p w = demo_unwritable p w" "strerror ?q p = ''[Errno] '' @ p" for p w
    by (simp_all add: demo_env_def)
  from load_config_writes_defaults [OF absent, THEN conjunct1]
  have A: "load_config (demo_env []) empty_world =
      (Inr (default_config, ''/p''),
       \<lparr>fs = [''/p/setup-config.json'' \<mapsto> File (Json default_config)],
        events =
           [Called Load_config,
            Printed ''Missing setup-config.json file. Creating default one...'',
            Wrote ''/p/setup-config.json'' (Json default_config),
            Printed ''Created default setup-config.json.'']\<rparr>)"
    by (simp add: demo_config_file demo_dirname Let_def) (simp add: demo_env_def empty_world_def)
  from load_config_writes_defaults [OF absentq, THEN conjunct1]
  have B: "load_config ?q empty_world =
      (Inl (OSError ''[Errno] /q/setup-config.json''),
       \<lparr>fs = Map.empty,
        events =
           [Called Load_config,
            Printed ''Missing setup-config.json file. Creating default one...'']\<rparr>)"
    by (simp add: cq uq demo_unwritable_def demo_dirname Let_def)
      (simp add: empty_world_def demo_env_def)
  from A B show ?thesis ..
qed

section \<open>The script runner\<close>

lemma forwarded_args_eq:
  "forwarded_args args =
     filter (\<lambda>arg. arg \<notin> {''install-only'', ''run-only'', ''full'', ''--clean''}) args"
  by (simp add: forwarded_args_def mode_tokens_def)

lemma run_main_script_refused:
  assumes "fs w main_file = None"
    and "unwritable e main_file
           (w\<lparr>events := events w @
              [Called Run_main_script, Printed ''Main script not found. Creating a default one...'']\<rparr>)"
  shows "run_main_script e venv_dir main_file w =
      (Inl (OSError (strerror e main_file)),
       w\<lparr>events := events w @
          [Called Run_main_script, Printed ''Main script not found. Creating a default one...'']\<rparr>)"
  using assms by (simp add: run_main_script_def thn_apply [of "unless_exists _ _"] unless_exists_write)

lemma run_main_script_shape:
  assumes "\<not> (fs w main_file = None \<and>
      unwritable e main_file
        (w\<lparr>events := events w @
           [Called Run_main_script, Printed ''Main script not found. Creating a default one...'']\<rparr>))"
  shows "\<exists>r fs' evs. run_main_script e venv_dir main_file w =
      (r, w\<lparr>fs := fs', events := events w @ Called Run_main_script # evs @
            [Spawned ([get_tool_path e venv_dir ''python'', main_file] @ forwarded_args (argv e))]\<rparr>)
      \<and> (\<forall>ev \<in> set evs. \<exists>s p c. ev = Printed s \<or> ev = Wrote p c)"
proof -
  let ?c = "Raw (default_main_text e main_file)"
  let ?cmd = "[get_tool_path e venv_dir ''python'', main_file] @ forwarded_args (argv e)"
  let ?s = "''Main script not found. Creating a default one...''"
  let ?wini = "w\<lparr>events := events w @ [Called Run_main_script]\<rparr>"
  obtain w1 evs1 where
    u: "unless_exists main_file (thn (print ?s) (write_file e main_file ?c)) ?wini = (Inr (), w1)"
    and w1: "events w1 = events w @ Called Run_main_script # evs1"
    and evs1: "\<forall>ev \<in> set evs1. \<exists>s p c. ev = Printed s \<or> ev = Wrote p c"
    using assms by (cases "fs w main_file = None") (auto simp: unless_exists_write)
  let ?wtwo = "w1\<lparr>events := events w1 @ [Printed (''Running '' @ main_file @ ''...'')]\<rparr>"
  from subprocess_run_shape [of e ?cmd ?wtwo] obtain r fs' where
    sp: "subprocess_run e ?cmd ?wtwo = (r, ?wtwo\<lparr>fs := fs', events := events ?wtwo @ [Spawned ?cmd]\<rparr>)"
    by blast
  have "run_main_script e venv_dir main_file w =
      (r, ?wtwo\<lparr>fs := fs', events := events ?wtwo @ [Spawned ?cmd]\<rparr>)"
    using u sp by (simp add: run_main_script_def thn_def bnd_def)
  moreover have "?wtwo\<lparr>fs := fs', events := events ?wtwo @ [Spawned ?cmd]\<rparr> =
      w\<lparr>fs := fs', events := events w @ Called Run_main_script #
          (evs1 @ [Printed (''Running '' @ main_file @ ''...'')]) @ [Spawned ?cmd]\<rparr>"
    using w1 by (cases w, cases w1) simp
  ultimately show ?thesis using evs1
    by (intro exI [of _ r] exI [of _ fs'] exI [of _ "evs1 @ [Printed (''Running '' @ main_file @ ''...'')]"]) auto
qed

text \<open>
  C5. The command that the script runner starts is the environment's interpreter, the main
  file, and then exactly the arguments that are none of \<open>install-only\<close>, \<open>run-only\<close>,
  \<open>full\<close>, \<open>--clean\<close>, in their order; it is the only command the runner starts, and the
  last thing it does. For the arguments \<open>full --foo bar\<close> the script receives
  \<open>--foo bar\<close>. The runner starts no command in one case only: the main file is missing
  and the operating system refuses to create it; then the runner raises the I/O error.
\<close>

theorem run_main_script_forwards:
  "(if \<not> os_path_exists main_file w \<and>
        unwritable e main_file
          (w\<lparr>events := events w @
             [Called Run_main_script, Printed ''Main script not found. Creating a default one...'']\<rparr>)
    then run_main_script e venv_dir main_file w =
           (Inl (OSError (strerror e main_file)),
            w\<lparr>events := events w @
              [Called Run_main_script, Printed ''Main script not found. Creating a default one...'']\<rparr>)
       \<and> run_main_script (e\<lparr>argv := [''full'', ''--foo'', ''bar'']\<rparr>) venv_dir main_file w =
           (Inl (OSError (strerror e main_file)),
            w\<lparr>events := events w @
              [Called Run_main_script, Printed ''Main script not found. Creating a default one...'']\<rparr>)
    else (\<exists>r fs' evs. run_main_script e venv_dir main_file w =
           (r, w\<lparr>fs := fs', events := events w @ evs @
              [Spawned ([get_tool_path e venv_dir ''python'', main_file]
                 @ filter (\<lambda>arg. arg \<notin> {''install-only'', ''run-only'', ''full'', ''--clean''}) (argv e))]\<rparr>)
           \<and> (\<forall>c. Spawned c \<notin> set evs))
       \<and> (\<exists>r fs' evs.
             run_main_script (e\<lparr>argv := [''full'', ''--foo'', ''bar'']\<rparr>) venv_dir main_file w =
           (r, w\<lparr>fs := fs', events := events w @ evs @
              [Spawned [get_tool_path e venv_dir ''python'', main_file, ''--foo'', ''bar'']]\<rparr>)
           \<and> (\<forall>c. Spawned c \<notin> set evs)))"
proof -
  let ?wm = "w\<lparr>events := events w @
             [Called Run_main_script, Printed ''Main script not found. Creating a default one...'']\<rparr>"
  let ?a = "[''full'', ''--foo'', ''bar'']"
  have same: "unwritable (e\<lparr>argv := a\<rparr>) = unwritable e" "strerror (e\<lparr>argv := a\<rparr>) = strerror e"
    for a by simp_all
  have tp: "get_tool_path (e\<lparr>argv := a\<rparr>) v t = get_tool_path e v t" for a v t
    by (simp add: get_tool_path_def)
  have fw: "forwarded_args ?a = [''--foo'', ''bar'']"
    by (simp add: forwarded_args_def mode_tokens_def)
  show ?thesis
  proof (cases "\<not> os_path_exists main_file w \<and> unwritable e main_file ?wm")
    case True
    then have n: "fs w main_file = None" and u: "unwritable e main_file ?wm"
      by (simp_all add: os_path_exists_def)
    from u have u': "unwritable (e\<lparr>argv := ?a\<rparr>) main_file ?wm" by (simp only: same)
    from run_main_script_refused [OF n u, of venv_dir]
      run_main_script_refused [OF n u', of venv_dir] True
    show ?thesis by (simp add: same)
  next
    case False
    have gen: "\<exists>r fs' evs. run_main_script e' venv_dir main_file w =
        (r, w\<lparr>fs := fs', events := events w @ evs @
              [Spawned ([get_tool_path e' venv_dir ''python'', main_file] @ forwarded_args (argv e'))]\<rparr>)
        \<and> (\<forall>c. Spawned c \<notin> set evs)"
      if e': "unwritable e' = unwritable e" for e'
    proof -
      from False have "\<not> (fs w main_file = None \<and> unwritable e' main_file ?wm)"
        by (simp add: os_path_exists_def e')
      from run_main_script_shape [OF this, of venv_dir] obtain r fs' evs where
        eq: "run_main_script e' venv_dir main_file w =
          (r, w\<lparr>fs := fs', events := events w @ Called Run_main_script # evs @
              [Spawned ([get_tool_path e' venv_dir ''python'', main_file] @ forwarded_args (argv e'))]\<rparr>)"
        and evs: "\<forall>ev \<in> set evs. \<exists>s p c. ev = Printed s \<or> ev = Wrote p c"
        by blast
      from evs have "\<forall>c. Spawned c \<notin> set (Called Run_main_script # evs)" by auto
      with eq show ?thesis
        by (intro exI [of _ r] exI [of _ fs'] exI [of _ "Called Run_main_script # evs"]) simp
    qed
    from gen [of e] have first: "\<exists>r fs' evs. run_main_script e venv_dir main_file w =
        (r, w\<lparr>fs := fs', events := events w @ evs @
              [Spawned ([get_tool_path e venv_dir ''python'', main_file]
                 @ filter (\<lambda>arg. arg \<notin> {''install-only'', ''run-only'', ''full'', ''--clean''}) (argv e))]\<rparr>)
        \<and> (\<forall>c. Spawned c \<notin> set evs)"
      by (simp only: forwarded_args_eq)
    from gen [of "e\<lparr>argv := ?a\<rparr>"]
    have second: "\<exists>r fs' evs. run_main_script (e\<lparr>argv := ?a\<rparr>) venv_dir main_file w =
        (r, w\<lparr>fs := fs', events := events w @ evs @
              [Spawned [get_tool_path e venv_dir ''python'', main_file, ''--foo'', ''bar'']]\<rparr>)
        \<and> (\<forall>c. Spawned c \<notin> set evs)"
      by (simp add: tp fw)
    from False first second show ?thesis by (simp only: if_False)
  qed
qed

section \<open>The interpreter locator\<close>

lemma find_python_executable_empty:
  "find_python_executable e [] w =
     (Inl IndexError, w\<lparr>events := events w @ [Called Find_python_executable]\<rparr>)"
  by (simp add: find_python_executable_def candidates_def)

lemma find_python_executable_nonempty:
  "find_python_executable e (c # cs) w =
     probe_loop e (c # cs) [''python'' @ c # cs, ''python'' @ [c], ''python'']
       (w\<lparr>events := events w @ [Called Find_python_executable]\<rparr>)"
  by (simp add: find_python_executable_def candidates_def)

text \<open>
  C10. On the empty version string the locator raises \<open>IndexError\<close> while it builds the
  candidate list: no command has been probed, and the caller's fallback is not reached,
  the exception leaves it. On every non-empty version string the locator returns, with
  one of its three candidates or with \<open>None\<close>.
\<close>

theorem find_python_executable_total_on_nonempty:
  "find_python_executable e [] w =
     (Inl IndexError, w\<lparr>events := events w @ [Called Find_python_executable]\<rparr>)
   \<and> select_python e [] w =
     (Inl IndexError, w\<lparr>events := events w @ [Called Find_python_executable]\<rparr>)
   \<and> (\<exists>r w'. find_python_executable e (c # cs) w = (Inr r, w')
        \<and> (r = None \<or> r = Some (''python'' @ c # cs) \<or> r = Some (''python'' @ [c])
             \<or> r = Some ''python''))"
proof -
  have a: "find_python_executable e [] w =
     (Inl IndexError, w\<lparr>events := events w @ [Called Find_python_executable]\<rparr>)"
    by (rule find_python_executable_empty)
  have b: "select_python e [] w =
     (Inl IndexError, w\<lparr>events := events w @ [Called Find_python_executable]\<rparr>)"
    by (simp add: select_python_def bnd_def a)
  from probe_loop_total [of e "c # cs" "[''python'' @ c # cs, ''python'' @ [c], ''python'']"
      "w\<lparr>events := events w @ [Called Find_python_executable]\<rparr>"]
  have c: "\<exists>r w'. find_python_executable e (c # cs) w = (Inr r, w')
        \<and> (r = None \<or> r = Some (''python'' @ c # cs) \<or> r = Some (''python'' @ [c])
             \<or> r = Some ''python'')"
    unfolding find_python_executable_nonempty by auto
  from a b c show ?thesis by blast
qed

lemma probe_loop_step:
  assumes "check_output_decode e [cmd, ''--version''] w = (r, w')"
  shows "probe_loop e v (cmd # cmds) w =
       (if accepted v r then (Inr (Some cmd), w') else probe_loop e v cmds w')"
proof -
  from check_output_decode_shape [of e "[cmd, ''--version'']" w] assms
  have ns: "\<forall>n. r \<noteq> Inl (SystemExit n)" by auto
  show ?thesis
  proof (cases r)
    case (Inl x)
    with ns have "\<forall>n. x \<noteq> SystemExit n" by simp
    with Inl assms show ?thesis by (cases x) (auto simp: accepted_def)
  next
    case (Inr out)
    with assms show ?thesis by (simp add: accepted_def endswith_def)
  qed
qed

lemma select_python_None:
  "find_python_executable e v w = (Inr None, w') \<Longrightarrow>
   select_python e v w =
     (Inr (executable e),
      w'\<lparr>events := events w' @
        [Printed (''Warning: Could not find python'' @ v @ ''. Using current Python: '' @ sys_version e)]\<rparr>)"
  by (simp add: select_python_def bnd_def)

text \<open>
  The locator on a non-empty version string. It probes \<open>python<version>\<close>,
  \<open>python<major>\<close>, \<open>python\<close> in this order, each with \<open>--version\<close>; it accepts a candidate
  when the probe returned and its output, stripped, ends with the version string; it
  returns the first accepted candidate and probes no further, or \<open>None\<close> when none is
  accepted. When none is accepted the caller prints the warning and goes on with
  \<open>sys.executable\<close>.
\<close>

lemma locator_first_accepted:
  assumes nonempty: "version = c # cs"
    and p1: "check_output_decode e [''python'' @ version, ''--version'']
               (w\<lparr>events := events w @ [Called Find_python_executable]\<rparr>) = (r1, w1)"
    and p2: "check_output_decode e [''python'' @ [c], ''--version''] w1 = (r2, w2)"
    and p3: "check_output_decode e [''python'', ''--version''] w2 = (r3, w3)"
  shows "find_python_executable e version w =
          (if accepted version r1 then (Inr (Some (''python'' @ version)), w1)
           else if accepted version r2 then (Inr (Some (''python'' @ [c])), w2)
           else if accepted version r3 then (Inr (Some ''python''), w3)
           else (Inr None, w3))"
    and "\<not> accepted version r1 \<Longrightarrow> \<not> accepted version r2 \<Longrightarrow> \<not> accepted version r3 \<Longrightarrow>
         select_python e version w =
           (Inr (executable e),
            w3\<lparr>events := events w3 @
               [Printed (''Warning: Could not find python'' @ version
                         @ ''. Using current Python: '' @ sys_version e)]\<rparr>)"
proof -
  let ?v = "c # cs"
  let ?wini = "w\<lparr>events := events w @ [Called Find_python_executable]\<rparr>"
  from p1 have q1: "check_output_decode e [''python'' @ ?v, ''--version''] ?wini = (r1, w1)"
    by (simp add: nonempty)
  have s1: "probe_loop e ?v [''python'' @ ?v, ''python'' @ [c], ''python''] ?wini =
      (if accepted ?v r1 then (Inr (Some (''python'' @ ?v)), w1)
       else probe_loop e ?v [''python'' @ [c], ''python''] w1)"
    by (rule probe_loop_step [OF q1])
  have s2: "probe_loop e ?v [''python'' @ [c], ''python''] w1 =
      (if accepted ?v r2 then (Inr (Some (''python'' @ [c])), w2)
       else probe_loop e ?v [''python''] w2)"
    by (rule probe_loop_step [OF p2])
  have s3: "probe_loop e ?v [''python''] w2 =
      (if accepted ?v r3 then (Inr (Some ''python''), w3) else probe_loop e ?v [] w3)"
    by (rule probe_loop_step [OF p3])
  have s4: "probe_loop e ?v [] w3 = (Inr None, w3)"
    by simp
  show loc: "find_python_executable e version w =
          (if accepted version r1 then (Inr (Some (''python'' @ version)), w1)
           else if accepted version r2 then (Inr (Some (''python'' @ [c])), w2)
           else if accepted version r3 then (Inr (Some ''python''), w3)
           else (Inr None, w3))"
    unfolding nonempty find_python_executable_nonempty s1 s2 s3 s4 ..
  assume "\<not> accepted version r1" "\<not> accepted version r2" "\<not> accepted version r3"
  with loc have "find_python_executable e version w = (Inr None, w3)" by simp
  then show "select_python e version w =
           (Inr (executable e),
            w3\<lparr>events := events w3 @
               [Printed (''Warning: Could not find python'' @ version
                         @ ''. Using current Python: '' @ sys_version e)]\<rparr>)"
    by (rule select_python_None)
qed

lemma demo_probe_missing:
  "c \<noteq> ''python3'' \<Longrightarrow>
   check_output_decode (demo_env args) [c, ''--version''] w =
     (Inl (OSError (''[Errno] '' @ c)), w\<lparr>events := events w @ [Spawned [c, ''--version'']]\<rparr>)"
  by (simp add: check_output_decode_def spawn_def demo_env_def demo_proc_def)

lemma demo_probe_python3:
  "check_output_decode (demo_env args) [''python3'', ''--version''] w =
     (Inr (''Python 3.12'' @ [CHR 0x0A]), w\<lparr>events := events w @ [Spawned [''python3'', ''--version'']]\<rparr>)"
  by (simp add: check_output_decode_def spawn_def demo_env_def demo_proc_def)

lemma probe_loop_any_string: "probe_loop_any e (JString s) cs = probe_loop e s cs"
proof (induction cs)
  case Nil
  show ?case by simp
next
  case (Cons cmd cmds)
  show ?case
  proof (rule ext)
    fix w
    obtain r w' where p: "check_output_decode e [cmd, ''--version''] w = (r, w')"
      by (cases "check_output_decode e [cmd, ''--version''] w")
    show "probe_loop_any e (JString s) (cmd # cmds) w = probe_loop e s (cmd # cmds) w"
    proof (cases r)
      case (Inl x)
      with p Cons.IH show ?thesis by (cases x) simp_all
    next
      case (Inr out)
      with p Cons.IH show ?thesis by simp
    qed
  qed
qed

lemma find_python_executable_any_string:
  "find_python_executable_any e (JString s) = find_python_executable e s"
  by (simp add: find_python_executable_any_def find_python_executable_def candidates_any_def
      probe_loop_any_string cong: sum.case_cong)

lemma select_python_any_string: "select_python_any e (JString s) = select_python e s"
  by (simp add: select_python_any_def select_python_def find_python_executable_any_string
      format_def cong: option.case_cong if_cong)

lemma prologue_of_strings:
  assumes "load_config e w0 = (Inr (JObject kvs, dir), wa)"
    and "map_of kvs ''main_file'' \<in> {None, Some (JString ''main.py'')}"
    and "map_of kvs ''requirements_file'' \<in> {None, Some (JString ''requirements.txt'')}"
    and "map_of kvs ''venv_dir'' \<in> {None, Some (JString ''venv'')}"
    and "map_of kvs ''python_version'' \<in> {None, Some (JString v)} \<and> (map_of kvs ''python_version'' = None \<longrightarrow> v = ''3.12'')"
  shows "prologue e w0 =
     bnd (select_python e v)
       (\<lambda>sel. ret (dir, sel, path_join e dir ''venv'', path_join e dir ''requirements.txt'',
                   path_join e dir ''main.py''))
       (wa\<lparr>events := events wa @ [Chdir dir]\<rparr>)"
  using assms
  by (auto simp: prologue_def bnd_def [of "load_config e"] config_get_def os_path_join_def
      select_python_any_string)

text \<open>
  C3 at the empty version string, which a configuration file may hold. The locator returns
  neither a candidate nor \<open>None\<close>: \<open>version[0]\<close> raises \<open>IndexError\<close> outside the \<open>try\<close>
  that catches every failure of a probe. No command has been probed, the caller does not
  fall back, and \<open>main\<close> ends with the exception.
\<close>

theorem locator_empty_version_raises:
  "find_python_executable (demo_env []) [] empty_world =
     (Inl IndexError, \<lparr>fs = Map.empty, events = [Called Find_python_executable]\<rparr>)
   \<and> fst (select_python (demo_env []) [] empty_world) = Inl IndexError
   \<and> main (demo_env [])
       \<lparr>fs = [''/p/setup-config.json'' \<mapsto> File (Json (JObject [(''python_version'', JString [])]))],
        events = []\<rparr> =
     (Inl IndexError,
      \<lparr>fs = [''/p/setup-config.json'' \<mapsto> File (Json (JObject [(''python_version'', JString [])]))],
       events = [Called Load_config, Chdir ''/p'', Called Find_python_executable]\<rparr>)"
proof -
  let ?e = "demo_env []"
  let ?cfg = "JObject [(''python_version'', JString [])]"
  let ?F = "[''/p/setup-config.json'' \<mapsto> File (Json ?cfg)]"
  have a: "find_python_executable ?e [] empty_world =
     (Inl IndexError, \<lparr>fs = Map.empty, events = [Called Find_python_executable]\<rparr>)"
    by (simp add: find_python_executable_empty empty_world_def)
  have b: "fst (select_python ?e [] empty_world) = Inl IndexError"
    by (simp add: find_python_executable_empty select_python_def bnd_def)
  have lc: "load_config ?e \<lparr>fs = ?F, events = []\<rparr> =
      (Inr (?cfg, ''/p''), \<lparr>fs = ?F, events = [Called Load_config]\<rparr>)"
    using load_config_present [of "\<lparr>fs = ?F, events = []\<rparr>" ?e ?cfg]
    by (simp add: demo_config_file) (simp add: demo_env_def)
  have c: "main ?e \<lparr>fs = ?F, events = []\<rparr> =
     (Inl IndexError,
      \<lparr>fs = ?F, events = [Called Load_config, Chdir ''/p'', Called Find_python_executable]\<rparr>)"
    by (simp add: main_def bnd_def lc config_get_def os_path_join_def
        select_python_any_string select_python_def find_python_executable_empty)
  from a b c show ?thesis by blast
qed

section \<open>The mode dispatch\<close>

lemma main_prologue:
  "main e = bnd (prologue e) (\<lambda>(dir, selected_python, venv_dir, requirements_file, main_file).
      run_mode e dir selected_python venv_dir requirements_file main_file)"
  by (rule ext)
    (simp add: main_def prologue_def bnd_def Let_def split: prod.splits sum.splits)

lemma main_at_dispatch:
  "prologue e w0 = (Inr (dir, sel, venv, req, mf), w) \<Longrightarrow>
   main e w0 = run_mode e dir sel venv req mf w"
  by (simp add: main_prologue bnd_def)

lemma clean_step_skip:
  "\<not> (clean \<and> os_path_exists v w) \<Longrightarrow> clean_step e clean v w = (Inr (), w)"
  by (auto simp: clean_step_def)

lemma clean_step_dir:
  "clean \<Longrightarrow> fs w v = Some Dir \<Longrightarrow>
   clean_step e clean v w =
     (Inr (), w\<lparr>fs := (\<lambda>q. if q = v \<or> path_inside e v q then None else fs w q),
               events := events w @ [Printed ''Removing existing virtual environment...'', RmTree v]\<rparr>)"
  by (simp add: clean_step_def os_path_exists_def shutil_rmtree_def cong: if_cong)

lemma clean_step_file:
  "clean \<Longrightarrow> fs w v = Some (File c) \<Longrightarrow>
   clean_step e clean v w =
     (Inl (OSError (strerror e v)),
      w\<lparr>events := events w @ [Printed ''Removing existing virtual environment...'']\<rparr>)"
  by (simp add: clean_step_def os_path_exists_def shutil_rmtree_def)

lemma cleanup_temp_files_eq:
  "cleanup_temp_files e dir w =
     (Inr (),
      case fs w (temp_file e dir) of
        None \<Rightarrow> w\<lparr>events := events w @ [Called Cleanup_temp_files]\<rparr>
      | Some Dir \<Rightarrow>
          w\<lparr>events := events w @
            [Called Cleanup_temp_files,
             Printed (''Failed to remove tempCodeRunnerFile.py: '' @ strerror e (temp_file e dir))]\<rparr>
      | Some (File c) \<Rightarrow>
          w\<lparr>fs := (fs w)(temp_file e dir := None),
            events := events w @
              [Called Cleanup_temp_files, Removed (temp_file e dir),
               Printed ''Removed tempCodeRunnerFile.py.'']\<rparr>)"
  by (simp add: cleanup_temp_files_def os_path_exists_def os_remove_def exn_text_def
      split: option.splits node.splits)

lemma dispatch_run_only_absent:
  "\<not> os_path_exists v w \<Longrightarrow>
   dispatch e ''run-only'' sel v req mf w =
     (Inl (SystemExit 1),
      w\<lparr>events := events w @
        [Printed ''Virtual environment not found. Run with: python setup.py install-only or full'']\<rparr>)"
  by (simp add: dispatch_def unless_exists_def thn_def bnd_def)

lemma run_mode_steps:
  "clean_step e (clean_requested (argv e)) venv w = (Inr (), wc) \<Longrightarrow>
   dispatch e (selected_mode (argv e)) sel venv req mf wc = (Inr (), wd) \<Longrightarrow>
   run_mode e dir sel venv req mf w = cleanup_temp_files e dir wd"
  by (simp add: run_mode_def thn_def bnd_def)

lemma run_mode_dispatch_raises:
  "clean_step e (clean_requested (argv e)) venv w = (Inr (), wc) \<Longrightarrow>
   dispatch e (selected_mode (argv e)) sel venv req mf wc = (Inl x, wd) \<Longrightarrow>
   run_mode e dir sel venv req mf w = (Inl x, wd)"
  by (simp add: run_mode_def thn_def bnd_def)

section \<open>The concrete platform at work\<close>

lemma demo_find_python:
  "find_python_executable (demo_env args) ''3.12'' w =
     (Inr (Some ''python3''),
      w\<lparr>events := events w @
        [Called Find_python_executable, Spawned [''python3.12'', ''--version''],
         Spawned [''python3'', ''--version'']]\<rparr>)"
proof -
  let ?e = "demo_env args"
  let ?wf = "w\<lparr>events := events w @ [Called Find_python_executable]\<rparr>"
  let ?wone = "w\<lparr>events := events w @
        [Called Find_python_executable, Spawned [''python3.12'', ''--version'']]\<rparr>"
  let ?wtwo = "w\<lparr>events := events w @
        [Called Find_python_executable, Spawned [''python3.12'', ''--version''],
         Spawned [''python3'', ''--version'']]\<rparr>"
  have p1: "check_output_decode ?e [''python3.12'', ''--version''] ?wf
      = (Inl (OSError ''[Errno] python3.12''), ?wone)"
    by (simp add: demo_probe_missing)
  have p2: "check_output_decode ?e [''python3'', ''--version''] ?wone
      = (Inr (''Python 3.12'' @ [CHR 0x0A]), ?wtwo)"
    using demo_probe_python3 [of args ?wone] by simp
  have a1: "\<not> accepted ''3.12'' (Inl (OSError ''[Errno] python3.12''))"
    by (simp add: accepted_def)
  have a2: "accepted ''3.12'' (Inr (''Python 3.12'' @ [CHR 0x0A]))"
    by (simp add: accepted_def strip_def isspace_def suffix_to_prefix)
  have "find_python_executable ?e ''3.12'' w =
      probe_loop ?e ''3.12'' [''python3.12'', ''python3'', ''python''] ?wf"
    using find_python_executable_nonempty [of ?e "CHR ''3''" "''.12''" w] by simp
  also have "\<dots> = probe_loop ?e ''3.12'' [''python3'', ''python''] ?wone"
    using probe_loop_step [OF p1, of "''3.12''" "[''python3'', ''python'']"] a1 by simp
  also have "\<dots> = (Inr (Some ''python3''), ?wtwo)"
    using probe_loop_step [OF p2, of "''3.12''" "[''python'']"] a2 by simp
  finally show ?thesis .
qed

lemma default_config_fields:
  "default_config = JObject kvs \<Longrightarrow>
     map_of kvs ''main_file'' = Some (JString ''main.py'')
   \<and> map_of kvs ''requirements_file'' = Some (JString ''requirements.txt'')
   \<and> map_of kvs ''venv_dir'' = Some (JString ''venv'')
   \<and> map_of kvs ''python_version'' = Some (JString ''3.12'')"
  by (auto simp: default_config_def)

lemma demo_prologue_loaded:
  assumes "load_config (demo_env args) w0 = (Inr (default_config, ''/p''), wa)"
  shows "prologue (demo_env args) w0 =
     (Inr (''/p'', ''python3'', ''/p/venv'', ''/p/requirements.txt'', ''/p/main.py''),
      wa\<lparr>events := events wa @
        [Chdir ''/p'', Called Find_python_executable,
         Spawned [''python3.12'', ''--version''], Spawned [''python3'', ''--version''],
         Printed ''Found Python 3.12: python3'']\<rparr>)"
proof -
  let ?e = "demo_env args"
  obtain kvs where kvs: "default_config = JObject kvs" by (simp add: default_config_def)
  note f = default_config_fields [OF kvs]
  have paths: "path_join ?e ''/p'' ''venv'' = ''/p/venv''"
    "path_join ?e ''/p'' ''requirements.txt'' = ''/p/requirements.txt''"
    "path_join ?e ''/p'' ''main.py'' = ''/p/main.py''"
    by (simp_all add: demo_env_def posix_join_def)
  have sp: "select_python ?e ''3.12'' wx
      = (Inr ''python3'',
         wx\<lparr>events := events wx @
           [Called Find_python_executable, Spawned [''python3.12'', ''--version''],
            Spawned [''python3'', ''--version''], Printed ''Found Python 3.12: python3'']\<rparr>)" for wx
    by (simp add: select_python_def bnd_def demo_find_python)
  from assms kvs have lc: "load_config ?e w0 = (Inr (JObject kvs, ''/p''), wa)" by simp
  from prologue_of_strings [OF lc, of "''3.12''"] f show ?thesis
    by (simp add: paths bnd_def [of "select_python _ _"] sp)
qed

lemma demo_prologue:
  "prologue (demo_env args) empty_world =
     (Inr (''/p'', ''python3'', ''/p/venv'', ''/p/requirements.txt'', ''/p/main.py''), demo_start)"
proof -
  let ?e = "demo_env args"
  let ?wld = "\<lparr>fs = [''/p/setup-config.json'' \<mapsto> File (Json default_config)],
      events = [Called Load_config,
         Printed ''Missing setup-config.json file. Creating default one...'',
         Wrote ''/p/setup-config.json'' (Json default_config),
         Printed ''Created default setup-config.json.'']\<rparr>"
  have absent: "fs empty_world (config_file ?e) = None"
    by (simp add: empty_world_def)
  have sd: "script_dir ?e = ''/p''"
    by (simp add: demo_env_def)
  have "load_config ?e empty_world = (Inr (default_config, ''/p''), ?wld)"
    by (simp add: load_config_absent_eq [OF absent] Let_def demo_config_file demo_dirname sd)
      (simp add: empty_world_def)
  from demo_prologue_loaded [OF this] show ?thesis
    by (simp add: demo_start_def)
qed

section \<open>The cleanup\<close>

lemma demo_mode_run_only:
  "selected_mode (argv (demo_env [''run-only''])) = ''run-only''"
  "\<not> clean_requested (argv (demo_env [''run-only'']))"
  by (simp_all add: demo_env_def selected_mode_def clean_requested_def mode_tokens_def or_full_def)

lemma demo_start_no_venv: "\<not> os_path_exists ''/p/venv'' demo_start"
  by (simp add: os_path_exists_def demo_start_def)

text \<open>
  C9. Once \<open>main\<close> has reached the argument loop, it calls \<open>cleanup_temp_files\<close> exactly
  when the removal step and the mode dispatch have both returned, whatever the mode. The
  cleanup never raises: it touches only the file \<open>tempCodeRunnerFile.py\<close> in the script's
  directory, removes it when it is a regular file, and prints the failure and returns when
  the removal fails. In \<open>run-only\<close> mode without an environment \<open>main\<close> exits with status 1
  after the error message, and the cleanup is not called.
\<close>

theorem cleanup_after_dispatch:
  assumes at: "prologue e w0 = (Inr (dir, sel, venv, req, mf), w)"
  shows "main e w0 =
      (case clean_step e (clean_requested (argv e)) venv w of
         (Inl x, wc) \<Rightarrow> (Inl x, wc)
       | (Inr _, wc) \<Rightarrow>
           (case dispatch e (selected_mode (argv e)) sel venv req mf wc of
              (Inl x, wd) \<Rightarrow> (Inl x, wd)
            | (Inr _, wd) \<Rightarrow> cleanup_temp_files e dir wd))
    \<and> (\<forall>wd. cleanup_temp_files e dir wd =
         (Inr (),
          case fs wd (path_join e dir ''tempCodeRunnerFile.py'') of
            None \<Rightarrow> wd\<lparr>events := events wd @ [Called Cleanup_temp_files]\<rparr>
          | Some Dir \<Rightarrow>
              wd\<lparr>events := events wd @
                [Called Cleanup_temp_files,
                 Printed (''Failed to remove tempCodeRunnerFile.py: ''
                          @ strerror e (path_join e dir ''tempCodeRunnerFile.py''))]\<rparr>
          | Some (File c) \<Rightarrow>
              wd\<lparr>fs := (fs wd)(path_join e dir ''tempCodeRunnerFile.py'' := None),
                 events := events wd @
                   [Called Cleanup_temp_files, Removed (path_join e dir ''tempCodeRunnerFile.py''),
                    Printed ''Removed tempCodeRunnerFile.py.'']\<rparr>))
    \<and> (\<forall>wc. selected_mode (argv e) = ''run-only''
           \<and> clean_step e (clean_requested (argv e)) venv w = (Inr (), wc)
           \<and> \<not> os_path_exists venv wc
         \<longrightarrow> main e w0 =
             (Inl (SystemExit 1),
              wc\<lparr>events := events wc @
                [Printed ''Virtual environment not found. Run with: python setup.py install-only or full'']\<rparr>)
           \<and> exit_status (fst (main e w0)) = 1)"
proof -
  note m = main_at_dispatch [OF at]
  have a: "main e w0 =
      (case clean_step e (clean_requested (argv e)) venv w of
         (Inl x, wc) \<Rightarrow> (Inl x, wc)
       | (Inr _, wc) \<Rightarrow>
           (case dispatch e (selected_mode (argv e)) sel venv req mf wc of
              (Inl x, wd) \<Rightarrow> (Inl x, wd)
            | (Inr _, wd) \<Rightarrow> cleanup_temp_files e dir wd))"
    unfolding m run_mode_def thn_def bnd_def ..
  have b: "cleanup_temp_files e dir wd =
         (Inr (),
          case fs wd (path_join e dir ''tempCodeRunnerFile.py'') of
            None \<Rightarrow> wd\<lparr>events := events wd @ [Called Cleanup_temp_files]\<rparr>
          | Some Dir \<Rightarrow>
              wd\<lparr>events := events wd @
                [Called Cleanup_temp_files,
                 Printed (''Failed to remove tempCodeRunnerFile.py: ''
                          @ strerror e (path_join e dir ''tempCodeRunnerFile.py''))]\<rparr>
          | Some (File c) \<Rightarrow>
              wd\<lparr>fs := (fs wd)(path_join e dir ''tempCodeRunnerFile.py'' := None),
                 events := events wd @
                   [Called Cleanup_temp_files, Removed (path_join e dir ''tempCodeRunnerFile.py''),
                    Printed ''Removed tempCodeRunnerFile.py.'']\<rparr>)" for wd
    by (rule cleanup_temp_files_eq [of e dir wd, unfolded temp_file_def])
  have c: "main e w0 =
             (Inl (SystemExit 1),
              wc\<lparr>events := events wc @
                [Printed ''Virtual environment not found. Run with: python setup.py install-only or full'']\<rparr>)
           \<and> exit_status (fst (main e w0)) = 1"
    if mode: "selected_mode (argv e) = ''run-only''"
      and cs: "clean_step e (clean_requested (argv e)) venv w = (Inr (), wc)"
      and absent: "\<not> os_path_exists venv wc" for wc
  proof -
    from dispatch_run_only_absent [OF absent, of e sel req mf] mode
    have d: "dispatch e (selected_mode (argv e)) sel venv req mf wc =
        (Inl (SystemExit 1),
         wc\<lparr>events := events wc @
           [Printed ''Virtual environment not found. Run with: python setup.py install-only or full'']\<rparr>)"
      by simp
    from run_mode_dispatch_raises [OF cs d, of dir] m show ?thesis
      by (simp add: exit_status_def)
  qed
  from a b c show ?thesis by blast
qed

theorem cleanup_after_dispatch_witness:
  "main (demo_env [''run-only'']) empty_world =
     (Inl (SystemExit 1),
      demo_start\<lparr>events := events demo_start @
        [Printed ''Virtual environment not found. Run with: python setup.py install-only or full'']\<rparr>)
   \<and> exit_status (fst (main (demo_env [''run-only'']) empty_world)) = 1
   \<and> cleanup_temp_files (demo_env [''run-only'']) ''/p''
        \<lparr>fs = [''/p/tempCodeRunnerFile.py'' \<mapsto> Dir], events = []\<rparr> =
      (Inr (),
       \<lparr>fs = [''/p/tempCodeRunnerFile.py'' \<mapsto> Dir],
        events = [Called Cleanup_temp_files,
          Printed ''Failed to remove tempCodeRunnerFile.py: [Errno] /p/tempCodeRunnerFile.py'']\<rparr>)"
proof -
  let ?e = "demo_env [''run-only'']"
  note T = cleanup_after_dispatch [OF demo_prologue [of "[''run-only'']"]]
  have cs: "clean_step ?e (clean_requested (argv ?e)) ''/p/venv'' demo_start = (Inr (), demo_start)"
    by (rule clean_step_skip) (simp add: demo_mode_run_only)
  from T [THEN conjunct2, THEN conjunct2, rule_format, of demo_start]
    demo_mode_run_only(1) cs demo_start_no_venv
  have A: "main ?e empty_world =
     (Inl (SystemExit 1),
      demo_start\<lparr>events := events demo_start @
        [Printed ''Virtual environment not found. Run with: python setup.py install-only or full'']\<rparr>)
   \<and> exit_status (fst (main ?e empty_world)) = 1"
    by blast
  have pj: "path_join ?e ''/p'' ''tempCodeRunnerFile.py'' = ''/p/tempCodeRunnerFile.py''"
    "strerror ?e ''/p/tempCodeRunnerFile.py'' = ''[Errno] /p/tempCodeRunnerFile.py''"
    by (simp_all add: demo_env_def posix_join_def)
  from T [THEN conjunct2, THEN conjunct1, rule_format,
      of "\<lparr>fs = [''/p/tempCodeRunnerFile.py'' \<mapsto> Dir], events = []\<rparr>"]
  have B: "cleanup_temp_files ?e ''/p''
        \<lparr>fs = [''/p/tempCodeRunnerFile.py'' \<mapsto> Dir], events = []\<rparr> =
      (Inr (),
       \<lparr>fs = [''/p/tempCodeRunnerFile.py'' \<mapsto> Dir],
        events = [Called Cleanup_temp_files,
          Printed ''Failed to remove tempCodeRunnerFile.py: [Errno] /p/tempCodeRunnerFile.py'']\<rparr>)"
    by (simp add: pj)
  from A B show ?thesis by blast
qed

section \<open>Quiet steps and the effects of a call\<close>

lemma effects_simps [simp]:
  "effects [] = []"
  "effects (ev # evs) = effect_of ev @ effects evs"
  "effects (xs @ ys) = effects xs @ effects ys"
  by (simp_all add: effects_def)

lemma effect_of_plain: "plain ev \<Longrightarrow> effect_of ev = []"
  by (cases ev) auto

lemma effects_plain: "list_all plain evs \<Longrightarrow> effects evs = []"
  by (induction evs) (auto simp: effect_of_plain)

lemma plain_not_Called: "list_all plain evs \<Longrightarrow> Called f \<notin> set evs"
  by (induction evs) auto

lemma quietI:
  "(\<And>w. \<exists>r fs' evs. m w = (r, w\<lparr>fs := fs', events := events w @ evs\<rparr>) \<and> list_all plain evs)
   \<Longrightarrow> quiet m"
  by (simp add: quiet_def)

lemma quietD:
  "quiet m \<Longrightarrow> \<exists>r fs' evs. m w = (r, w\<lparr>fs := fs', events := events w @ evs\<rparr>) \<and> list_all plain evs"
  by (simp add: quiet_def)

lemma quiet_print: "quiet (print s)"
proof (rule quietI)
  fix w
  have "print s w = (Inr (), w\<lparr>fs := fs w, events := events w @ [Printed s]\<rparr>)" by simp
  then show "\<exists>r fs' evs. print s w = (r, w\<lparr>fs := fs', events := events w @ evs\<rparr>) \<and> list_all plain evs"
    by (intro exI [of _ "Inr ()"] exI [of _ "fs w"] exI [of _ "[Printed s]"]) simp
qed

lemma quiet_subprocess_run: "quiet (subprocess_run e cmd)"
proof (rule quietI)
  fix w
  from subprocess_run_shape [of e cmd w] obtain r fs' where
    "subprocess_run e cmd w = (r, w\<lparr>fs := fs', events := events w @ [Spawned cmd]\<rparr>)" by blast
  then show "\<exists>r fs' evs. subprocess_run e cmd w = (r, w\<lparr>fs := fs', events := events w @ evs\<rparr>)
      \<and> list_all plain evs"
    by (intro exI [of _ r] exI [of _ fs'] exI [of _ "[Spawned cmd]"]) simp
qed

lemma quiet_unless_exists_write: "quiet (unless_exists p (thn (print s) (write_file e p c)))"
proof (rule quietI)
  fix w
  let ?m = "unless_exists p (thn (print s) (write_file e p c))"
  consider (skip) "fs w p \<noteq> None"
    | (refused) "fs w p = None" "unwritable e p (w\<lparr>events := events w @ [Printed s]\<rparr>)"
    | (written) "fs w p = None" "\<not> unwritable e p (w\<lparr>events := events w @ [Printed s]\<rparr>)"
    by blast
  then show "\<exists>r fs' evs. ?m w = (r, w\<lparr>fs := fs', events := events w @ evs\<rparr>) \<and> list_all plain evs"
  proof cases
    case skip
    then obtain y where "fs w p = Some y" by blast
    then have "?m w = (Inr (), w\<lparr>fs := fs w, events := events w @ []\<rparr>)"
      by (simp add: unless_exists_write)
    then show ?thesis by (intro exI [of _ "Inr ()"] exI [of _ "fs w"] exI [of _ "[]"]) simp
  next
    case refused
    then have "?m w = (Inl (OSError (strerror e p)), w\<lparr>fs := fs w, events := events w @ [Printed s]\<rparr>)"
      by (simp add: unless_exists_write)
    then show ?thesis
      by (intro exI [of _ "Inl (OSError (strerror e p))"] exI [of _ "fs w"] exI [of _ "[Printed s]"])
        simp
  next
    case written
    then have "?m w = (Inr (), w\<lparr>fs := (fs w)(p \<mapsto> File c), events := events w @ [Printed s, Wrote p c]\<rparr>)"
      by (simp add: unless_exists_write)
    then show ?thesis
      by (intro exI [of _ "Inr ()"] exI [of _ "(fs w)(p \<mapsto> File c)"]
          exI [of _ "[Printed s, Wrote p c]"]) simp
  qed
qed

lemma quiet_thn:
  assumes "quiet m" "quiet n"
  shows "quiet (thn m n)"
proof (rule quietI)
  fix w
  from quietD [OF assms(1), of w] obtain r1 f1 evs1 where
    m: "m w = (r1, w\<lparr>fs := f1, events := events w @ evs1\<rparr>)" and p1: "list_all plain evs1"
    by blast
  let ?w1 = "w\<lparr>fs := f1, events := events w @ evs1\<rparr>"
  show "\<exists>r fs' evs. thn m n w = (r, w\<lparr>fs := fs', events := events w @ evs\<rparr>) \<and> list_all plain evs"
  proof (cases r1)
    case (Inl x)
    with m have "thn m n w = (Inl x, ?w1)" by (simp add: thn_def bnd_def)
    with p1 show ?thesis by blast
  next
    case (Inr a)
    from quietD [OF assms(2), of ?w1] obtain r2 f2 evs2 where
      n: "n ?w1 = (r2, ?w1\<lparr>fs := f2, events := events ?w1 @ evs2\<rparr>)" and p2: "list_all plain evs2"
      by blast
    from m Inr n have "thn m n w = (r2, w\<lparr>fs := f2, events := events w @ (evs1 @ evs2)\<rparr>)"
      by (simp add: thn_def bnd_def)
    moreover from p1 p2 have "list_all plain (evs1 @ evs2)" by simp
    ultimately show ?thesis by blast
  qed
qed

lemma called_shape:
  assumes "quiet m"
  shows "\<exists>r fs' evs. thn (log (Called f)) m w =
      (r, w\<lparr>fs := fs', events := events w @ Called f # evs\<rparr>) \<and> list_all plain evs"
proof -
  let ?w1 = "w\<lparr>events := events w @ [Called f]\<rparr>"
  from quietD [OF assms, of ?w1] obtain r f1 evs where
    "m ?w1 = (r, ?w1\<lparr>fs := f1, events := events ?w1 @ evs\<rparr>)" and "list_all plain evs"
    by blast
  then show ?thesis
    by (intro exI [of _ r] exI [of _ f1] exI [of _ evs]) simp
qed

lemma create_virtualenv_shape:
  "\<exists>r fs' evs. create_virtualenv e py v w =
      (r, w\<lparr>fs := fs', events := events w @ Called Create_virtualenv # evs\<rparr>) \<and> list_all plain evs"
  unfolding create_virtualenv_def
  by (intro called_shape quiet_thn quiet_print quiet_subprocess_run)

lemma install_requirements_shape:
  "\<exists>r fs' evs. install_requirements e v req w =
      (r, w\<lparr>fs := fs', events := events w @ Called Install_requirements # evs\<rparr>) \<and> list_all plain evs"
  unfolding install_requirements_def
  by (intro called_shape quiet_thn quiet_print quiet_subprocess_run quiet_unless_exists_write)

lemma run_main_script_called:
  "\<exists>r fs' evs. run_main_script e v mf w =
      (r, w\<lparr>fs := fs', events := events w @ Called Run_main_script # evs\<rparr>) \<and> list_all plain evs"
  unfolding run_main_script_def
  by (intro called_shape quiet_thn quiet_print quiet_subprocess_run quiet_unless_exists_write)

lemma cleanup_temp_files_shape:
  "\<exists>fs' evs. cleanup_temp_files e dir w =
      (Inr (), w\<lparr>fs := fs', events := events w @ Called Cleanup_temp_files # evs\<rparr>) \<and> list_all plain evs"
proof (cases "fs w (temp_file e dir)")
  case None
  then show ?thesis
    by (intro exI [of _ "fs w"] exI [of _ "[]"]) (simp add: cleanup_temp_files_eq)
next
  case (Some n)
  show ?thesis
  proof (cases n)
    case Dir
    with Some show ?thesis
      by (intro exI [of _ "fs w"] exI [of _ "[Printed (''Failed to remove tempCodeRunnerFile.py: ''
            @ strerror e (temp_file e dir))]"]) (simp add: cleanup_temp_files_eq)
  next
    case (File c)
    with Some show ?thesis
      by (intro exI [of _ "(fs w)(temp_file e dir := None)"]
          exI [of _ "[Removed (temp_file e dir), Printed ''Removed tempCodeRunnerFile.py.'']"])
        (simp add: cleanup_temp_files_eq)
  qed
qed

lemma performsI:
  "events (snd (m w)) = events w @ evs \<Longrightarrow> prefix (effects evs) D \<Longrightarrow>
   (\<not> isl (fst (m w)) \<Longrightarrow> effects evs = D) \<Longrightarrow> performs m w D"
  unfolding performs_def by blast

lemma performs_shape:
  assumes "m w = (r, w\<lparr>fs := fs', events := events w @ evs\<rparr>)" "effects evs = D"
  shows "performs m w D"
  using assms by (intro performsI [of m w evs]) simp_all

lemma performs_thn:
  assumes m: "performs m w D1"
    and n: "\<And>a w1. m w = (Inr a, w1) \<Longrightarrow> performs n w1 D2"
  shows "performs (thn m n) w (D1 @ D2)"
proof -
  from m obtain evs1 where
    e1: "events (snd (m w)) = events w @ evs1" and p1: "prefix (effects evs1) D1"
    and x1: "\<not> isl (fst (m w)) \<longrightarrow> effects evs1 = D1"
    unfolding performs_def by blast
  obtain r1 w1 where mw: "m w = (r1, w1)" by (cases "m w")
  show ?thesis
  proof (cases r1)
    case (Inl x)
    with mw have t: "thn m n w = (Inl x, w1)" by (simp add: thn_def bnd_def)
    from p1 have "prefix (effects evs1) (D1 @ D2)" by (rule prefix_prefix)
    with e1 mw t show ?thesis by (intro performsI [of _ _ evs1]) simp_all
  next
    case (Inr a)
    with mw have t: "thn m n w = n w1" by (simp add: thn_def bnd_def)
    from x1 mw Inr have d1: "effects evs1 = D1" by simp
    from n [of a w1] mw Inr obtain evs2 where
      e2: "events (snd (n w1)) = events w1 @ evs2" and p2: "prefix (effects evs2) D2"
      and x2: "\<not> isl (fst (n w1)) \<longrightarrow> effects evs2 = D2"
      unfolding performs_def by blast
    from e1 mw e2 have ev: "events (snd (thn m n w)) = events w @ (evs1 @ evs2)"
      by (simp add: t)
    from d1 p2 have pf: "prefix (effects (evs1 @ evs2)) (D1 @ D2)" by simp
    from d1 x2 have ex: "\<not> isl (fst (thn m n w)) \<Longrightarrow> effects (evs1 @ evs2) = D1 @ D2"
      by (simp add: t)
    from ev pf ex show ?thesis by (rule performsI)
  qed
qed

lemma performs_install_requirements: "performs (install_requirements e v req) w [Install_deps]"
proof -
  from install_requirements_shape [of e v req w] obtain r fs' evs where
    eq: "install_requirements e v req w =
      (r, w\<lparr>fs := fs', events := events w @ Called Install_requirements # evs\<rparr>)"
    and pl: "list_all plain evs" by blast
  from pl have "effects (Called Install_requirements # evs) = [Install_deps]"
    by (simp add: effects_plain)
  with eq show ?thesis by (rule performs_shape)
qed

lemma performs_run_main_script: "performs (run_main_script e v mf) w [Run_script]"
proof -
  from run_main_script_called [of e v mf w] obtain r fs' evs where
    eq: "run_main_script e v mf w =
      (r, w\<lparr>fs := fs', events := events w @ Called Run_main_script # evs\<rparr>)"
    and pl: "list_all plain evs" by blast
  from pl have "effects (Called Run_main_script # evs) = [Run_script]"
    by (simp add: effects_plain)
  with eq show ?thesis by (rule performs_shape)
qed

lemma performs_cleanup_temp_files: "performs (cleanup_temp_files e dir) w []"
proof -
  from cleanup_temp_files_shape [of e dir w] obtain fs' evs where
    eq: "cleanup_temp_files e dir w =
      (Inr (), w\<lparr>fs := fs', events := events w @ Called Cleanup_temp_files # evs\<rparr>)"
    and pl: "list_all plain evs" by blast
  from pl have "effects (Called Cleanup_temp_files # evs) = []"
    by (simp add: effects_plain)
  with eq show ?thesis by (rule performs_shape)
qed

lemma clean_step_exists_after:
  assumes "clean_step e clean v w = (Inr a, wc)"
  shows "os_path_exists v wc = (os_path_exists v w \<and> \<not> clean)"
proof (cases "clean \<and> os_path_exists v w")
  case False
  with assms clean_step_skip [of clean v w e] show ?thesis by auto
next
  case True
  then obtain n where n: "fs w v = Some n" by (auto simp: os_path_exists_def)
  show ?thesis
  proof (cases n)
    case Dir
    with n True assms clean_step_dir [of clean w v e] show ?thesis
      by (auto simp: os_path_exists_def)
  next
    case (File c)
    with n True assms clean_step_file [of clean w v c e] show ?thesis by simp
  qed
qed

lemma no_exit_print: "no_exit (print s) w"
  by (simp add: no_exit_def)

lemma no_exit_subprocess_run: "no_exit (subprocess_run e cmd) w"
proof -
  obtain res w' where "spawn e cmd w = (res, w')" by (cases "spawn e cmd w")
  then show ?thesis
    by (cases res) (simp_all add: no_exit_def subprocess_run_def)
qed

lemma no_exit_unless_exists_write: "no_exit (unless_exists p (thn (print s) (write_file e p c))) w"
  by (simp add: no_exit_def unless_exists_write)

lemma no_exit_thn:
  assumes "no_exit m w" and "\<And>a w1. m w = (Inr a, w1) \<Longrightarrow> no_exit n w1"
  shows "no_exit (thn m n) w"
proof -
  obtain r1 w1 where mw: "m w = (r1, w1)" by (cases "m w")
  show ?thesis
  proof (cases r1)
    case (Inl x)
    with mw assms(1) show ?thesis by (simp add: no_exit_def thn_def bnd_def)
  next
    case (Inr a)
    with mw assms(2) [of a w1] show ?thesis by (simp add: no_exit_def thn_def bnd_def)
  qed
qed

lemma no_exit_called:
  assumes "\<And>w1. no_exit m w1"
  shows "no_exit (thn (log (Called f)) m) w"
  using assms [of "w\<lparr>events := events w @ [Called f]\<rparr>"] by (simp add: no_exit_def)

lemma no_exit_create_virtualenv: "no_exit (create_virtualenv e py v) w"
  unfolding create_virtualenv_def
  by (intro no_exit_called no_exit_thn no_exit_print no_exit_subprocess_run)

lemma no_exit_install_requirements: "no_exit (install_requirements e v req) w"
  unfolding install_requirements_def
  by (intro no_exit_called no_exit_thn no_exit_print no_exit_subprocess_run
      no_exit_unless_exists_write)

lemma no_exit_run_main_script: "no_exit (run_main_script e v mf) w"
  unfolding run_main_script_def
  by (intro no_exit_called no_exit_thn no_exit_print no_exit_subprocess_run
      no_exit_unless_exists_write)

lemma demo_tool_path:
  "get_tool_path (demo_env args) ''/p/venv'' ''python'' = ''/p/venv/bin/python''"
  "get_tool_path (demo_env args) ''/p/venv'' ''pip'' = ''/p/venv/bin/pip''"
  by (simp_all add: get_tool_path_def demo_env_def posix_join_def)

lemma demo_subprocess_venv:
  "subprocess_run (demo_env args) [py, ''-m'', ''venv'', d] w =
     (Inr (), w\<lparr>fs := (fs w)(d \<mapsto> Dir),
               events := events w @ [Spawned [py, ''-m'', ''venv'', d]]\<rparr>)"
  by (simp add: subprocess_run_def spawn_def demo_env_def demo_proc_def)

lemma demo_subprocess_other:
  assumes "hd (tl cmd) \<noteq> ''--version''" "hd (tl cmd) \<noteq> ''-m'' \<or> length cmd \<noteq> 4"
    "tl cmd \<noteq> []"
  shows "subprocess_run (demo_env args) cmd w =
     (Inr (), w\<lparr>events := events w @ [Spawned cmd]\<rparr>)"
proof -
  from assms(3) obtain a b rest where cmd: "cmd = a # b # rest"
    by (cases cmd; cases "tl cmd") auto
  with assms(1,2) show ?thesis
    by (auto simp: subprocess_run_def spawn_def demo_env_def demo_proc_def)
qed

lemma demo_create_virtualenv:
  "create_virtualenv (demo_env args) py ''/p/venv'' w =
     (Inr (),
      w\<lparr>fs := (fs w)(''/p/venv'' \<mapsto> Dir),
        events := events w @
          [Called Create_virtualenv, Printed ''Creating virtual environment...'',
           Spawned [py, ''-m'', ''venv'', ''/p/venv''], Printed ''Upgrading pip...'',
           Spawned [''/p/venv/bin/python'', ''-m'', ''pip'', ''install'', ''--upgrade'', ''pip'']]\<rparr>)"
  by (simp add: create_virtualenv_def demo_tool_path thn_apply demo_subprocess_venv
      demo_subprocess_other)

lemma demo_install_requirements:
  "install_requirements (demo_env args) ''/p/venv'' ''/p/requirements.txt'' w =
     (Inr (),
      if fs w ''/p/requirements.txt'' = None
      then w\<lparr>fs := (fs w)(''/p/requirements.txt'' \<mapsto> File (Raw [])),
             events := events w @
               [Called Install_requirements,
                Printed ''requirements.txt not found. Creating an empty one...'',
                Wrote ''/p/requirements.txt'' (Raw []),
                Printed ''Installing requirements...'',
                Spawned [''/p/venv/bin/pip'', ''install'', ''-r'', ''/p/requirements.txt'']]\<rparr>
      else w\<lparr>events := events w @
               [Called Install_requirements, Printed ''Installing requirements...'',
                Spawned [''/p/venv/bin/pip'', ''install'', ''-r'', ''/p/requirements.txt'']]\<rparr>)"
  by (simp add: install_requirements_def demo_tool_path thn_apply unless_exists_write
      demo_subprocess_other demo_dirname)

lemma demo_run_main_script:
  "run_main_script (demo_env [''full'']) ''/p/venv'' ''/p/main.py'' w =
     (Inr (),
      if fs w ''/p/main.py'' = None
      then w\<lparr>fs := (fs w)(''/p/main.py'' \<mapsto>
                 File (Raw (default_main_text (demo_env [''full'']) ''/p/main.py''))),
             events := events w @
               [Called Run_main_script,
                Printed ''Main script not found. Creating a default one...'',
                Wrote ''/p/main.py'' (Raw (default_main_text (demo_env [''full'']) ''/p/main.py'')),
                Printed ''Running /p/main.py...'',
                Spawned [''/p/venv/bin/python'', ''/p/main.py'']]\<rparr>
      else w\<lparr>events := events w @
               [Called Run_main_script, Printed ''Running /p/main.py...'',
                Spawned [''/p/venv/bin/python'', ''/p/main.py'']]\<rparr>)"
proof -
  have fw: "forwarded_args (argv (demo_env [''full''])) = []"
    by (simp add: forwarded_args_def mode_tokens_def demo_env_def)
  show ?thesis
    by (simp add: run_main_script_def demo_tool_path thn_apply unless_exists_write fw
        demo_subprocess_other demo_dirname)
qed

section \<open>Two runs on the concrete platform\<close>

lemma demo_mode_install_only:
  "selected_mode (argv (demo_env [''install-only''])) = ''install-only''"
  "\<not> clean_requested (argv (demo_env [''install-only'']))"
  by (simp_all add: demo_env_def selected_mode_def clean_requested_def mode_tokens_def or_full_def)

lemma demo_mode_full:
  "selected_mode (argv (demo_env [''full''])) = ''full''"
  "\<not> clean_requested (argv (demo_env [''full'']))"
  by (simp_all add: demo_env_def selected_mode_def clean_requested_def mode_tokens_def or_full_def)

lemma demo_temp_file: "temp_file (demo_env args) ''/p'' = ''/p/tempCodeRunnerFile.py''"
  by (simp add: temp_file_def demo_env_def posix_join_def)

lemma demo_ensure_fresh:
  "fs w ''/p/venv'' = None \<Longrightarrow>
   ensure_venv (demo_env args) py ''/p/venv'' w = create_virtualenv (demo_env args) py ''/p/venv'' w"
  by (simp add: ensure_venv_def unless_exists_def os_path_exists_def)

lemma demo_ensure_present:
  "fs w ''/p/venv'' = Some n \<Longrightarrow> ensure_venv (demo_env args) py ''/p/venv'' w = (Inr (), w)"
  by (simp add: ensure_venv_def unless_exists_def os_path_exists_def)

lemma dispatch_full:
  "dispatch e ''full'' sel v req mf =
     thn (ensure_venv e sel v) (thn (install_requirements e v req) (run_main_script e v mf))"
  by (simp add: dispatch_def)


lemma demo_lookup_start:
  "fs demo_start ''/p/venv'' = None"
  "fs demo_start ''/p/requirements.txt'' = None"
  "fs demo_start ''/p/main.py'' = None"
  "fs demo_start ''/p/tempCodeRunnerFile.py'' = None"
  by (simp_all add: demo_start_def)

lemma demo_run_mode_full_fresh:
  "run_mode (demo_env [''full'']) ''/p'' ''python3'' ''/p/venv'' ''/p/requirements.txt''
     ''/p/main.py'' demo_start = (Inr (), demo_done)"
proof -
  let ?e = "demo_env [''full'']"
  let ?wone = "demo_start\<lparr>fs := (fs demo_start)(''/p/venv'' \<mapsto> Dir),
        events := events demo_start @
          [Called Create_virtualenv, Printed ''Creating virtual environment...'',
           Spawned [''python3'', ''-m'', ''venv'', ''/p/venv''], Printed ''Upgrading pip...'',
           Spawned [''/p/venv/bin/python'', ''-m'', ''pip'', ''install'', ''--upgrade'', ''pip'']]\<rparr>"
  let ?wtwo = "?wone\<lparr>fs := (fs ?wone)(''/p/requirements.txt'' \<mapsto> File (Raw [])),
             events := events ?wone @
               [Called Install_requirements,
                Printed ''requirements.txt not found. Creating an empty one...'',
                Wrote ''/p/requirements.txt'' (Raw []),
                Printed ''Installing requirements...'',
                Spawned [''/p/venv/bin/pip'', ''install'', ''-r'', ''/p/requirements.txt'']]\<rparr>"
  let ?wthree = "?wtwo\<lparr>fs := (fs ?wtwo)(''/p/main.py'' \<mapsto>
                 File (Raw (default_main_text ?e ''/p/main.py''))),
             events := events ?wtwo @
               [Called Run_main_script,
                Printed ''Main script not found. Creating a default one...'',
                Wrote ''/p/main.py'' (Raw (default_main_text ?e ''/p/main.py'')),
                Printed ''Running /p/main.py...'',
                Spawned [''/p/venv/bin/python'', ''/p/main.py'']]\<rparr>"
  have cs: "clean_step ?e (clean_requested (argv ?e)) ''/p/venv'' demo_start = (Inr (), demo_start)"
    by (rule clean_step_skip) (simp add: demo_mode_full)
  have s1: "ensure_venv ?e ''python3'' ''/p/venv'' demo_start = (Inr (), ?wone)"
    by (simp only: demo_ensure_fresh [OF demo_lookup_start(1)] demo_create_virtualenv)
  have l2: "fs ?wone ''/p/requirements.txt'' = None"
    by (simp add: demo_lookup_start)
  have s2: "install_requirements ?e ''/p/venv'' ''/p/requirements.txt'' ?wone = (Inr (), ?wtwo)"
    by (simp only: demo_install_requirements l2 if_True simp_thms)
  have l3: "fs ?wtwo ''/p/main.py'' = None"
    by (simp add: demo_lookup_start)
  have s3: "run_main_script ?e ''/p/venv'' ''/p/main.py'' ?wtwo = (Inr (), ?wthree)"
    by (simp only: demo_run_main_script l3 if_True simp_thms)
  have d: "dispatch ?e ''full'' ''python3'' ''/p/venv'' ''/p/requirements.txt'' ''/p/main.py''
      demo_start = (Inr (), ?wthree)"
    unfolding dispatch_full thn_apply s1 by (simp only: prod.case sum.case s2 s3)
  have l4: "fs ?wthree (temp_file ?e ''/p'') = None"
    by (simp add: demo_lookup_start demo_temp_file)
  have c: "cleanup_temp_files ?e ''/p'' ?wthree
      = (Inr (), ?wthree\<lparr>events := events ?wthree @ [Called Cleanup_temp_files]\<rparr>)"
    by (simp only: cleanup_temp_files_eq l4 option.case)
  have fin: "?wthree\<lparr>events := events ?wthree @ [Called Cleanup_temp_files]\<rparr> = demo_done"
    by (simp add: demo_done_def) (simp add: demo_start_def)
  from run_mode_steps [OF cs, of "''python3''" "''/p/requirements.txt''" "''/p/main.py''"
      ?wthree "''/p''"] d c fin
  show ?thesis by (simp only: demo_mode_full)
qed

lemma demo_main_full_fresh: "main (demo_env [''full'']) empty_world = (Inr (), demo_done)"
  by (simp only: main_at_dispatch [OF demo_prologue [of "[''full'']"]] demo_run_mode_full_fresh)


lemma demo_prologue_present:
  assumes "fs w ''/p/setup-config.json'' = Some (File (Json default_config))"
  shows "prologue (demo_env args) w =
     (Inr (''/p'', ''python3'', ''/p/venv'', ''/p/requirements.txt'', ''/p/main.py''),
      w\<lparr>events := events w @
        [Called Load_config, Chdir ''/p'', Called Find_python_executable,
         Spawned [''python3.12'', ''--version''], Spawned [''python3'', ''--version''],
         Printed ''Found Python 3.12: python3'']\<rparr>)"
proof -
  let ?e = "demo_env args"
  from assms have present: "fs w (config_file ?e) = Some (File (Json default_config))"
    by (simp add: demo_config_file)
  have "load_config ?e w = (Inr (default_config, ''/p''), w\<lparr>events := events w @ [Called Load_config]\<rparr>)"
    using load_config_present [OF present] by (simp add: demo_env_def)
  from demo_prologue_loaded [OF this] show ?thesis by simp
qed

lemma demo_lookup_done:
  "fs demo_done ''/p/setup-config.json'' = Some (File (Json default_config))"
  "fs demo_done ''/p/venv'' = Some Dir"
  "fs demo_done ''/p/requirements.txt'' = Some (File (Raw []))"
  "fs demo_done ''/p/main.py'' \<noteq> None"
  "fs demo_done ''/p/tempCodeRunnerFile.py'' = None"
  by (simp_all add: demo_done_def)

lemma demo_run_mode_full_again:
  assumes "fs w = fs demo_done"
  shows "run_mode (demo_env [''full'']) ''/p'' ''python3'' ''/p/venv'' ''/p/requirements.txt''
     ''/p/main.py'' w =
     (Inr (), w\<lparr>events := events w @
        [Called Install_requirements, Printed ''Installing requirements...'',
         Spawned [''/p/venv/bin/pip'', ''install'', ''-r'', ''/p/requirements.txt''],
         Called Run_main_script, Printed ''Running /p/main.py...'',
         Spawned [''/p/venv/bin/python'', ''/p/main.py''],
         Called Cleanup_temp_files]\<rparr>)"
proof -
  let ?e = "demo_env [''full'']"
  let ?wtwo = "w\<lparr>events := events w @
               [Called Install_requirements, Printed ''Installing requirements...'',
                Spawned [''/p/venv/bin/pip'', ''install'', ''-r'', ''/p/requirements.txt'']]\<rparr>"
  let ?wthree = "?wtwo\<lparr>events := events ?wtwo @
               [Called Run_main_script, Printed ''Running /p/main.py...'',
                Spawned [''/p/venv/bin/python'', ''/p/main.py'']]\<rparr>"
  have cs: "clean_step ?e (clean_requested (argv ?e)) ''/p/venv'' w = (Inr (), w)"
    by (rule clean_step_skip) (simp add: demo_mode_full)
  have s1: "ensure_venv ?e ''python3'' ''/p/venv'' w = (Inr (), w)"
    by (rule demo_ensure_present [of w Dir]) (simp add: assms demo_lookup_done)
  have l2: "fs w ''/p/requirements.txt'' \<noteq> None"
    by (simp add: assms demo_lookup_done)
  have s2: "install_requirements ?e ''/p/venv'' ''/p/requirements.txt'' w = (Inr (), ?wtwo)"
    by (simp only: demo_install_requirements l2 if_False)
  have l3: "fs ?wtwo ''/p/main.py'' \<noteq> None"
    by (simp add: assms demo_lookup_done)
  have s3: "run_main_script ?e ''/p/venv'' ''/p/main.py'' ?wtwo = (Inr (), ?wthree)"
    by (simp only: demo_run_main_script l3 if_False)
  have d: "dispatch ?e ''full'' ''python3'' ''/p/venv'' ''/p/requirements.txt'' ''/p/main.py''
      w = (Inr (), ?wthree)"
    unfolding dispatch_full thn_apply s1 by (simp only: prod.case sum.case s2 s3)
  have l4: "fs ?wthree (temp_file ?e ''/p'') = None"
    by (simp add: assms demo_lookup_done demo_temp_file)
  have c: "cleanup_temp_files ?e ''/p'' ?wthree
      = (Inr (), ?wthree\<lparr>events := events ?wthree @ [Called Cleanup_temp_files]\<rparr>)"
    by (simp only: cleanup_temp_files_eq l4 option.case)
  from run_mode_steps [OF cs, of "''python3''" "''/p/requirements.txt''" "''/p/main.py''"
      ?wthree "''/p''"] d c
  show ?thesis by (simp add: demo_mode_full)
qed

lemma demo_main_full_again:
  "main (demo_env [''full'']) demo_done =
     (Inr (), demo_done\<lparr>events := events demo_done @ demo_second_run\<rparr>)"
proof -
  note p = demo_prologue_present [OF demo_lookup_done(1), of "[''full'']"]
  have "run_mode (demo_env [''full'']) ''/p'' ''python3'' ''/p/venv'' ''/p/requirements.txt''
     ''/p/main.py''
     (demo_done\<lparr>events := events demo_done @
        [Called Load_config, Chdir ''/p'', Called Find_python_executable,
         Spawned [''python3.12'', ''--version''], Spawned [''python3'', ''--version''],
         Printed ''Found Python 3.12: python3'']\<rparr>)
     = (Inr (), demo_done\<lparr>events := events demo_done @ demo_second_run\<rparr>)"
    by (subst demo_run_mode_full_again) (simp_all add: demo_second_run_def)
  with main_at_dispatch [OF p] show ?thesis by simp
qed

section \<open>The removal that --clean asks for\<close>

lemma performs_events:
  "performs m w D \<Longrightarrow> \<exists>evs. events (snd (m w)) = events w @ evs"
  unfolding performs_def by blast

lemma after_create_virtualenv:
  assumes "\<And>w1. \<exists>D. performs n w1 D"
  shows "\<exists>evs. events (snd (thn (create_virtualenv e py v) n w))
           = events w @ Called Create_virtualenv # evs"
proof -
  from create_virtualenv_shape [of e py v w] obtain r fs' evs1 where
    c: "create_virtualenv e py v w =
        (r, w\<lparr>fs := fs', events := events w @ Called Create_virtualenv # evs1\<rparr>)"
    by blast
  let ?w1 = "w\<lparr>fs := fs', events := events w @ Called Create_virtualenv # evs1\<rparr>"
  show ?thesis
  proof (cases r)
    case (Inl x)
    with c have "thn (create_virtualenv e py v) n w = (Inl x, ?w1)"
      by (simp add: thn_apply)
    then show ?thesis by simp
  next
    case (Inr a)
    with c have t: "thn (create_virtualenv e py v) n w = n ?w1"
      by (simp add: thn_apply)
    from assms [of ?w1] obtain D where "performs n ?w1 D" by blast
    from performs_events [OF this] obtain evs2 where
      "events (snd (n ?w1)) = events ?w1 @ evs2" by blast
    with t show ?thesis by simp
  qed
qed

lemma dispatch_creates_when_absent:
  assumes mode: "mode = ''install-only'' \<or> mode = ''full''"
    and absent: "\<not> os_path_exists v w"
  shows "\<exists>evs. events (snd (thn (dispatch e mode sel v req mf) (cleanup_temp_files e dir) w))
           = events w @ Called Create_virtualenv # evs"
proof -
  from absent have ens: "ensure_venv e sel v w = create_virtualenv e sel v w"
    by (simp add: ensure_venv_def unless_exists_def)
  from mode show ?thesis
  proof
    assume m: "mode = ''install-only''"
    let ?n = "thn (install_requirements e v req) (cleanup_temp_files e dir)"
    have n: "\<exists>D. performs ?n w1 D" for w1
    proof -
      have "performs ?n w1 ([Install_deps] @ [])"
        by (rule performs_thn [OF performs_install_requirements performs_cleanup_temp_files])
      then show ?thesis ..
    qed
    have "thn (dispatch e mode sel v req mf) (cleanup_temp_files e dir) w
        = thn (create_virtualenv e sel v) ?n w"
      by (simp add: m dispatch_def thn_apply ens split: prod.splits sum.splits)
    with after_create_virtualenv [of ?n e sel v w, OF n] show ?thesis by simp
  next
    assume m: "mode = ''full''"
    let ?n = "thn (thn (install_requirements e v req) (run_main_script e v mf))
                (cleanup_temp_files e dir)"
    have n: "\<exists>D. performs ?n w1 D" for w1
    proof -
      have "performs (thn (install_requirements e v req) (run_main_script e v mf)) wx
          ([Install_deps] @ [Run_script])" for wx
        by (rule performs_thn [OF performs_install_requirements performs_run_main_script])
      then have "performs ?n w1 (([Install_deps] @ [Run_script]) @ [])"
        by (rule performs_thn [OF _ performs_cleanup_temp_files])
      then show ?thesis ..
    qed
    have "thn (dispatch e mode sel v req mf) (cleanup_temp_files e dir) w
        = thn (create_virtualenv e sel v) ?n w"
      by (simp add: m dispatch_def thn_apply ens split: prod.splits sum.splits)
    with after_create_virtualenv [of ?n e sel v w, OF n] show ?thesis by simp
  qed
qed

text \<open>
  C7. When \<open>--clean\<close> is among the arguments and the environment directory exists as
  \<open>main\<close> reaches the argument loop, \<open>main\<close> removes the directory with everything inside
  it, and only then runs the selected mode, whichever it is, in a world where the
  directory does not exist. So \<open>install-only\<close> and \<open>full\<close> call \<open>create_virtualenv\<close> as
  their first step after the removal, and \<open>run-only\<close> exits with status 1.
\<close>

theorem clean_removes_first:
  assumes at: "prologue e w0 = (Inr (dir, sel, venv, req, mf), w)"
    and clean: "''--clean'' \<in> set (argv e)"
    and isdir: "fs w venv = Some Dir"
    and wr: "wr = w\<lparr>fs := (\<lambda>q. if q = venv \<or> path_inside e venv q then None else fs w q),
                   events := events w @
                     [Printed ''Removing existing virtual environment...'', RmTree venv]\<rparr>"
  shows "main e w0 =
           thn (dispatch e (selected_mode (argv e)) sel venv req mf) (cleanup_temp_files e dir) wr
       \<and> \<not> os_path_exists venv wr
       \<and> (selected_mode (argv e) = ''install-only'' \<or> selected_mode (argv e) = ''full'' \<longrightarrow>
            (\<exists>evs. events (snd (main e w0)) = events wr @ Called Create_virtualenv # evs))
       \<and> (selected_mode (argv e) = ''run-only'' \<longrightarrow>
            main e w0 =
              (Inl (SystemExit 1),
               wr\<lparr>events := events wr @
                 [Printed ''Virtual environment not found. Run with: python setup.py install-only or full'']\<rparr>))"
proof -
  from clean have cl: "clean_requested (argv e)" by (simp add: clean_requested_iff)
  from clean_step_dir [OF cl isdir, of e] wr
  have cs: "clean_step e (clean_requested (argv e)) venv w = (Inr (), wr)" by simp
  have a: "main e w0 =
      thn (dispatch e (selected_mode (argv e)) sel venv req mf) (cleanup_temp_files e dir) wr"
    unfolding main_at_dispatch [OF at] run_mode_def by (simp add: thn_apply [of "clean_step _ _ _"] cs)
  from clean_step_exists_after [OF cs] cl have b: "\<not> os_path_exists venv wr" by simp
  have c: "\<exists>evs. events (snd (main e w0)) = events wr @ Called Create_virtualenv # evs"
    if "selected_mode (argv e) = ''install-only'' \<or> selected_mode (argv e) = ''full''"
    unfolding a by (rule dispatch_creates_when_absent [OF that b])
  have d: "main e w0 =
              (Inl (SystemExit 1),
               wr\<lparr>events := events wr @
                 [Printed ''Virtual environment not found. Run with: python setup.py install-only or full'']\<rparr>)"
    if m: "selected_mode (argv e) = ''run-only''"
    unfolding a m by (simp add: thn_apply dispatch_run_only_absent [OF b])
  from a b c d show ?thesis by blast
qed

lemma demo_mode_full_clean:
  "selected_mode (argv (demo_env [''full'', ''--clean''])) = ''full''"
  "''--clean'' \<in> set (argv (demo_env [''full'', ''--clean'']))"
  by (simp_all add: demo_env_def selected_mode_def mode_tokens_def or_full_def)

theorem clean_removes_first_witness:
  "\<exists>evs. events (snd (main (demo_env [''full'', ''--clean'']) demo_done)) =
      events demo_done @
        [Called Load_config, Chdir ''/p'', Called Find_python_executable,
         Spawned [''python3.12'', ''--version''], Spawned [''python3'', ''--version''],
         Printed ''Found Python 3.12: python3'',
         Printed ''Removing existing virtual environment...'', RmTree ''/p/venv'',
         Called Create_virtualenv] @ evs"
proof -
  let ?e = "demo_env [''full'', ''--clean'']"
  let ?w = "demo_done\<lparr>events := events demo_done @
        [Called Load_config, Chdir ''/p'', Called Find_python_executable,
         Spawned [''python3.12'', ''--version''], Spawned [''python3'', ''--version''],
         Printed ''Found Python 3.12: python3'']\<rparr>"
  let ?wr = "?w\<lparr>fs := (\<lambda>q. if q = ''/p/venv'' \<or> path_inside ?e ''/p/venv'' q then None else fs ?w q),
                   events := events ?w @
                     [Printed ''Removing existing virtual environment...'', RmTree ''/p/venv'']\<rparr>"
  have isdir: "fs ?w ''/p/venv'' = Some Dir"
    by (simp add: demo_lookup_done)
  note T = clean_removes_first [OF demo_prologue_present [OF demo_lookup_done(1)]
      demo_mode_full_clean(2) isdir refl]
  from T [THEN conjunct2, THEN conjunct2, THEN conjunct1] demo_mode_full_clean(1)
  obtain evs where
    "events (snd (main ?e demo_done)) = events ?wr @ Called Create_virtualenv # evs"
    by auto
  then have "events (snd (main ?e demo_done)) =
      events demo_done @
        [Called Load_config, Chdir ''/p'', Called Find_python_executable,
         Spawned [''python3.12'', ''--version''], Spawned [''python3'', ''--version''],
         Printed ''Found Python 3.12: python3'',
         Printed ''Removing existing virtual environment...'', RmTree ''/p/venv'',
         Called Create_virtualenv] @ evs"
    by simp
  then show ?thesis ..
qed

section \<open>The program as a sequence of effects\<close>

lemma thn_ret_left [simp]: "thn (ret x) n = n"
  by (simp add: thn_def)

lemma thn_throw [simp]: "thn (throw x) n = throw x"
  by (simp add: thn_def)

lemma thn_unless_exists:
  "thn (unless_exists p body) k w = (if os_path_exists p w then k w else thn body k w)"
  by (simp add: thn_apply unless_exists_def)

lemma thn_post_cong:
  assumes "\<And>a w1. m w = (Inr a, w1) \<Longrightarrow> k w1 = k' w1"
  shows "thn m k w = thn m k' w"
  using assms by (auto simp: thn_apply split: prod.splits sum.splits)

lemma dispatch_refines:
  assumes "mode \<in> set mode_tokens"
  shows "thn (dispatch e mode sel v req mf) (cleanup_temp_files e dir) w =
         thn (perform_all e sel v req mf (documented_effects mode False (os_path_exists v w)))
             (finish e dir mode (os_path_exists v w)) w"
proof -
  from assms consider "mode = ''install-only''" | "mode = ''run-only''" | "mode = ''full''"
    by (auto simp: mode_tokens_def)
  then show ?thesis
  proof cases
    case 1
    then show ?thesis
      by (simp add: dispatch_def documented_effects_def finish_def thn_assoc ensure_venv_def
          thn_unless_exists)
  next
    case 2
    then show ?thesis
      by (simp add: dispatch_def documented_effects_def finish_def thn_assoc thn_unless_exists)
  next
    case 3
    then show ?thesis
      by (simp add: dispatch_def documented_effects_def finish_def thn_assoc ensure_venv_def
          thn_unless_exists)
  qed
qed

lemma remove_env_post:
  assumes "perform e sel v req mf Remove_env w = (Inr a, w1)"
  shows "\<not> os_path_exists v w1"
  using assms
  by (auto simp: shutil_rmtree_def os_path_exists_def split: option.splits node.splits)

lemma run_mode_refines:
  "run_mode e dir sel v req mf w =
     thn (perform_all e sel v req mf
            (documented_effects (selected_mode (argv e)) (clean_requested (argv e))
               (os_path_exists v w)))
         (finish e dir (selected_mode (argv e)) (os_path_exists v w \<and> \<not> clean_requested (argv e))) w"
proof (cases "clean_requested (argv e) \<and> os_path_exists v w")
  case False
  let ?mode = "selected_mode (argv e)"
  from False have cs: "clean_step e (clean_requested (argv e)) v w = (Inr (), w)"
    by (simp add: clean_step_skip)
  from False have doc: "documented_effects ?mode (clean_requested (argv e)) (os_path_exists v w)
      = documented_effects ?mode False (os_path_exists v w)"
    and pres: "(os_path_exists v w \<and> \<not> clean_requested (argv e)) = os_path_exists v w"
    by (auto simp: documented_effects_def)
  have "run_mode e dir sel v req mf w =
      thn (dispatch e ?mode sel v req mf) (cleanup_temp_files e dir) w"
    by (simp add: run_mode_def thn_apply [of "clean_step _ _ _"] cs)
  also note dispatch_refines [OF selected_mode_token]
  finally show ?thesis by (simp only: doc pres)
next
  case True
  let ?mode = "selected_mode (argv e)"
  let ?rm = "perform e sel v req mf Remove_env"
  from True have doc: "documented_effects ?mode (clean_requested (argv e)) (os_path_exists v w)
      = Remove_env # documented_effects ?mode False False"
    and pres: "(os_path_exists v w \<and> \<not> clean_requested (argv e)) = False"
    by (auto simp: documented_effects_def)
  from True have "run_mode e dir sel v req mf w =
      thn ?rm (thn (dispatch e ?mode sel v req mf) (cleanup_temp_files e dir)) w"
    by (simp add: run_mode_def clean_step_def thn_apply)
  also have "\<dots> = thn ?rm (thn (perform_all e sel v req mf (documented_effects ?mode False False))
                              (finish e dir ?mode False)) w"
  proof (rule thn_post_cong)
    fix a w1
    assume "?rm w = (Inr a, w1)"
    from remove_env_post [OF this] have "os_path_exists v w1 = False" by simp
    with dispatch_refines [OF selected_mode_token, where w = w1 and v = v]
    show "thn (dispatch e ?mode sel v req mf) (cleanup_temp_files e dir) w1 =
        thn (perform_all e sel v req mf (documented_effects ?mode False False))
          (finish e dir ?mode False) w1"
      by simp
  qed
  finally show ?thesis by (simp only: doc pres perform_all.simps thn_assoc)
qed


lemma perform_step:
  "\<exists>r fs' evs. perform e sel v req mf x w = (r, w\<lparr>fs := fs', events := events w @ evs\<rparr>)
     \<and> prefix (effects evs) [x] \<and> (r = Inr () \<longrightarrow> effects evs = [x])
     \<and> (\<forall>n. r \<noteq> Inl (SystemExit n))
     \<and> (Called Run_main_script \<in> set evs \<longrightarrow> x = Run_script)"
proof (cases x)
  case Remove_env
  let ?p = "Printed ''Removing existing virtual environment...''"
  show ?thesis
  proof (cases "fs w v = Some Dir")
    case True
    then have "perform e sel v req mf x w =
        (Inr (), w\<lparr>fs := (\<lambda>q. if q = v \<or> path_inside e v q then None else fs w q),
                   events := events w @ [?p, RmTree v]\<rparr>)"
      by (simp add: Remove_env shutil_rmtree_def cong: if_cong)
    then show ?thesis
      by (intro exI [of _ "Inr ()"]
          exI [of _ "\<lambda>q. if q = v \<or> path_inside e v q then None else fs w q"]
          exI [of _ "[?p, RmTree v]"]) (simp add: Remove_env)
  next
    case False
    then have "perform e sel v req mf x w =
        (Inl (OSError (strerror e v)), w\<lparr>fs := fs w, events := events w @ [?p]\<rparr>)"
      by (simp add: Remove_env shutil_rmtree_def split: option.splits node.splits)
    then show ?thesis
      by (intro exI [of _ "Inl (OSError (strerror e v))"] exI [of _ "fs w"] exI [of _ "[?p]"])
        simp
  qed
next
  case Create_env
  from create_virtualenv_shape [of e sel v w] obtain r fs' evs where
    eq: "create_virtualenv e sel v w =
      (r, w\<lparr>fs := fs', events := events w @ Called Create_virtualenv # evs\<rparr>)"
    and pl: "list_all plain evs" by blast
  from no_exit_create_virtualenv [of e sel v w] eq have ne: "\<forall>n. r \<noteq> Inl (SystemExit n)"
    by (simp add: no_exit_def)
  from pl have "effects (Called Create_virtualenv # evs) = [Create_env]"
    "Called Run_main_script \<notin> set (Called Create_virtualenv # evs)"
    by (simp_all add: effects_plain plain_not_Called)
  with eq ne show ?thesis
    by (intro exI [of _ r] exI [of _ fs'] exI [of _ "Called Create_virtualenv # evs"])
      (simp add: Create_env)
next
  case Install_deps
  from install_requirements_shape [of e v req w] obtain r fs' evs where
    eq: "install_requirements e v req w =
      (r, w\<lparr>fs := fs', events := events w @ Called Install_requirements # evs\<rparr>)"
    and pl: "list_all plain evs" by blast
  from no_exit_install_requirements [of e v req w] eq have ne: "\<forall>n. r \<noteq> Inl (SystemExit n)"
    by (simp add: no_exit_def)
  from pl have "effects (Called Install_requirements # evs) = [Install_deps]"
    "Called Run_main_script \<notin> set (Called Install_requirements # evs)"
    by (simp_all add: effects_plain plain_not_Called)
  with eq ne show ?thesis
    by (intro exI [of _ r] exI [of _ fs'] exI [of _ "Called Install_requirements # evs"])
      (simp add: Install_deps)
next
  case Run_script
  from run_main_script_called [of e v mf w] obtain r fs' evs where
    eq: "run_main_script e v mf w =
      (r, w\<lparr>fs := fs', events := events w @ Called Run_main_script # evs\<rparr>)"
    and pl: "list_all plain evs" by blast
  from no_exit_run_main_script [of e v mf w] eq have ne: "\<forall>n. r \<noteq> Inl (SystemExit n)"
    by (simp add: no_exit_def)
  from pl have "effects (Called Run_main_script # evs) = [Run_script]"
    by (simp add: effects_plain)
  with eq ne show ?thesis
    by (intro exI [of _ r] exI [of _ fs'] exI [of _ "Called Run_main_script # evs"])
      (simp add: Run_script)
qed

lemma perform_all_outcome:
  assumes "perform_all e sel v req mf xs w = (r, w')"
  shows "\<exists>evs. events w' = events w @ evs
      \<and> (Called Run_main_script \<in> set evs \<longrightarrow> Run_script \<in> set xs)
      \<and> (r = Inr () \<and> effects evs = xs
         \<or> (\<exists>k<length xs. \<exists>evs1 evs2 wk x.
               r = Inl x \<and> (\<forall>n. x \<noteq> SystemExit n) \<and> evs = evs1 @ evs2
             \<and> events wk = events w @ evs1 \<and> effects evs1 = take k xs
             \<and> prefix (effects evs2) [xs ! k]
             \<and> perform e sel v req mf (xs ! k) wk = (Inl x, w')))"
  using assms
proof (induction xs arbitrary: w)
  case Nil
  then have "r = Inr ()" "w' = w" by simp_all
  then show ?case by (intro exI [of _ "[]"]) simp
next
  case (Cons a xs)
  from perform_step [of e sel v req mf a w] obtain r1 fs1 evs1 where
    st: "perform e sel v req mf a w = (r1, w\<lparr>fs := fs1, events := events w @ evs1\<rparr>)"
    and pf: "prefix (effects evs1) [a]" and full: "r1 = Inr () \<longrightarrow> effects evs1 = [a]"
    and ne: "\<forall>n. r1 \<noteq> Inl (SystemExit n)"
    and rs: "Called Run_main_script \<in> set evs1 \<longrightarrow> a = Run_script"
    by blast
  let ?w1 = "w\<lparr>fs := fs1, events := events w @ evs1\<rparr>"
  show ?case
  proof (cases r1)
    case (Inl x)
    with st Cons.prems have r: "r = Inl x" and w': "w' = ?w1"
      by (simp_all add: thn_apply)
    from ne Inl have nx: "\<forall>n. x \<noteq> SystemExit n" by simp
    have "\<exists>k<length (a # xs). \<exists>evs1' evs2 wk x'.
               r = Inl x' \<and> (\<forall>n. x' \<noteq> SystemExit n) \<and> evs1 = evs1' @ evs2
             \<and> events wk = events w @ evs1' \<and> effects evs1' = take k (a # xs)
             \<and> prefix (effects evs2) [(a # xs) ! k]
             \<and> perform e sel v req mf ((a # xs) ! k) wk = (Inl x', w')"
      using r nx pf st Inl w'
      by (intro exI [of _ 0] conjI exI [of _ "[]"] exI [of _ evs1] exI [of _ w] exI [of _ x])
        simp_all
    moreover from rs have "Called Run_main_script \<in> set evs1 \<longrightarrow> Run_script \<in> set (a # xs)"
      by simp
    ultimately show ?thesis using w' by (intro exI [of _ evs1]) simp
  next
    case (Inr u)
    with st Cons.prems have rest: "perform_all e sel v req mf xs ?w1 = (r, w')"
      by (simp add: thn_apply)
    from full Inr have e1: "effects evs1 = [a]" by simp
    from Cons.IH [OF rest] obtain evs where
      ev: "events w' = events ?w1 @ evs"
      and rs2: "Called Run_main_script \<in> set evs \<longrightarrow> Run_script \<in> set xs"
      and out: "r = Inr () \<and> effects evs = xs
         \<or> (\<exists>k<length xs. \<exists>evs1' evs2 wk x.
               r = Inl x \<and> (\<forall>n. x \<noteq> SystemExit n) \<and> evs = evs1' @ evs2
             \<and> events wk = events ?w1 @ evs1' \<and> effects evs1' = take k xs
             \<and> prefix (effects evs2) [xs ! k]
             \<and> perform e sel v req mf (xs ! k) wk = (Inl x, w'))"
      by blast
    from ev have ev': "events w' = events w @ (evs1 @ evs)" by simp
    from rs rs2 have rs': "Called Run_main_script \<in> set (evs1 @ evs) \<longrightarrow> Run_script \<in> set (a # xs)"
      by auto
    from out have "r = Inr () \<and> effects (evs1 @ evs) = a # xs
         \<or> (\<exists>k<length (a # xs). \<exists>evs1' evs2 wk x.
               r = Inl x \<and> (\<forall>n. x \<noteq> SystemExit n) \<and> evs1 @ evs = evs1' @ evs2
             \<and> events wk = events w @ evs1' \<and> effects evs1' = take k (a # xs)
             \<and> prefix (effects evs2) [(a # xs) ! k]
             \<and> perform e sel v req mf ((a # xs) ! k) wk = (Inl x, w'))"
    proof
      assume "r = Inr () \<and> effects evs = xs"
      with e1 show ?thesis by simp
    next
      assume "\<exists>k<length xs. \<exists>evs1' evs2 wk x.
               r = Inl x \<and> (\<forall>n. x \<noteq> SystemExit n) \<and> evs = evs1' @ evs2
             \<and> events wk = events ?w1 @ evs1' \<and> effects evs1' = take k xs
             \<and> prefix (effects evs2) [xs ! k]
             \<and> perform e sel v req mf (xs ! k) wk = (Inl x, w')"
      then obtain k evs1' evs2 wk x where
        k: "k < length xs" and r: "r = Inl x" and nx: "\<forall>n. x \<noteq> SystemExit n"
        and sp: "evs = evs1' @ evs2" and wk: "events wk = events ?w1 @ evs1'"
        and tk: "effects evs1' = take k xs" and pf2: "prefix (effects evs2) [xs ! k]"
        and pk: "perform e sel v req mf (xs ! k) wk = (Inl x, w')"
        by blast
      have "\<exists>evs1'' evs2' wk' x'.
               r = Inl x' \<and> (\<forall>n. x' \<noteq> SystemExit n) \<and> evs1 @ evs = evs1'' @ evs2'
             \<and> events wk' = events w @ evs1'' \<and> effects evs1'' = take (Suc k) (a # xs)
             \<and> prefix (effects evs2') [(a # xs) ! Suc k]
             \<and> perform e sel v req mf ((a # xs) ! Suc k) wk' = (Inl x', w')"
        using r nx sp wk tk pf2 pk e1
        by (intro exI [of _ "evs1 @ evs1'"] exI [of _ evs2] exI [of _ wk] exI [of _ x]) simp
      with k have "\<exists>k'<length (a # xs). \<exists>evs1'' evs2' wk' x'.
               r = Inl x' \<and> (\<forall>n. x' \<noteq> SystemExit n) \<and> evs1 @ evs = evs1'' @ evs2'
             \<and> events wk' = events w @ evs1'' \<and> effects evs1'' = take k' (a # xs)
             \<and> prefix (effects evs2') [(a # xs) ! k']
             \<and> perform e sel v req mf ((a # xs) ! k') wk' = (Inl x', w')"
        by (intro exI [of _ "Suc k"]) simp
      then show ?thesis ..
    qed
    with ev' rs' show ?thesis by (intro exI [of _ "evs1 @ evs"]) simp
  qed
qed

lemma finish_outcome:
  "\<exists>fs' evs. finish e dir mode present w =
       (if mode = ''run-only'' \<and> \<not> present then Inl (SystemExit 1) else Inr (),
        w\<lparr>fs := fs', events := events w @ evs\<rparr>)
     \<and> effects evs = [] \<and> Called Run_main_script \<notin> set evs"
proof (cases "mode = ''run-only'' \<and> \<not> present")
  case True
  let ?p = "Printed ''Virtual environment not found. Run with: python setup.py install-only or full''"
  from True have "finish e dir mode present w =
      (Inl (SystemExit 1), w\<lparr>fs := fs w, events := events w @ [?p]\<rparr>)"
    by (simp add: finish_def)
  with True show ?thesis by (intro exI [of _ "fs w"] exI [of _ "[?p]"]) simp
next
  case False
  from cleanup_temp_files_shape [of e dir w] obtain fs' evs where
    eq: "cleanup_temp_files e dir w =
      (Inr (), w\<lparr>fs := fs', events := events w @ Called Cleanup_temp_files # evs\<rparr>)"
    and pl: "list_all plain evs" by blast
  from pl have "effects (Called Cleanup_temp_files # evs) = []"
    "Called Run_main_script \<notin> set (Called Cleanup_temp_files # evs)"
    by (simp_all add: effects_plain plain_not_Called)
  with eq False show ?thesis
    by (intro exI [of _ fs'] exI [of _ "Called Cleanup_temp_files # evs"])
      (auto simp: finish_def)
qed

lemma run_mode_outcome:
  assumes run: "run_mode e dir sel v req mf w = (r, w')"
    and doc: "doc = documented_effects (selected_mode (argv e)) (clean_requested (argv e))
                     (os_path_exists v w)"
  shows "\<exists>evs. events w' = events w @ evs
      \<and> (Called Run_main_script \<in> set evs \<longrightarrow> Run_script \<in> set doc)
      \<and> (r = (if selected_mode (argv e) = ''run-only''
                   \<and> (clean_requested (argv e) \<or> \<not> os_path_exists v w)
                then Inl (SystemExit 1) else Inr ())
           \<and> effects evs = doc
         \<or> (\<exists>k<length doc. \<exists>evs1 evs2 wk x.
               r = Inl x \<and> (\<forall>n. x \<noteq> SystemExit n) \<and> evs = evs1 @ evs2
             \<and> events wk = events w @ evs1 \<and> effects evs1 = take k doc
             \<and> prefix (effects evs2) [doc ! k]
             \<and> perform e sel v req mf (doc ! k) wk = (Inl x, w')))"
proof -
  let ?mode = "selected_mode (argv e)"
  let ?present = "os_path_exists v w \<and> \<not> clean_requested (argv e)"
  obtain rp wp where pa: "perform_all e sel v req mf doc w = (rp, wp)"
    by (cases "perform_all e sel v req mf doc w")
  from run have rm: "thn (perform_all e sel v req mf doc) (finish e dir ?mode ?present) w = (r, w')"
    by (simp only: run_mode_refines doc)
  from perform_all_outcome [OF pa] obtain evs where
    ev: "events wp = events w @ evs"
    and rs: "Called Run_main_script \<in> set evs \<longrightarrow> Run_script \<in> set doc"
    and out: "rp = Inr () \<and> effects evs = doc
         \<or> (\<exists>k<length doc. \<exists>evs1 evs2 wk x.
               rp = Inl x \<and> (\<forall>n. x \<noteq> SystemExit n) \<and> evs = evs1 @ evs2
             \<and> events wk = events w @ evs1 \<and> effects evs1 = take k doc
             \<and> prefix (effects evs2) [doc ! k]
             \<and> perform e sel v req mf (doc ! k) wk = (Inl x, wp))"
    by blast
  show ?thesis
  proof (cases rp)
    case (Inl x)
    with pa rm have "r = rp" "w' = wp" by (simp_all add: thn_apply)
    with ev rs out Inl show ?thesis by (intro exI [of _ evs]) auto
  next
    case (Inr u)
    with pa rm have fin: "finish e dir ?mode ?present wp = (r, w')" by (simp add: thn_apply)
    from finish_outcome [of e dir ?mode ?present wp] fin obtain fs' evsf where
      r: "r = (if ?mode = ''run-only'' \<and> \<not> ?present then Inl (SystemExit 1) else Inr ())"
      and w': "w' = wp\<lparr>fs := fs', events := events wp @ evsf\<rparr>"
      and ef: "effects evsf = []" and nf: "Called Run_main_script \<notin> set evsf"
      by auto
    from out Inr have "effects evs = doc" by auto
    with ef have "effects (evs @ evsf) = doc" by simp
    moreover from w' ev have "events w' = events w @ (evs @ evsf)" by simp
    moreover from rs nf have "Called Run_main_script \<in> set (evs @ evsf) \<longrightarrow> Run_script \<in> set doc"
      by auto
    moreover from r have "r = (if ?mode = ''run-only''
                   \<and> (clean_requested (argv e) \<or> \<not> os_path_exists v w)
                then Inl (SystemExit 1) else Inr ())"
      by auto
    ultimately show ?thesis by (intro exI [of _ "evs @ evsf"]) blast
  qed
qed


section \<open>What main does before the argument loop\<close>

lemma startup_effects:
  "list_all (startup_event e) evs \<Longrightarrow> effects evs = [] \<and> Called Run_main_script \<notin> set evs"
proof (induction evs)
  case Nil
  show ?case by simp
next
  case (Cons a evs)
  then show ?case by (cases a) auto
qed

lemma load_config_events:
  "\<exists>evs. events (snd (load_config e w)) = events w @ evs \<and> list_all (startup_event e) evs
     \<and> (os_path_exists (config_file e) w \<longrightarrow> (\<forall>p c. Wrote p c \<notin> set evs))"
proof (cases "fs w (config_file e)")
  case None
  let ?a = "[Called Load_config,
             Printed ''Missing setup-config.json file. Creating default one...'']"
  let ?b = "[Called Load_config,
             Printed ''Missing setup-config.json file. Creating default one...'',
             Wrote (config_file e) (Json default_config),
             Printed ''Created default setup-config.json.'']"
  from load_config_absent_eq [OF None]
  have "events (snd (load_config e w)) = events w @ ?a \<or> events (snd (load_config e w)) = events w @ ?b"
    by (simp add: Let_def)
  moreover have "list_all (startup_event e) ?a" "list_all (startup_event e) ?b" by simp_all
  moreover from None have "\<not> os_path_exists (config_file e) w" by (simp add: os_path_exists_def)
  ultimately show ?thesis by blast
next
  case (Some n)
  then have "events (snd (load_config e w)) = events w @ [Called Load_config]"
    by (simp add: load_config_def unless_exists_def os_path_exists_def json_load_file_def
        thn_apply bnd_def split: node.splits content.splits)
  then show ?thesis by (intro exI [of _ "[Called Load_config]"]) simp
qed

lemma probe_loop_any_events:
  "\<exists>r evs. probe_loop_any e v cs w = (Inr r, snd (probe_loop_any e v cs w))
     \<and> events (snd (probe_loop_any e v cs w)) = events w @ evs
     \<and> list_all (startup_event e) evs \<and> (\<forall>p c. Wrote p c \<notin> set evs)"
proof (induction cs arbitrary: w)
  case Nil
  show ?case by simp
next
  case (Cons cmd cmds)
  from check_output_decode_shape [of e "[cmd, ''--version'']" w] obtain r0 fs' where
    p: "check_output_decode e [cmd, ''--version''] w =
          (r0, w\<lparr>fs := fs', events := events w @ [Spawned [cmd, ''--version'']]\<rparr>)"
    and ns: "\<forall>n. r0 \<noteq> Inl (SystemExit n)"
    by blast
  let ?wone = "w\<lparr>fs := fs', events := events w @ [Spawned [cmd, ''--version'']]\<rparr>"
  have "probe_loop_any e v (cmd # cmds) w = (Inr (Some cmd), ?wone)
      \<or> probe_loop_any e v (cmd # cmds) w = probe_loop_any e v cmds ?wone"
  proof (cases r0)
    case (Inl x)
    with ns have "\<forall>n. x \<noteq> SystemExit n" by simp
    with Inl p show ?thesis by (cases x) simp_all
  next
    case (Inr out)
    with p show ?thesis by (cases v) simp_all
  qed
  then show ?case
  proof
    assume "probe_loop_any e v (cmd # cmds) w = (Inr (Some cmd), ?wone)"
    then show ?thesis
      by (intro exI [of _ "Some cmd"] exI [of _ "[Spawned [cmd, ''--version'']]"]) simp
  next
    assume s: "probe_loop_any e v (cmd # cmds) w = probe_loop_any e v cmds ?wone"
    from Cons.IH [of ?wone] obtain r evs where
      "probe_loop_any e v cmds ?wone = (Inr r, snd (probe_loop_any e v cmds ?wone))"
      "events (snd (probe_loop_any e v cmds ?wone)) = events ?wone @ evs"
      "list_all (startup_event e) evs" "\<forall>p c. Wrote p c \<notin> set evs" by blast
    with s show ?thesis
      by (intro exI [of _ r] exI [of _ "Spawned [cmd, ''--version''] # evs"]) simp
  qed
qed

lemma select_python_any_events:
  "\<exists>evs. events (snd (select_python_any e v w)) = events w @ evs
     \<and> list_all (startup_event e) evs \<and> (\<forall>p c. Wrote p c \<notin> set evs)"
proof (cases "candidates_any v")
  case (Inl x)
  then have "select_python_any e v w =
     (Inl x, w\<lparr>events := events w @ [Called Find_python_executable]\<rparr>)"
    by (simp add: select_python_any_def find_python_executable_any_def bnd_def)
  then show ?thesis
    by (intro exI [of _ "[Called Find_python_executable]"]) simp
next
  case (Inr cs)
  let ?wf = "w\<lparr>events := events w @ [Called Find_python_executable]\<rparr>"
  from probe_loop_any_events [of e v cs ?wf] obtain r w' evs where
    pl: "probe_loop_any e v cs ?wf = (Inr r, w')"
    and ev: "events w' = events w @ Called Find_python_executable # evs"
    and st: "list_all (startup_event e) evs" "\<forall>p c. Wrote p c \<notin> set evs" by auto
  from pl Inr have "find_python_executable_any e v w = (Inr r, w')"
    by (simp add: find_python_executable_any_def)
  then have "\<exists>s. events (snd (select_python_any e v w)) = events w' @ [Printed s]"
    by (cases r) (auto simp: select_python_any_def bnd_def thn_def)
  then obtain s where "events (snd (select_python_any e v w)) = events w' @ [Printed s]" ..
  with ev st show ?thesis
    by (intro exI [of _ "Called Find_python_executable # evs @ [Printed s]"]) simp
qed

lemma config_get_cases:
  "(\<exists>v. config_get c k d = ret v) \<or> (\<exists>x. config_get c k d = throw x)"
  by (cases c) (simp_all only: config_get_def json.case, blast+)

lemma get_join_cases:
  "(\<exists>s. bnd (config_get c k d) (os_path_join e dir) = ret s)
   \<or> (\<exists>x. bnd (config_get c k d) (os_path_join e dir) = throw x)"
proof -
  from config_get_cases [of c k d] show ?thesis
  proof (elim disjE exE)
    fix v assume "config_get c k d = ret v"
    then show ?thesis
      by (cases v) (simp_all only: os_path_join_def json.case bnd_ret, blast+)
  next
    fix x assume "config_get c k d = throw x"
    then have "bnd (config_get c k d) (os_path_join e dir) = throw x" by (simp only: bnd_throw)
    then show ?thesis by blast
  qed
qed

lemma prologue_events:
  "\<exists>evs. events (snd (prologue e w0)) = events w0 @ evs \<and> list_all (startup_event e) evs
     \<and> (os_path_exists (config_file e) w0 \<longrightarrow> (\<forall>p c. Wrote p c \<notin> set evs))"
proof -
  obtain rl wa where lc: "load_config e w0 = (rl, wa)" by (cases "load_config e w0")
  from load_config_events [of e w0] lc obtain evsl where
    el: "events wa = events w0 @ evsl" and sl: "list_all (startup_event e) evsl"
    and nl: "os_path_exists (config_file e) w0 \<longrightarrow> (\<forall>p c. Wrote p c \<notin> set evsl)"
    by auto
  show ?thesis
  proof (cases rl)
    case (Inl x)
    with lc have "prologue e w0 = (Inl x, wa)" by (simp add: prologue_def bnd_def)
    with el sl nl show ?thesis by auto
  next
    case (Inr cd)
    obtain config dir where cd: "cd = (config, dir)" by (cases cd)
    let ?wb = "wa\<lparr>events := events wa @ [Chdir dir]\<rparr>"
    let ?rest = "bnd (bnd (config_get config ''main_file'' ''main.py'') (os_path_join e dir)) (\<lambda>main_file.
      bnd (bnd (config_get config ''requirements_file'' ''requirements.txt'') (os_path_join e dir))
        (\<lambda>requirements_file.
      bnd (bnd (config_get config ''venv_dir'' ''venv'') (os_path_join e dir)) (\<lambda>venv_dir.
      bnd (config_get config ''python_version'' ''3.12'') (\<lambda>python_version.
      bnd (select_python_any e python_version) (\<lambda>selected_python.
        ret (dir, selected_python, venv_dir, requirements_file, main_file))))))"
    from lc Inr cd have p: "prologue e w0 = ?rest ?wb"
      by (simp add: prologue_def bnd_def [of "load_config e"])
    have "(\<exists>x. ?rest = throw x) \<or> (\<exists>v k. ?rest = bnd (select_python_any e v) (\<lambda>s. ret (k s)))"
    proof -
      from get_join_cases [of config "''main_file''" "''main.py''" e dir] show ?thesis
      proof (elim disjE exE)
        fix x assume "bnd (config_get config ''main_file'' ''main.py'') (os_path_join e dir) = throw x"
        then have "?rest = throw x" by (simp only: bnd_throw)
        then show ?thesis by blast
      next
        fix mf
        assume a1: "bnd (config_get config ''main_file'' ''main.py'') (os_path_join e dir) = ret mf"
        from get_join_cases [of config "''requirements_file''" "''requirements.txt''" e dir]
        show ?thesis
        proof (elim disjE exE)
          fix x
          assume "bnd (config_get config ''requirements_file'' ''requirements.txt'')
                    (os_path_join e dir) = throw x"
          with a1 have "?rest = throw x" by (simp only: bnd_ret bnd_throw)
          then show ?thesis by blast
        next
          fix req
          assume a2: "bnd (config_get config ''requirements_file'' ''requirements.txt'')
                    (os_path_join e dir) = ret req"
          from get_join_cases [of config "''venv_dir''" "''venv''" e dir] show ?thesis
          proof (elim disjE exE)
            fix x
            assume "bnd (config_get config ''venv_dir'' ''venv'') (os_path_join e dir) = throw x"
            with a1 a2 have "?rest = throw x" by (simp only: bnd_ret bnd_throw)
            then show ?thesis by blast
          next
            fix venv
            assume a3: "bnd (config_get config ''venv_dir'' ''venv'') (os_path_join e dir) = ret venv"
            from config_get_cases [of config "''python_version''" "''3.12''"] show ?thesis
            proof (elim disjE exE)
              fix x assume "config_get config ''python_version'' ''3.12'' = throw x"
              with a1 a2 a3 have "?rest = throw x" by (simp only: bnd_ret bnd_throw)
              then show ?thesis by blast
            next
              fix v assume "config_get config ''python_version'' ''3.12'' = ret v"
              with a1 a2 a3 have eq: "?rest = bnd (select_python_any e v)
                  (\<lambda>s. ret (dir, s, venv, req, mf))"
                by (simp only: bnd_ret)
              show ?thesis
                by (rule disjI2, rule exI [of _ v], rule exI [of _ "\<lambda>s. (dir, s, venv, req, mf)"])
                  (rule eq)
            qed
          qed
        qed
      qed
    qed
    then show ?thesis
    proof (elim disjE exE)
      fix x assume "?rest = throw x"
      with p have "prologue e w0 = (Inl x, ?wb)" by simp
      with el sl nl show ?thesis
        by (intro exI [of _ "evsl @ [Chdir dir]"]) simp
    next
      fix v k assume r: "?rest = bnd (select_python_any e v) (\<lambda>s. ret (k s))"
      have "prologue e w0 = bnd (select_python_any e v) (\<lambda>s. ret (k s)) ?wb"
        unfolding p r ..
      then have "snd (prologue e w0) = snd (select_python_any e v ?wb)"
        by (simp add: bnd_def split: prod.splits sum.splits)
      with select_python_any_events [of e v ?wb] obtain evs where
        "events (snd (prologue e w0)) = events ?wb @ evs" "list_all (startup_event e) evs"
        "\<forall>p c. Wrote p c \<notin> set evs" by auto
      with el sl nl show ?thesis
        by (intro exI [of _ "evsl @ Chdir dir # evs"]) simp
    qed
  qed
qed


section \<open>The effects of each mode\<close>

lemma demo_main_install_only:
  "fst (main (demo_env [''install-only'']) empty_world) = Inr ()"
proof -
  let ?e = "demo_env [''install-only'']"
  let ?wone = "demo_start\<lparr>fs := (fs demo_start)(''/p/venv'' \<mapsto> Dir),
        events := events demo_start @
          [Called Create_virtualenv, Printed ''Creating virtual environment...'',
           Spawned [''python3'', ''-m'', ''venv'', ''/p/venv''], Printed ''Upgrading pip...'',
           Spawned [''/p/venv/bin/python'', ''-m'', ''pip'', ''install'', ''--upgrade'', ''pip'']]\<rparr>"
  have cs: "clean_step ?e (clean_requested (argv ?e)) ''/p/venv'' demo_start = (Inr (), demo_start)"
    by (rule clean_step_skip) (simp add: demo_mode_install_only)
  have s1: "ensure_venv ?e ''python3'' ''/p/venv'' demo_start = (Inr (), ?wone)"
    by (simp only: demo_ensure_fresh [OF demo_lookup_start(1)] demo_create_virtualenv)
  obtain wtwo where
    s2: "install_requirements ?e ''/p/venv'' ''/p/requirements.txt'' ?wone = (Inr (), wtwo)"
    by (simp only: demo_install_requirements)
  have d: "dispatch ?e ''install-only'' ''python3'' ''/p/venv'' ''/p/requirements.txt''
      ''/p/main.py'' demo_start = (Inr (), wtwo)"
    by (simp add: dispatch_def thn_apply [of "ensure_venv _ _ _"] s1 s2)
  from run_mode_steps [OF cs, of "''python3''" "''/p/requirements.txt''" "''/p/main.py''"
      wtwo "''/p''"] d
  have "run_mode ?e ''/p'' ''python3'' ''/p/venv'' ''/p/requirements.txt'' ''/p/main.py''
      demo_start = cleanup_temp_files ?e ''/p'' wtwo"
    by (simp only: demo_mode_install_only)
  then show ?thesis
    by (simp only: main_at_dispatch [OF demo_prologue [of "[''install-only'']"]]
        cleanup_temp_files_eq fst_conv)
qed

text \<open>
  C1. In every run of \<open>main\<close> the four effects occur as documented for the selected
  mode, the \<open>--clean\<close> flag and the existence of the environment directory when \<open>main\<close>
  reaches the argument loop. Before that point \<open>main\<close> performs none of them. From there,
  either \<open>main\<close> performs exactly the documented effects, in their order, and then returns
  or, in \<open>run-only\<close> mode without an environment, exits with status 1; or one of the
  documented effects raises, in which case the effects before it have been performed, it
  is the last one started, and its exception ends the run. In \<open>install-only\<close> mode the
  script runner is never called.
\<close>

theorem mode_effects:
  assumes run: "main e w0 = (r, w')"
  shows "\<exists>evs. events w' = events w0 @ evs \<and>
     (case prologue e w0 of
        (Inl x, w) \<Rightarrow> r = Inl x \<and> w' = w \<and> effects evs = []
      | (Inr (dir, sel, venv, req, mf), w) \<Rightarrow>
          (let mode = selected_mode (argv e); clean = clean_requested (argv e);
               doc = documented_effects mode clean (os_path_exists venv w)
           in (r = (if mode = ''run-only'' \<and> (clean \<or> \<not> os_path_exists venv w)
                    then Inl (SystemExit 1) else Inr ())
                 \<and> effects evs = doc
               \<or> (\<exists>k<length doc. \<exists>evs1 evs2 wk x.
                     r = Inl x \<and> (\<forall>n. x \<noteq> SystemExit n) \<and> evs = evs1 @ evs2
                   \<and> events wk = events w0 @ evs1 \<and> effects evs1 = take k doc
                   \<and> prefix (effects evs2) [doc ! k]
                   \<and> perform e sel venv req mf (doc ! k) wk = (Inl x, w')))
              \<and> (mode = ''install-only'' \<longrightarrow> Called Run_main_script \<notin> set evs)))"
proof -
  obtain rp w where pr: "prologue e w0 = (rp, w)" by (cases "prologue e w0")
  from prologue_events [of e w0] pr obtain evs0 where
    e0: "events w = events w0 @ evs0" and s0: "list_all (startup_event e) evs0"
    by auto
  from startup_effects [OF s0] have f0: "effects evs0 = []"
    and n0: "Called Run_main_script \<notin> set evs0" by simp_all
  show ?thesis
  proof (cases rp)
    case (Inl x)
    with pr run have "r = Inl x" "w' = w" by (simp_all add: main_prologue bnd_def)
    with e0 f0 pr Inl show ?thesis by (intro exI [of _ evs0]) simp
  next
    case (Inr t)
    obtain dir sel venv req mf where t: "t = (dir, sel, venv, req, mf)" by (cases t)
    let ?mode = "selected_mode (argv e)"
    let ?clean = "clean_requested (argv e)"
    let ?doc = "documented_effects ?mode ?clean (os_path_exists venv w)"
    from pr Inr t have at: "prologue e w0 = (Inr (dir, sel, venv, req, mf), w)" by simp
    from main_at_dispatch [OF at] run
    have rm: "run_mode e dir sel venv req mf w = (r, w')" by simp
    from run_mode_outcome [OF rm refl] obtain evs where
      ev: "events w' = events w @ evs"
      and rs: "Called Run_main_script \<in> set evs \<longrightarrow> Run_script \<in> set ?doc"
      and out: "r = (if ?mode = ''run-only'' \<and> (?clean \<or> \<not> os_path_exists venv w)
                then Inl (SystemExit 1) else Inr ())
           \<and> effects evs = ?doc
         \<or> (\<exists>k<length ?doc. \<exists>evs1 evs2 wk x.
               r = Inl x \<and> (\<forall>n. x \<noteq> SystemExit n) \<and> evs = evs1 @ evs2
             \<and> events wk = events w @ evs1 \<and> effects evs1 = take k ?doc
             \<and> prefix (effects evs2) [?doc ! k]
             \<and> perform e sel venv req mf (?doc ! k) wk = (Inl x, w'))"
      by blast
    from ev e0 have ev': "events w' = events w0 @ (evs0 @ evs)" by simp
    have io: "Called Run_main_script \<notin> set (evs0 @ evs)" if "?mode = ''install-only''"
    proof -
      from that have "Run_script \<notin> set ?doc" by (simp add: documented_effects_def)
      with rs n0 show ?thesis by auto
    qed
    from out have out': "r = (if ?mode = ''run-only'' \<and> (?clean \<or> \<not> os_path_exists venv w)
                then Inl (SystemExit 1) else Inr ())
           \<and> effects (evs0 @ evs) = ?doc
         \<or> (\<exists>k<length ?doc. \<exists>evs1 evs2 wk x.
               r = Inl x \<and> (\<forall>n. x \<noteq> SystemExit n) \<and> evs0 @ evs = evs1 @ evs2
             \<and> events wk = events w0 @ evs1 \<and> effects evs1 = take k ?doc
             \<and> prefix (effects evs2) [?doc ! k]
             \<and> perform e sel venv req mf (?doc ! k) wk = (Inl x, w'))"
    proof
      assume "r = (if ?mode = ''run-only'' \<and> (?clean \<or> \<not> os_path_exists venv w)
                then Inl (SystemExit 1) else Inr ())
           \<and> effects evs = ?doc"
      with f0 show ?thesis by simp
    next
      assume "\<exists>k<length ?doc. \<exists>evs1 evs2 wk x.
               r = Inl x \<and> (\<forall>n. x \<noteq> SystemExit n) \<and> evs = evs1 @ evs2
             \<and> events wk = events w @ evs1 \<and> effects evs1 = take k ?doc
             \<and> prefix (effects evs2) [?doc ! k]
             \<and> perform e sel venv req mf (?doc ! k) wk = (Inl x, w')"
      then obtain k evs1 evs2 wk x where
        k: "k < length ?doc" and r: "r = Inl x" and nx: "\<forall>n. x \<noteq> SystemExit n"
        and sp: "evs = evs1 @ evs2" and wk: "events wk = events w @ evs1"
        and tk: "effects evs1 = take k ?doc" and pf2: "prefix (effects evs2) [?doc ! k]"
        and pk: "perform e sel venv req mf (?doc ! k) wk = (Inl x, w')"
        by blast
      have "\<exists>evs1' evs2' wk' x'.
               r = Inl x' \<and> (\<forall>n. x' \<noteq> SystemExit n) \<and> evs0 @ evs = evs1' @ evs2'
             \<and> events wk' = events w0 @ evs1' \<and> effects evs1' = take k ?doc
             \<and> prefix (effects evs2') [?doc ! k]
             \<and> perform e sel venv req mf (?doc ! k) wk' = (Inl x', w')"
        using r nx sp wk tk pf2 pk e0 f0
        by (intro exI [of _ "evs0 @ evs1"] exI [of _ evs2] exI [of _ wk] exI [of _ x]) simp
      with k show ?thesis by blast
    qed
    from ev' out' io at show ?thesis
      by (intro exI [of _ "evs0 @ evs"]) (simp add: Let_def)
  qed
qed

theorem mode_effects_witness:
  "fst (main (demo_env [''install-only'']) empty_world) = Inr ()
   \<and> effects (events (snd (main (demo_env [''install-only'']) empty_world)))
       = [Create_env, Install_deps]
   \<and> Called Run_main_script
       \<notin> set (events (snd (main (demo_env [''install-only'']) empty_world)))"
proof -
  let ?e = "demo_env [''install-only'']"
  have run: "main ?e empty_world = (fst (main ?e empty_world), snd (main ?e empty_world))"
    by simp
  have de: "documented_effects ''install-only'' False False = [Create_env, Install_deps]"
    by (simp add: documented_effects_def)
  from mode_effects [OF run] obtain evs where
    ev: "events (snd (main ?e empty_world)) = events empty_world @ evs"
    and out: "fst (main ?e empty_world) = Inr () \<and> effects evs = [Create_env, Install_deps]
        \<or> (\<exists>x. fst (main ?e empty_world) = Inl x)"
    and io: "Called Run_main_script \<notin> set evs"
    by (auto simp: demo_prologue demo_mode_install_only demo_start_no_venv de Let_def)
  from out demo_main_install_only have "effects evs = [Create_env, Install_deps]" by auto
  with ev io demo_main_install_only show ?thesis by (simp add: empty_world_def)
qed

section \<open>The run-only mode without an environment\<close>

lemma main_run_only_absent:
  assumes at: "prologue e w0 = (Inr (dir, sel, venv, req, mf), w)"
    and mode: "selected_mode (argv e) = ''run-only''"
    and absent: "\<not> os_path_exists venv w"
  shows "main e w0 =
     (Inl (SystemExit 1),
      w\<lparr>events := events w @
        [Printed ''Virtual environment not found. Run with: python setup.py install-only or full'']\<rparr>)"
proof -
  from absent have c: "clean_step e (clean_requested (argv e)) venv w = (Inr (), w)"
    by (simp add: clean_step_skip)
  note d = dispatch_run_only_absent [OF absent, of e sel req mf]
  from run_mode_dispatch_raises [OF c, of sel req mf "SystemExit 1" _ dir] d mode
  have "run_mode e dir sel venv req mf w =
     (Inl (SystemExit 1),
      w\<lparr>events := events w @
        [Printed ''Virtual environment not found. Run with: python setup.py install-only or full'']\<rparr>)"
    by simp
  with main_at_dispatch [OF at] show ?thesis by simp
qed

lemma demo_main_run_only:
  "main (demo_env [''run-only'']) empty_world =
     (Inl (SystemExit 1),
      demo_start\<lparr>events := events demo_start @
        [Printed ''Virtual environment not found. Run with: python setup.py install-only or full'']\<rparr>)"
  by (rule main_run_only_absent [OF demo_prologue demo_mode_run_only(1) demo_start_no_venv])

text \<open>
  C2, amended. When \<open>main\<close> reaches the argument loop with the mode \<open>run-only\<close> and the
  environment directory does not exist, it prints the error message and exits with
  status 1: from that point it spawns nothing, writes nothing, removes nothing and does
  not call the cleanup. Before that point it has only loaded the configuration, changed
  the directory and looked for the interpreter: every process it has spawned is a
  \<open>--version\<close> probe, nothing has been removed, and the only file it can have written is
  the default configuration, which it writes only when the configuration file did not
  exist.
\<close>

theorem run_only_without_environment:
  assumes at: "prologue e w0 = (Inr (dir, sel, venv, req, mf), w)"
    and mode: "selected_mode (argv e) = ''run-only''"
    and absent: "\<not> os_path_exists venv w"
  shows "main e w0 =
     (Inl (SystemExit 1),
      w\<lparr>events := events w @
        [Printed ''Virtual environment not found. Run with: python setup.py install-only or full'']\<rparr>)
   \<and> exit_status (fst (main e w0)) = 1
   \<and> (\<exists>evs. events w = events w0 @ evs \<and> list_all (startup_event e) evs
      \<and> (os_path_exists (config_file e) w0 \<longrightarrow> (\<forall>p c. Wrote p c \<notin> set evs)))"
proof -
  note m = main_run_only_absent [OF at mode absent]
  from m have "exit_status (fst (main e w0)) = 1" by (simp add: exit_status_def)
  with m prologue_events [of e w0] at show ?thesis by auto
qed

theorem run_only_without_environment_witness:
  "main (demo_env [''run-only'']) empty_world =
     (Inl (SystemExit 1),
      demo_start\<lparr>events := events demo_start @
        [Printed ''Virtual environment not found. Run with: python setup.py install-only or full'']\<rparr>)
   \<and> exit_status (fst (main (demo_env [''run-only'']) empty_world)) = 1"
  using run_only_without_environment [OF demo_prologue demo_mode_run_only(1) demo_start_no_venv]
  by (simp add: exit_status_def)

text \<open>
  C2 as the specification words it. In \<open>run-only\<close> mode, on a machine with neither an
  environment directory nor a configuration file, \<open>main\<close> exits with status 1 and has
  written a file: the default configuration.
\<close>

theorem run_only_writes_config_counterexample:
  "selected_mode (argv (demo_env [''run-only''])) = ''run-only''
   \<and> fs empty_world ''/p/venv'' = None
   \<and> fs empty_world ''/p/setup-config.json'' = None
   \<and> fst (main (demo_env [''run-only'']) empty_world) = Inl (SystemExit 1)
   \<and> fs (snd (main (demo_env [''run-only'']) empty_world)) ''/p/setup-config.json''
       = Some (File (Json default_config))
   \<and> Wrote ''/p/setup-config.json'' (Json default_config)
       \<in> set (events (snd (main (demo_env [''run-only'']) empty_world)))"
  unfolding demo_main_run_only
  by (simp add: demo_mode_run_only(1) demo_start_def empty_world_def)

section \<open>Two runs in full mode\<close>

lemma effects_calls:
  "(Create_env \<in> set (effects evs)) = (Called Create_virtualenv \<in> set evs)"
  "(Install_deps \<in> set (effects evs)) = (Called Install_requirements \<in> set evs)"
  "(Run_script \<in> set (effects evs)) = (Called Run_main_script \<in> set evs)"
proof (induction evs)
  case Nil
  { case 1 show ?case by simp
  next case 2 show ?case by simp
  next case 3 show ?case by simp }
next
  case (Cons a evs)
  { case 1 with Cons show ?case by (cases a rule: effect_of.cases) auto
  next case 2 with Cons show ?case by (cases a rule: effect_of.cases) auto
  next case 3 with Cons show ?case by (cases a rule: effect_of.cases) auto }
qed

lemma main_returns_effects:
  assumes at: "prologue e w0 = (Inr (dir, sel, venv, req, mf), w)"
    and run: "main e w0 = (Inr (), w')"
  shows "\<exists>evs. events w' = events w0 @ evs
      \<and> effects evs = documented_effects (selected_mode (argv e)) (clean_requested (argv e))
                         (os_path_exists venv w)"
proof -
  from prologue_events [of e w0] at obtain evs0 where
    e0: "events w = events w0 @ evs0" and s0: "list_all (startup_event e) evs0"
    by auto
  from startup_effects [OF s0] have f0: "effects evs0 = []" by simp
  from main_at_dispatch [OF at] run
  have rm: "run_mode e dir sel venv req mf w = (Inr (), w')" by simp
  from run_mode_outcome [OF rm refl] obtain evs where
    "events w' = events w @ evs"
    "effects evs = documented_effects (selected_mode (argv e)) (clean_requested (argv e))
                     (os_path_exists venv w)"
    by auto
  with e0 f0 show ?thesis by (intro exI [of _ "evs0 @ evs"]) simp
qed

lemma keptI: "(\<And>w. fs w v \<noteq> None \<Longrightarrow> fs (snd (m w)) v \<noteq> None) \<Longrightarrow> kept v m"
  by (simp add: kept_def)

lemma keptD: "kept v m \<Longrightarrow> fs w v \<noteq> None \<Longrightarrow> m w = (r, w') \<Longrightarrow> fs w' v \<noteq> None"
  by (auto simp: kept_def)

lemma kept_ret: "kept v (ret x)"
  by (simp add: kept_def)

lemma kept_throw: "kept v (throw x)"
  by (simp add: kept_def)

lemma kept_log: "kept v (log ev)"
  by (simp add: kept_def)

lemma kept_print: "kept v (print s)"
  by (simp add: kept_def)

lemma kept_bnd:
  assumes "kept v m" and "\<And>a. kept v (f a)"
  shows "kept v (bnd m f)"
proof (rule keptI)
  fix w :: world assume w: "fs w v \<noteq> None"
  obtain r w1 where m: "m w = (r, w1)" by (cases "m w")
  from keptD [OF assms(1) w m] have w1: "fs w1 v \<noteq> None" .
  show "fs (snd (bnd m f w)) v \<noteq> None"
  proof (cases r)
    case (Inl x)
    with m w1 show ?thesis by (simp add: bnd_def)
  next
    case (Inr a)
    obtain r2 w2 where f: "f a w1 = (r2, w2)" by (cases "f a w1")
    from keptD [OF assms(2) w1 f] m Inr f show ?thesis by (simp add: bnd_def)
  qed
qed

lemma kept_thn: "kept v m \<Longrightarrow> kept v n \<Longrightarrow> kept v (thn m n)"
  unfolding thn_def by (rule kept_bnd)

lemma kept_unless_exists: "kept v body \<Longrightarrow> kept v (unless_exists p body)"
  by (simp add: kept_def unless_exists_def)

lemma kept_write_file: "kept v (write_file e p c)"
  by (simp add: kept_def write_file_def)

lemma kept_json_load_file: "kept v (json_load_file e p)"
  by (auto simp: kept_def json_load_file_def split: option.splits node.splits content.splits)

lemma kept_spawn:
  assumes "children_keep e v" and "fs w v \<noteq> None"
  shows "fs (snd (spawn e cmd w)) v \<noteq> None"
proof -
  let ?w1 = "w\<lparr>events := events w @ [Spawned cmd]\<rparr>"
  obtain res f where p: "proc e cmd ?w1 = (res, f)" by (cases "proc e cmd ?w1")
  from assms have "snd (proc e cmd ?w1) v \<noteq> None" by (simp add: children_keep_def)
  with p have "f v \<noteq> None" by simp
  with p assms(2) show ?thesis by (cases res) (simp_all add: spawn_def)
qed

lemma kept_subprocess_run: "children_keep e v \<Longrightarrow> kept v (subprocess_run e cmd)"
proof (rule keptI)
  fix w :: world assume k: "children_keep e v" and w: "fs w v \<noteq> None"
  obtain res w' where s: "spawn e cmd w = (res, w')" by (cases "spawn e cmd w")
  from kept_spawn [OF k w, of cmd] s have "fs w' v \<noteq> None" by simp
  with s show "fs (snd (subprocess_run e cmd w)) v \<noteq> None"
    by (cases res) (simp_all add: subprocess_run_def)
qed

lemma kept_check_output_decode: "children_keep e v \<Longrightarrow> kept v (check_output_decode e cmd)"
proof (rule keptI)
  fix w :: world assume k: "children_keep e v" and w: "fs w v \<noteq> None"
  obtain res w' where s: "spawn e cmd w = (res, w')" by (cases "spawn e cmd w")
  from kept_spawn [OF k w, of cmd] s have "fs w' v \<noteq> None" by simp
  with s show "fs (snd (check_output_decode e cmd w)) v \<noteq> None"
    by (cases res) (simp_all add: check_output_decode_def split: option.splits)
qed

lemma kept_load_config: "kept v (load_config e)"
  unfolding load_config_def
  by (intro kept_thn kept_bnd kept_log kept_print kept_unless_exists kept_write_file
      kept_json_load_file kept_ret)

lemma kept_probe_loop_any: "children_keep e v \<Longrightarrow> kept v (probe_loop_any e ver cs)"
proof (induction cs)
  case Nil
  show ?case by (simp add: kept_def)
next
  case (Cons cmd cmds)
  show ?case
  proof (rule keptI)
    fix w :: world assume w: "fs w v \<noteq> None"
    obtain r w' where p: "check_output_decode e [cmd, ''--version''] w = (r, w')"
      by (cases "check_output_decode e [cmd, ''--version''] w")
    from keptD [OF kept_check_output_decode [OF Cons.prems] w p] have w': "fs w' v \<noteq> None" .
    from Cons have "kept v (probe_loop_any e ver cmds)" by simp
    with w' have rest: "fs (snd (probe_loop_any e ver cmds w')) v \<noteq> None"
      by (simp add: kept_def)
    show "fs (snd (probe_loop_any e ver (cmd # cmds) w)) v \<noteq> None"
    proof (cases r)
      case (Inl x)
      with p w' rest show ?thesis by (cases x) simp_all
    next
      case (Inr out)
      with p w' rest show ?thesis by (cases ver) simp_all
    qed
  qed
qed

lemma kept_select_python_any: "children_keep e v \<Longrightarrow> kept v (select_python_any e ver)"
proof -
  assume k: "children_keep e v"
  have f: "kept v (find_python_executable_any e ver)"
    unfolding find_python_executable_any_def
    by (cases "candidates_any ver")
      (simp_all add: kept_thn kept_log kept_throw kept_probe_loop_any [OF k])
  show ?thesis
    unfolding select_python_any_def
  proof (rule kept_bnd [OF f])
    fix a
    show "kept v (case a of
         Some s \<Rightarrow>
           if s \<noteq> [] then thn (print (''Found Python '' @ format ver @ '': '' @ s)) (ret s)
           else thn (print (''Warning: Could not find python'' @ format ver
                            @ ''. Using current Python: '' @ sys_version e)) (ret (executable e))
       | None \<Rightarrow>
           thn (print (''Warning: Could not find python'' @ format ver
                       @ ''. Using current Python: '' @ sys_version e)) (ret (executable e)))"
      by (cases a) (simp_all add: kept_thn kept_print kept_ret)
  qed
qed

lemma kept_config_get: "kept v (config_get c k d)"
  by (cases c) (simp_all add: config_get_def kept_ret kept_throw)

lemma kept_os_path_join: "kept v (os_path_join e a b)"
  by (cases b) (simp_all add: os_path_join_def kept_ret kept_throw)

lemma kept_prologue: "children_keep e v \<Longrightarrow> kept v (prologue e)"
  unfolding prologue_def
  by (intro kept_bnd kept_thn kept_load_config kept_log kept_config_get kept_os_path_join
      kept_select_python_any kept_ret) (auto intro!: kept_bnd kept_thn kept_log kept_config_get
      kept_os_path_join kept_select_python_any kept_ret)

lemma kept_install_requirements:
  "children_keep e v \<Longrightarrow> kept v (install_requirements e venv req)"
  unfolding install_requirements_def
  by (intro kept_thn kept_log kept_print kept_unless_exists kept_write_file kept_subprocess_run)

lemma kept_run_main_script:
  "children_keep e v \<Longrightarrow> kept v (run_main_script e venv mf)"
  unfolding run_main_script_def
  by (intro kept_thn kept_log kept_print kept_unless_exists kept_write_file kept_subprocess_run)

lemma kept_cleanup_temp_files:
  "v \<noteq> temp_file e dir \<Longrightarrow> kept v (cleanup_temp_files e dir)"
  by (auto simp: kept_def cleanup_temp_files_eq split: option.splits node.splits)

lemma create_virtualenv_makes:
  assumes k: "children_keep e v" and m: "venv_makes e py v"
    and c: "create_virtualenv e py v w = (Inr a, w')"
  shows "fs w' v \<noteq> None"
proof -
  let ?wone = "w\<lparr>events := events w @ [Called Create_virtualenv,
      Printed ''Creating virtual environment...'']\<rparr>"
  let ?wsp = "?wone\<lparr>events := events ?wone @ [Spawned [py, ''-m'', ''venv'', v]]\<rparr>"
  obtain res f where p: "proc e [py, ''-m'', ''venv'', v] ?wsp = (res, f)"
    by (cases "proc e [py, ''-m'', ''venv'', v] ?wsp")
  from c have "\<exists>w2. subprocess_run e [py, ''-m'', ''venv'', v] ?wone = (Inr (), w2)
      \<and> thn (print ''Upgrading pip...'')
          (subprocess_run e
             [get_tool_path e v ''python'', ''-m'', ''pip'', ''install'', ''--upgrade'', ''pip''])
          w2 = (Inr a, w')"
    by (auto simp: create_virtualenv_def thn_apply [of "subprocess_run _ _"]
        split: prod.splits sum.splits)
  then obtain w2 where
    s1: "subprocess_run e [py, ''-m'', ''venv'', v] ?wone = (Inr (), w2)"
    and s2: "thn (print ''Upgrading pip...'')
          (subprocess_run e
             [get_tool_path e v ''python'', ''-m'', ''pip'', ''install'', ''--upgrade'', ''pip''])
          w2 = (Inr a, w')"
    by blast
  from s1 p have "\<exists>out. res = Exited 0 out \<and> w2 = ?wsp\<lparr>fs := f\<rparr>"
    by (cases res) (auto simp: subprocess_run_def spawn_def split: if_splits)
  then obtain out where res: "res = Exited 0 out" and w2: "w2 = ?wsp\<lparr>fs := f\<rparr>" by blast
  from m p res have "f v \<noteq> None" by (auto simp: venv_makes_def)
  with w2 have e2: "fs w2 v \<noteq> None" by simp
  have kp: "kept v (thn (print ''Upgrading pip...'')
          (subprocess_run e
             [get_tool_path e v ''python'', ''-m'', ''pip'', ''install'', ''--upgrade'', ''pip'']))"
    by (intro kept_thn kept_print kept_subprocess_run k)
  from keptD [OF kp e2 s2] show ?thesis .
qed

lemma thn_returns:
  "thn m n w = (Inr a, w') \<Longrightarrow> \<exists>b w1. m w = (Inr b, w1) \<and> n w1 = (Inr a, w')"
  by (auto simp: thn_apply split: prod.splits sum.splits)

lemma full_run_leaves_environment:
  assumes k: "children_keep e venv" and m: "venv_makes e sel venv"
    and apart: "venv \<noteq> temp_file e dir"
    and mode: "selected_mode (argv e) = ''full''" and noclean: "\<not> clean_requested (argv e)"
    and run: "run_mode e dir sel venv req mf w = (Inr (), w')"
  shows "os_path_exists venv w'"
proof -
  from noclean have cs: "clean_step e (clean_requested (argv e)) venv w = (Inr (), w)"
    by (simp add: clean_step_skip)
  from run have "thn (ensure_venv e sel venv)
      (thn (install_requirements e venv req)
        (thn (run_main_script e venv mf) (cleanup_temp_files e dir))) w = (Inr (), w')"
    by (simp add: run_mode_def thn_apply [of "clean_step _ _ _"] cs mode dispatch_full thn_assoc)
  from thn_returns [OF this] obtain b we where
    en: "ensure_venv e sel venv w = (Inr b, we)"
    and rest: "thn (install_requirements e venv req)
        (thn (run_main_script e venv mf) (cleanup_temp_files e dir)) we = (Inr (), w')"
    by blast
  have we: "fs we venv \<noteq> None"
  proof (cases "os_path_exists venv w")
    case True
    with en show ?thesis by (auto simp: ensure_venv_def unless_exists_def os_path_exists_def)
  next
    case False
    with en have "create_virtualenv e sel venv w = (Inr b, we)"
      by (simp add: ensure_venv_def unless_exists_def)
    from create_virtualenv_makes [OF k m this] show ?thesis .
  qed
  have "kept venv (thn (install_requirements e venv req)
        (thn (run_main_script e venv mf) (cleanup_temp_files e dir)))"
    by (intro kept_thn kept_install_requirements kept_run_main_script kept_cleanup_temp_files
        k apart)
  from keptD [OF this we rest] show ?thesis by (simp add: os_path_exists_def)
qed

text \<open>
  C8. Two runs of \<open>main\<close> in \<open>full\<close> mode without \<open>--clean\<close>, the second started in the
  world the first has left, both returning, with the same environment directory in both;
  on a machine where a successful \<open>venv\<close> command leaves the directory it was given and no
  child process removes that directory, which is not the temporary file of the cleanup.
  Each run calls the dependency installer and then the script runner. The first run
  creates the environment exactly when the directory does not exist as the run checks for
  it. The directory exists when the first run has returned, and still when the second run
  checks for it: the second run does not create the environment again, since the
  existence of the directory is all its guard looks at.
\<close>

theorem full_twice:
  assumes mode: "selected_mode (argv e) = ''full''"
    and noclean: "\<not> clean_requested (argv e)"
    and run1: "main e w0 = (Inr (), w1)"
    and run2: "main e w1 = (Inr (), w2)"
    and at1: "prologue e w0 = (Inr (dir, sel, venv, req, mf), wa)"
    and at2: "prologue e w1 = (Inr (dir', sel', venv, req', mf'), wb)"
    and keep: "children_keep e venv"
    and make: "venv_makes e sel venv"
    and apart: "venv \<noteq> temp_file e dir"
  shows "(\<exists>evs. events w1 = events w0 @ evs
           \<and> effects evs = (if os_path_exists venv wa then [] else [Create_env])
                             @ [Install_deps, Run_script]
           \<and> Called Install_requirements \<in> set evs \<and> Called Run_main_script \<in> set evs
           \<and> (Called Create_virtualenv \<in> set evs) = (\<not> os_path_exists venv wa))
       \<and> os_path_exists venv w1
       \<and> os_path_exists venv wb
       \<and> (\<exists>evs. events w2 = events w1 @ evs
           \<and> effects evs = [Install_deps, Run_script]
           \<and> Called Install_requirements \<in> set evs \<and> Called Run_main_script \<in> set evs
           \<and> Called Create_virtualenv \<notin> set evs)"
proof -
  have doc: "documented_effects (selected_mode (argv e)) (clean_requested (argv e)) ex
      = (if ex then [] else [Create_env]) @ [Install_deps, Run_script]" for ex
    using mode noclean by (simp add: documented_effects_def)
  have one: "\<exists>evs. events w' = events w @ evs
           \<and> effects evs = (if os_path_exists v wx then [] else [Create_env])
                             @ [Install_deps, Run_script]
           \<and> Called Install_requirements \<in> set evs \<and> Called Run_main_script \<in> set evs
           \<and> (Called Create_virtualenv \<in> set evs) = (\<not> os_path_exists v wx)"
    if at: "prologue e w = (Inr (d, s, v, rq, m), wx)" and run: "main e w = (Inr (), w')"
    for w w' d s v rq m wx
  proof -
    from main_returns_effects [OF at run] obtain evs where
      ev: "events w' = events w @ evs"
      and ef: "effects evs = (if os_path_exists v wx then [] else [Create_env])
                             @ [Install_deps, Run_script]"
      by (auto simp only: doc)
    from ef have "Install_deps \<in> set (effects evs)" "Run_script \<in> set (effects evs)"
      "(Create_env \<in> set (effects evs)) = (\<not> os_path_exists v wx)"
      by auto
    then have "Called Install_requirements \<in> set evs" "Called Run_main_script \<in> set evs"
      "(Called Create_virtualenv \<in> set evs) = (\<not> os_path_exists v wx)"
      by (simp_all only: effects_calls)
    with ev ef show ?thesis by blast
  qed
  from main_at_dispatch [OF at1] run1
  have "run_mode e dir sel venv req mf wa = (Inr (), w1)" by simp
  from full_run_leaves_environment [OF keep make apart mode noclean this]
  have left: "os_path_exists venv w1" .
  from keptD [OF kept_prologue [OF keep] _ at2] left
  have there: "os_path_exists venv wb" by (simp add: os_path_exists_def)
  from one [OF at2 run2] there
  have two: "\<exists>evs. events w2 = events w1 @ evs
           \<and> effects evs = [Install_deps, Run_script]
           \<and> Called Install_requirements \<in> set evs \<and> Called Run_main_script \<in> set evs
           \<and> Called Create_virtualenv \<notin> set evs"
    by auto
  from one [OF at1 run1] left there two show ?thesis by blast
qed

lemma demo_children:
  "children_keep (demo_env args) v"
  "venv_makes (demo_env args) py v"
  by (auto simp: children_keep_def venv_makes_def demo_env_def demo_proc_def)

theorem full_twice_witness:
  "fst (main (demo_env [''full'']) empty_world) = Inr ()
   \<and> fst (main (demo_env [''full'']) (snd (main (demo_env [''full'']) empty_world))) = Inr ()
   \<and> effects (events (snd (main (demo_env [''full'']) empty_world)))
       = [Create_env, Install_deps, Run_script]
   \<and> effects (drop (length (events (snd (main (demo_env [''full'']) empty_world))))
        (events (snd (main (demo_env [''full''])
                        (snd (main (demo_env [''full'']) empty_world))))))
       = [Install_deps, Run_script]"
proof -
  let ?e = "demo_env [''full'']"
  have apart: "''/p/venv'' \<noteq> temp_file ?e ''/p''"
    by (simp add: demo_temp_file)
  note T = full_twice [OF demo_mode_full demo_main_full_fresh demo_main_full_again
      demo_prologue demo_prologue_present [OF demo_lookup_done(1)] demo_children apart]
  from T [THEN conjunct1] demo_start_no_venv obtain evs1 where
    a: "events demo_done = events empty_world @ evs1"
    "effects evs1 = [Create_env, Install_deps, Run_script]"
    by auto
  from T [THEN conjunct2, THEN conjunct2, THEN conjunct2] obtain evs2 where
    b: "events (demo_done\<lparr>events := events demo_done @ demo_second_run\<rparr>)
          = events demo_done @ evs2"
    "effects evs2 = [Install_deps, Run_script]"
    by auto
  from a have A: "effects (events demo_done) = [Create_env, Install_deps, Run_script]"
    by (simp add: empty_world_def)
  from b have B: "effects (drop (length (events demo_done))
      (events (demo_done\<lparr>events := events demo_done @ demo_second_run\<rparr>)))
       = [Install_deps, Run_script]"
    by simp
  from A B show ?thesis
    by (simp only: demo_main_full_fresh demo_main_full_again fst_conv snd_conv simp_thms)
qed

section \<open>The script as a whole\<close>

text \<open>
  The \<open>__main__\<close> block loads the configuration once more and prints the project name
  before it calls \<open>main\<close>: either it raises there, having performed none of the four
  effects, or it runs \<open>main\<close> from a world that differs from the initial one by events
  that are none of the four effects, and ends as \<open>main\<close> does.
\<close>

lemma script_then_main:
  assumes "script e w0 = (r, w')"
  shows "(\<exists>x evs. r = Inl x \<and> events w' = events w0 @ evs \<and> effects evs = [])
       \<or> (\<exists>ws evs. events ws = events w0 @ evs \<and> effects evs = [] \<and> main e ws = (r, w'))"
proof -
  obtain rl wa where lc: "load_config e w0 = (rl, wa)" by (cases "load_config e w0")
  from load_config_events [of e w0] lc obtain evsl where
    el: "events wa = events w0 @ evsl" and sl: "list_all (startup_event e) evsl"
    by auto
  from startup_effects [OF sl] have fl: "effects evsl = []" by simp
  show ?thesis
  proof (cases rl)
    case (Inl x)
    with lc assms have "r = Inl x" "w' = wa" by (simp_all add: script_def bnd_def)
    with el fl show ?thesis by blast
  next
    case (Inr cd)
    obtain config dir where cd: "cd = (config, dir)" by (cases cd)
    from config_get_cases [of config "''project_name''" "''Unnamed''"] show ?thesis
    proof (elim disjE exE)
      fix v assume g: "config_get config ''project_name'' ''Unnamed'' = ret v"
      let ?ws = "wa\<lparr>events := events wa @ [Printed (''Starting setup for project: '' @ format v)]\<rparr>"
      from lc Inr cd g assms have "main e ?ws = (r, w')"
        by (simp add: script_def bnd_def [of "load_config e"])
      moreover from el have "events ?ws = events w0 @
          (evsl @ [Printed (''Starting setup for project: '' @ format v)])"
        by simp
      moreover from fl have
        "effects (evsl @ [Printed (''Starting setup for project: '' @ format v)]) = []"
        by simp
      ultimately show ?thesis by blast
    next
      fix x assume g: "config_get config ''project_name'' ''Unnamed'' = throw x"
      from lc Inr cd g assms have "r = Inl x" "w' = wa"
        by (simp_all add: script_def bnd_def [of "load_config e"])
      with el fl show ?thesis by blast
    qed
  qed
qed

end
